theory Spec2Isabelle
  imports Complex_Main "HOL-Library.Word"
begin

section \<open>Depth-map integration: the data model\<close>

text \<open>
  A shallow embedding of \<^verbatim>\<open>depth-map-integration.cc\<close>. Timestamps are the
  source's \<^verbatim>\<open>int64_t\<close> (a 64-bit word: sums wrap around, comparisons are signed),
  the line count and the number of poses are \<^verbatim>\<open>uint32_t\<close>, sizes and loop cursors
  of type \<^verbatim>\<open>size_t\<close> are natural numbers (a buffer is far shorter than
  \<open>2 ^ 64\<close>). A rigid transformation is an element of a type with an associative composition
  \<open>*\<close>, an identity \<open>1\<close> (the default-constructed transformation) and \<open>inverse\<close>;
  rounding of the floating-point entries is outside the model.

  A failed \<^verbatim>\<open>CHECK\<close> and \<^verbatim>\<open>LOG(FATAL)\<close> abort the process: the result
  \<open>Fatal\<close>. \<^verbatim>\<open>LOG(WARNING)\<close> is recorded in the trace. \<^verbatim>\<open>VLOG\<close> output,
  timers and progress bars do not change what the functions do and are left out, and so is
  \<^verbatim>\<open>CHECK(sigint_breaker)\<close>, which holds whenever the breaker is enabled.
\<close>

type_synonym int64 = "64 word"
type_synonym uint32 = "32 word"
type_synonym MissionId = nat
type_synonym VertexId = nat
type_synonym SensorId = nat
type_synonym ResourceId = nat

text \<open>The resource types the source names; every other member of the enumeration is
  \<open>kOtherResourceType\<close>.\<close>

datatype ResourceType =
    kRawImage
  | kImageForDepthMap
  | kColorImageForDepthMap
  | kRawDepthMap
  | kOptimizedDepthMap
  | kOtherResourceType nat

datatype SensorType = kNCamera | kOtherSensorType nat

text \<open>Modelled from the spec: the set \<^verbatim>\<open>kSupportedDepthMapInputTypes\<close> is declared in
  the header, which is not part of the sources at hand; the spec gives its two members (raw
  depth map, optimized depth map).\<close>

definition kSupportedDepthMapInputTypes :: "ResourceType set" where
  "kSupportedDepthMapInputTypes = {kRawDepthMap, kOptimizedDepthMap}"

record Camera =
  getNumberOfLines :: uint32
  getLineDelayNanoSeconds :: int64

record 't NCamera =
  getNumCameras :: nat
  get_T_C_B :: "nat \<Rightarrow> 't"
  getCamera :: "nat \<Rightarrow> Camera"

text \<open>
  The map and its collaborators (sensor manager, pose interpolator, resource store), as the
  queries the two functions make. A resource lookup returns \<open>None\<close> where the source's
  lookup returns \<^verbatim>\<open>false\<close>; \<open>getSensorPtr\<close> returns \<open>None\<close> for a null pointer;
  \<open>getAllSensorResourceIdsOfType\<close> returns \<open>None\<close> for a null pointer and otherwise the
  sensors with their resource buffers in the iteration order of the unordered map.
  \<open>getVertexToTimeStampMap\<close> returns whether the vertex-to-time map is empty, and the
  minimal and maximal timestamp.
\<close>

record ('t, 'm) VIMap =
  hasNCamera :: "MissionId \<Rightarrow> bool"
  getNCameraId :: "MissionId \<Rightarrow> SensorId"
  getSensor :: "SensorId \<Rightarrow> 't NCamera"
  getSensorPtr :: "SensorId \<Rightarrow> 't NCamera option"
  getSensorType :: "SensorId \<Rightarrow> SensorType"
  getSensor_T_B_S :: "SensorId \<Rightarrow> 't"
  get_T_G_M :: "MissionId \<Rightarrow> 't"
  getAllVertexIdsInMissionAlongGraph :: "MissionId \<Rightarrow> VertexId list"
  get_T_M_I :: "VertexId \<Rightarrow> 't"
  numFrames :: "VertexId \<Rightarrow> nat"
  getFrameResource :: "VertexId \<Rightarrow> nat \<Rightarrow> ResourceType \<Rightarrow> 'm option"
  getVertexToTimeStampMap :: "MissionId \<Rightarrow> bool \<times> int64 \<times> int64"
  getAllSensorResourceIdsOfType ::
    "MissionId \<Rightarrow> ResourceType \<Rightarrow> (SensorId \<times> (int64 \<times> ResourceId) list) list option"
  getPosesAtTime :: "MissionId \<Rightarrow> int64 list \<Rightarrow> 't list"
  getSensorResource :: "MissionId \<Rightarrow> ResourceType \<Rightarrow> SensorId \<Rightarrow> int64 \<Rightarrow> 'm option"

text \<open>The command-line flags, and the break flag as the n-th poll of
  \<^verbatim>\<open>isBreakRequested\<close> observes it.\<close>

record Flags =
  enable_sigint_breaker :: bool
  timeshift_resource_to_imu_ns :: int64
  enable_rolling_shutter_compensation :: bool
  isBreakRequested :: "nat \<Rightarrow> bool"

text \<open>What a run does to the outside: polls of the break flag, warnings, the batched
  interpolation call, and calls of the integration function.\<close>

datatype ('t, 'm) event =
    Poll
  | WarningAborted
  | WarningOutside int64 int64
  | Interpolate MissionId "int64 list"
  | Dispatch "'t list" 'm "'m option" Camera

record ('t, 'm, 'st) run_state =
  trace :: "('t, 'm) event list"
  polls :: nat
  fusion :: 'st

text \<open>A loop body continues with the next item (\<open>Next\<close>), returns from the whole
  function (\<open>Return\<close>), or aborts the process through a failed \<^verbatim>\<open>CHECK\<close> or
  \<^verbatim>\<open>LOG(FATAL)\<close> (\<open>Fatal\<close>).\<close>

datatype 's flow = Next 's | Return 's | Fatal 's

fun state_of :: "'s flow \<Rightarrow> 's" where
  "state_of (Next s) = s"
| "state_of (Return s) = s"
| "state_of (Fatal s) = s"

fun is_Fatal :: "'s flow \<Rightarrow> bool" where
  "is_Fatal (Fatal s) = True"
| "is_Fatal (Next s) = False"
| "is_Fatal (Return s) = False"

fun for_each :: "('a \<Rightarrow> 's \<Rightarrow> 's flow) \<Rightarrow> 'a list \<Rightarrow> 's \<Rightarrow> 's flow" where
  "for_each body [] s = Next s"
| "for_each body (x # xs) s =
     (case body x s of
        Next s' \<Rightarrow> for_each body xs s'
      | Return s' \<Rightarrow> Return s'
      | Fatal s' \<Rightarrow> Fatal s')"

text \<open>The integration function takes the pose vector, the depth map, the companion image
  (\<open>None\<close> is the empty matrix) and the camera; it changes the state of the fusion, or
  aborts (\<open>None\<close>).\<close>

type_synonym ('t, 'm, 'st) DepthMapUndistortionAndIntegrationFunction =
  "'t list \<Rightarrow> 'm \<Rightarrow> 'm option \<Rightarrow> Camera \<Rightarrow> 'st \<Rightarrow> 'st option"

type_synonym ('t, 'm, 'st) DepthMapIntegrationFunction =
  "'t \<Rightarrow> 'm \<Rightarrow> 'm option \<Rightarrow> Camera \<Rightarrow> 'st \<Rightarrow> 'st option"

definition call_integration_function ::
  "('t, 'm, 'st) DepthMapUndistortionAndIntegrationFunction \<Rightarrow> 't list \<Rightarrow> 'm \<Rightarrow> 'm option
    \<Rightarrow> Camera \<Rightarrow> ('t, 'm, 'st) run_state \<Rightarrow> ('t, 'm, 'st) run_state flow" where
  "call_integration_function integration_function T_G_C_vec depth_map image_mat camera s =
     (let s1 = s\<lparr>trace := trace s @ [Dispatch T_G_C_vec depth_map image_mat camera]\<rparr>
      in case integration_function T_G_C_vec depth_map image_mat camera (fusion s1) of
           None \<Rightarrow> Fatal s1
         | Some st \<Rightarrow> Next (s1\<lparr>fusion := st\<rparr>))"

text \<open>The poll of the break flag at the start of an iteration: \<open>Inl\<close> is the early
  return, \<open>Inr\<close> the state the iteration goes on with.\<close>

definition check_sigint ::
  "Flags \<Rightarrow> ('t, 'm, 'st) run_state \<Rightarrow> ('t, 'm, 'st) run_state + ('t, 'm, 'st) run_state" where
  "check_sigint flags s =
     (if enable_sigint_breaker flags then
        (let s1 = s\<lparr>trace := trace s @ [Poll], polls := polls s + 1\<rparr>
         in if isBreakRequested flags (polls s)
            then Inl (s1\<lparr>trace := trace s1 @ [WarningAborted]\<rparr>)
            else Inr s1)
      else Inr s)"

section \<open>The frame-attached path\<close>

text \<open>Lines 33 to 145 of the source: \<open>integrate_frame\<close> is the body of the loop over the
  frames of a vertex (lines 94 to 142), \<open>integrate_vertex\<close> the body of the loop over the
  vertices (lines 74 to 143), \<open>integrate_frame_mission\<close> the body of the loop over the
  missions (lines 49 to 144).\<close>

text \<open>The companion image of a frame: the dedicated image for the depth map, else the raw
  image, else the empty matrix.\<close>

definition frame_companion_image ::
  "('t, 'm) VIMap \<Rightarrow> VertexId \<Rightarrow> nat \<Rightarrow> 'm option" where
  "frame_companion_image vi_map vertex frame_idx =
     (case getFrameResource vi_map vertex frame_idx kImageForDepthMap of
        Some img \<Rightarrow> Some img
      | None \<Rightarrow> getFrameResource vi_map vertex frame_idx kRawImage)"

definition integrate_frame ::
  "('t::{monoid_mult,inverse}, 'm) VIMap \<Rightarrow> ResourceType
    \<Rightarrow> ('t, 'm, 'st) DepthMapUndistortionAndIntegrationFunction
    \<Rightarrow> 't NCamera \<Rightarrow> 't \<Rightarrow> 't \<Rightarrow> VertexId \<Rightarrow> nat
    \<Rightarrow> ('t, 'm, 'st) run_state \<Rightarrow> ('t, 'm, 'st) run_state flow" where
  "integrate_frame vi_map input_resource_type integration_function n_camera T_B_Cn T_G_B
      vertex frame_idx s =
     (let T_Cn_C = inverse (get_T_C_B n_camera frame_idx);
          T_B_C = T_B_Cn * T_Cn_C;
          T_G_C = T_G_B * T_B_C;
          depth_case =
            (case getFrameResource vi_map vertex frame_idx input_resource_type of
               None \<Rightarrow> Next s
             | Some depth_map \<Rightarrow>
                 (let image_mat = frame_companion_image vi_map vertex frame_idx
                  in call_integration_function integration_function [T_G_C] depth_map image_mat
                       (getCamera n_camera frame_idx) s))
      in case input_resource_type of
           kRawDepthMap \<Rightarrow> depth_case
         | kOptimizedDepthMap \<Rightarrow> depth_case
         | _ \<Rightarrow> Fatal s)"

definition integrate_vertex ::
  "('t::{monoid_mult,inverse}, 'm) VIMap \<Rightarrow> Flags \<Rightarrow> ResourceType
    \<Rightarrow> ('t, 'm, 'st) DepthMapUndistortionAndIntegrationFunction
    \<Rightarrow> 't NCamera \<Rightarrow> 't \<Rightarrow> 't \<Rightarrow> VertexId
    \<Rightarrow> ('t, 'm, 'st) run_state \<Rightarrow> ('t, 'm, 'st) run_state flow" where
  "integrate_vertex vi_map flags input_resource_type integration_function n_camera T_B_Cn T_G_M
      vertex_id s =
     (case check_sigint flags s of
        Inl s' \<Rightarrow> Return s'
      | Inr s1 \<Rightarrow>
          (let T_G_B = T_G_M * get_T_M_I vi_map vertex_id;
               num_frames = numFrames vi_map vertex_id
           in for_each
                (integrate_frame vi_map input_resource_type integration_function n_camera
                   T_B_Cn T_G_B vertex_id)
                [0..<num_frames] s1))"

definition integrate_frame_mission ::
  "('t::{monoid_mult,inverse}, 'm) VIMap \<Rightarrow> Flags \<Rightarrow> ResourceType
    \<Rightarrow> ('t, 'm, 'st) DepthMapUndistortionAndIntegrationFunction \<Rightarrow> MissionId
    \<Rightarrow> ('t, 'm, 'st) run_state \<Rightarrow> ('t, 'm, 'st) run_state flow" where
  "integrate_frame_mission vi_map flags input_resource_type integration_function mission_id s =
     (if \<not> hasNCamera vi_map mission_id then Next s
      else
        (let ncamera_id = getNCameraId vi_map mission_id;
             n_camera = getSensor vi_map ncamera_id;
             T_B_Cn = getSensor_T_B_S vi_map ncamera_id;
             T_G_M = get_T_G_M vi_map mission_id;
             vertex_ids = getAllVertexIdsInMissionAlongGraph vi_map mission_id
         in for_each
              (integrate_vertex vi_map flags input_resource_type integration_function n_camera
                 T_B_Cn T_G_M)
              vertex_ids s))"

definition integrateAllFrameDepthMapResourcesOfTypeImpl ::
  "MissionId list \<Rightarrow> ResourceType \<Rightarrow> ('t::{monoid_mult,inverse}, 'm) VIMap \<Rightarrow> Flags
    \<Rightarrow> ('t, 'm, 'st) DepthMapUndistortionAndIntegrationFunction option
    \<Rightarrow> ('t, 'm, 'st) run_state \<Rightarrow> ('t, 'm, 'st) run_state flow" where
  "integrateAllFrameDepthMapResourcesOfTypeImpl mission_ids input_resource_type vi_map flags
      integration_function s =
     (case integration_function of
        None \<Rightarrow> Fatal s
      | Some f \<Rightarrow>
          if input_resource_type \<notin> kSupportedDepthMapInputTypes then Fatal s
          else for_each (integrate_frame_mission vi_map flags input_resource_type f)
                 mission_ids s)"

section \<open>The adapter for a single-pose integration function\<close>

text \<open>The lambda of both single-pose entry points: \<^verbatim>\<open>CHECK_GE(T_G_C_vec.size(), 1u)\<close>,
  then the call of the wrapped function with \<^verbatim>\<open>T_G_C_vec.at(0)\<close>. An empty wrapped
  \<^verbatim>\<open>std::function\<close> (\<open>None\<close>) throws when it is called.\<close>

definition undistortion_integration_function ::
  "('t, 'm, 'st) DepthMapIntegrationFunction option
    \<Rightarrow> ('t, 'm, 'st) DepthMapUndistortionAndIntegrationFunction" where
  "undistortion_integration_function integration_function T_G_C_vec depth_map intensities
      camera st =
     (if \<not> length T_G_C_vec \<ge> 1 then None
      else case integration_function of
             None \<Rightarrow> None
           | Some f \<Rightarrow> f (T_G_C_vec ! 0) depth_map intensities camera st)"

definition integrateAllFrameDepthMapResourcesOfType_single ::
  "MissionId list \<Rightarrow> ResourceType \<Rightarrow> ('t::{monoid_mult,inverse}, 'm) VIMap \<Rightarrow> Flags
    \<Rightarrow> ('t, 'm, 'st) DepthMapIntegrationFunction option
    \<Rightarrow> ('t, 'm, 'st) run_state \<Rightarrow> ('t, 'm, 'st) run_state flow" where
  "integrateAllFrameDepthMapResourcesOfType_single mission_ids input_resource_type vi_map flags
      integration_function =
     integrateAllFrameDepthMapResourcesOfTypeImpl mission_ids input_resource_type vi_map flags
       (Some (undistortion_integration_function integration_function))"

definition integrateAllFrameDepthMapResourcesOfType ::
  "MissionId list \<Rightarrow> ResourceType \<Rightarrow> ('t::{monoid_mult,inverse}, 'm) VIMap \<Rightarrow> Flags
    \<Rightarrow> ('t, 'm, 'st) DepthMapUndistortionAndIntegrationFunction option
    \<Rightarrow> ('t, 'm, 'st) run_state \<Rightarrow> ('t, 'm, 'st) run_state flow" where
  "integrateAllFrameDepthMapResourcesOfType mission_ids input_resource_type vi_map flags
      integration_function =
     integrateAllFrameDepthMapResourcesOfTypeImpl mission_ids input_resource_type vi_map flags
       integration_function"

section \<open>The free-running sensor path\<close>

text \<open>Lines 177 to 415 of the source: \<open>integrate_resource\<close> is the body of the second loop
  over the resources of a sensor (lines 331 to 411), \<open>integrate_sensor\<close> the body of the loop
  over the sensors (lines 240 to 413), \<open>integrate_sensor_mission\<close> the body of the loop over
  the missions (lines 201 to 414).\<close>

text \<open>\<^verbatim>\<open>std::min\<close> and \<^verbatim>\<open>std::max\<close> on \<^verbatim>\<open>int64_t\<close>, with the signed order.\<close>

definition std_min :: "int64 \<Rightarrow> int64 \<Rightarrow> int64" where
  "std_min a b = (if word_sless b a then b else a)"

definition std_max :: "int64 \<Rightarrow> int64 \<Rightarrow> int64" where
  "std_max a b = (if word_sless a b then b else a)"

text \<open>
  The first pair of nested loops fills the array of timestamps. The inner loop runs once for
  each line and carries the cursor \<open>idx\<close>, the running timestamp and the array. The array
  was allocated with \<open>total_number_of_poses\<close> entries; a write beyond its end, which
  the source does not guard, leaves the list as it is, and the \<^verbatim>\<open>CHECK_EQ\<close> after the
  loops then fails.
\<close>

fun fill_lines ::
  "int64 \<Rightarrow> int64 \<Rightarrow> int64 \<Rightarrow> nat \<Rightarrow> nat \<times> int64 \<times> int64 list \<Rightarrow> nat \<times> int64 \<times> int64 list" where
  "fill_lines min_timestamp_ns max_timestamp_ns line_delay_ns 0 st = st"
| "fill_lines min_timestamp_ns max_timestamp_ns line_delay_ns (Suc n)
      (idx, timestamp_resource_ns, resource_timestamps) =
     fill_lines min_timestamp_ns max_timestamp_ns line_delay_ns n
       (idx + 1, timestamp_resource_ns + line_delay_ns,
        resource_timestamps
          [idx := std_max min_timestamp_ns (std_min max_timestamp_ns timestamp_resource_ns)])"

fun fill_resource_timestamps ::
  "int64 \<Rightarrow> int64 \<Rightarrow> int64 \<Rightarrow> int64 \<Rightarrow> nat \<Rightarrow> (int64 \<times> ResourceId) list
    \<Rightarrow> nat \<times> int64 list \<Rightarrow> nat \<times> int64 list" where
  "fill_resource_timestamps min_timestamp_ns max_timestamp_ns timestamp_shift_ns line_delay_ns
      num_lines [] st = st"
| "fill_resource_timestamps min_timestamp_ns max_timestamp_ns timestamp_shift_ns line_delay_ns
      num_lines (stamped_resource_id # rest) (idx, resource_timestamps) =
     (case fill_lines min_timestamp_ns max_timestamp_ns line_delay_ns num_lines
             (idx, fst stamped_resource_id + timestamp_shift_ns, resource_timestamps) of
        (idx', _, resource_timestamps') \<Rightarrow>
          fill_resource_timestamps min_timestamp_ns max_timestamp_ns timestamp_shift_ns
            line_delay_ns num_lines rest (idx', resource_timestamps'))"

text \<open>The loop that extracts the poses of one resource: \<^verbatim>\<open>CHECK_LT(idx, total)\<close>,
  then \<^verbatim>\<open>T_G_C_vec[line_idx] = T_G_M * poses_M_B[idx] * T_B_C\<close>. \<open>None\<close> is the
  failed check.\<close>

fun extract_poses ::
  "'t::{monoid_mult,inverse} \<Rightarrow> 't \<Rightarrow> 't list \<Rightarrow> nat \<Rightarrow> nat \<Rightarrow> nat \<Rightarrow> nat \<times> 't list
    \<Rightarrow> (nat \<times> 't list) option" where
  "extract_poses T_G_M T_B_C poses_M_B total_number_of_poses 0 line_idx st = Some st"
| "extract_poses T_G_M T_B_C poses_M_B total_number_of_poses (Suc n) line_idx (idx, T_G_C_vec) =
     (if \<not> idx < total_number_of_poses then None
      else extract_poses T_G_M T_B_C poses_M_B total_number_of_poses n (line_idx + 1)
             (idx + 1, T_G_C_vec[line_idx := T_G_M * (poses_M_B ! idx) * T_B_C]))"

text \<open>The companion image of a sensor resource: the dedicated grayscale image for the
  depth map, else the dedicated color image, else the empty matrix.\<close>

definition sensor_companion_image ::
  "('t, 'm) VIMap \<Rightarrow> MissionId \<Rightarrow> SensorId \<Rightarrow> int64 \<Rightarrow> 'm option" where
  "sensor_companion_image vi_map mission_id sensor_id timestamp_ns =
     (case getSensorResource vi_map mission_id kImageForDepthMap sensor_id timestamp_ns of
        Some img \<Rightarrow> Some img
      | None \<Rightarrow>
          getSensorResource vi_map mission_id kColorImageForDepthMap sensor_id timestamp_ns)"

definition integrate_resource ::
  "('t::{monoid_mult,inverse}, 'm) VIMap \<Rightarrow> Flags \<Rightarrow> ResourceType
    \<Rightarrow> ('t, 'm, 'st) DepthMapUndistortionAndIntegrationFunction
    \<Rightarrow> MissionId \<Rightarrow> SensorId \<Rightarrow> Camera \<Rightarrow> 't \<Rightarrow> 't \<Rightarrow> int64 \<Rightarrow> int64 \<Rightarrow> uint32 \<Rightarrow> uint32
    \<Rightarrow> int64 list \<Rightarrow> 't list \<Rightarrow> int64 \<times> ResourceId
    \<Rightarrow> nat \<times> ('t, 'm, 'st) run_state \<Rightarrow> (nat \<times> ('t, 'm, 'st) run_state) flow" where
  "integrate_resource vi_map flags input_resource_type integration_function mission_id sensor_id
      camera T_G_M T_B_C min_timestamp_ns max_timestamp_ns num_lines_per_depth_map
      total_number_of_poses resource_timestamps poses_M_B stamped_resource_id st =
     (let (idx, s) = st
      in
        if \<not> idx < unat total_number_of_poses then Fatal (idx, s)
        else
          case check_sigint flags s of
            Inl s' \<Rightarrow> Return (idx, s')
          | Inr s1 \<Rightarrow>
              (let timestamp_ns = fst stamped_resource_id;
                   corrected_timestamp_ns = resource_timestamps ! idx
               in case extract_poses T_G_M T_B_C poses_M_B (unat total_number_of_poses)
                         (unat num_lines_per_depth_map) 0
                         (idx, replicate (unat num_lines_per_depth_map) 1) of
                    None \<Rightarrow> Fatal (idx, s1)
                  | Some (idx', T_G_C_vec) \<Rightarrow>
                      if word_sless corrected_timestamp_ns min_timestamp_ns
                         \<or> word_sless max_timestamp_ns corrected_timestamp_ns
                      then Next (idx', s1\<lparr>trace := trace s1 @
                                   [WarningOutside timestamp_ns corrected_timestamp_ns]\<rparr>)
                      else
                        (let depth_case =
                               (case getSensorResource vi_map mission_id input_resource_type
                                       sensor_id timestamp_ns of
                                  None \<Rightarrow> Fatal (idx', s1)
                                | Some depth_map \<Rightarrow>
                                    (let image_mat =
                                           sensor_companion_image vi_map mission_id sensor_id
                                             timestamp_ns
                                     in map_flow (Pair idx')
                                          (call_integration_function integration_function
                                             T_G_C_vec depth_map image_mat camera s1)))
                         in case input_resource_type of
                              kRawDepthMap \<Rightarrow> depth_case
                            | kOptimizedDepthMap \<Rightarrow> depth_case
                            | _ \<Rightarrow> Fatal (idx', s1))))"

text \<open>The array of timestamps of one sensor, as the first pair of loops leaves it, with the
  final value of the cursor.\<close>

definition build_resource_timestamps ::
  "int64 \<Rightarrow> int64 \<Rightarrow> int64 \<Rightarrow> int64 \<Rightarrow> uint32 \<Rightarrow> (int64 \<times> ResourceId) list
    \<Rightarrow> nat \<times> int64 list" where
  "build_resource_timestamps min_timestamp_ns max_timestamp_ns timestamp_shift_ns line_delay_ns
      num_lines_per_depth_map resource_buffer =
     (let num_resources = length resource_buffer;
          total_number_of_poses = (of_nat (num_resources * unat num_lines_per_depth_map) :: uint32)
      in fill_resource_timestamps min_timestamp_ns max_timestamp_ns timestamp_shift_ns
           line_delay_ns (unat num_lines_per_depth_map) resource_buffer
           (0, replicate (unat total_number_of_poses) 0))"

text \<open>The rolling-shutter parameters of a camera: those of the camera if the compensation
  is enabled, one line and no delay otherwise.\<close>

definition num_lines_per_depth_map_of :: "Flags \<Rightarrow> Camera \<Rightarrow> uint32" where
  "num_lines_per_depth_map_of flags camera =
     (if enable_rolling_shutter_compensation flags then getNumberOfLines camera else 1)"

definition line_delay_ns_of :: "Flags \<Rightarrow> Camera \<Rightarrow> int64" where
  "line_delay_ns_of flags camera =
     (if enable_rolling_shutter_compensation flags then getLineDelayNanoSeconds camera else 0)"

definition integrate_sensor ::
  "('t::{monoid_mult,inverse}, 'm) VIMap \<Rightarrow> Flags \<Rightarrow> ResourceType
    \<Rightarrow> ('t, 'm, 'st) DepthMapUndistortionAndIntegrationFunction
    \<Rightarrow> MissionId \<Rightarrow> 't \<Rightarrow> int64 \<Rightarrow> int64 \<Rightarrow> SensorId \<times> (int64 \<times> ResourceId) list
    \<Rightarrow> ('t, 'm, 'st) run_state \<Rightarrow> ('t, 'm, 'st) run_state flow" where
  "integrate_sensor vi_map flags input_resource_type integration_function mission_id T_G_M
      min_timestamp_ns max_timestamp_ns sensor_to_res_ids s =
     (let resource_buffer = snd sensor_to_res_ids;
          sensor_id = fst sensor_to_res_ids;
          T_B_Cn = getSensor_T_B_S vi_map sensor_id
      in if getSensorType vi_map sensor_id \<noteq> kNCamera then Fatal s
         else
           case getSensorPtr vi_map sensor_id of
             None \<Rightarrow> Fatal s
           | Some ncamera \<Rightarrow>
               if getNumCameras ncamera \<noteq> 1 then Fatal s
               else
                 (let camera = getCamera ncamera 0;
                      num_lines_per_depth_map = num_lines_per_depth_map_of flags camera;
                      line_delay_ns = line_delay_ns_of flags camera;
                      T_Cn_C = inverse (get_T_C_B ncamera 0);
                      T_B_C = T_B_Cn * T_Cn_C;
                      num_resources = length resource_buffer;
                      total_number_of_poses =
                        (of_nat (num_resources * unat num_lines_per_depth_map) :: uint32)
                  in case build_resource_timestamps min_timestamp_ns max_timestamp_ns
                            (timeshift_resource_to_imu_ns flags) line_delay_ns
                            num_lines_per_depth_map resource_buffer of
                       (idx, resource_timestamps) \<Rightarrow>
                         if idx \<noteq> unat total_number_of_poses then Fatal s
                         else
                           (let poses_M_B = getPosesAtTime vi_map mission_id resource_timestamps;
                                s1 = s\<lparr>trace := trace s @
                                       [Interpolate mission_id resource_timestamps]\<rparr>
                            in if \<not> ((of_nat (length poses_M_B) :: uint32) = total_number_of_poses
                                     \<and> length poses_M_B = unat total_number_of_poses)
                               then Fatal s1
                               else
                                 map_flow snd
                                   (for_each
                                      (integrate_resource vi_map flags input_resource_type
                                         integration_function mission_id sensor_id camera T_G_M
                                         T_B_C min_timestamp_ns max_timestamp_ns
                                         num_lines_per_depth_map total_number_of_poses
                                         resource_timestamps poses_M_B)
                                      resource_buffer (0, s1)))))"

definition integrate_sensor_mission ::
  "('t::{monoid_mult,inverse}, 'm) VIMap \<Rightarrow> Flags \<Rightarrow> ResourceType
    \<Rightarrow> ('t, 'm, 'st) DepthMapUndistortionAndIntegrationFunction \<Rightarrow> MissionId
    \<Rightarrow> ('t, 'm, 'st) run_state \<Rightarrow> ('t, 'm, 'st) run_state flow" where
  "integrate_sensor_mission vi_map flags input_resource_type integration_function mission_id s =
     (let T_G_M = get_T_G_M vi_map mission_id;
          (vertex_to_time_map_empty, min_timestamp_ns, max_timestamp_ns) =
            getVertexToTimeStampMap vi_map mission_id
      in
             if vertex_to_time_map_empty then Next s
             else
               case getAllSensorResourceIdsOfType vi_map mission_id input_resource_type of
                 None \<Rightarrow> Next s
               | Some sensor_id_to_res_id_map \<Rightarrow>
                   for_each
                     (integrate_sensor vi_map flags input_resource_type integration_function
                        mission_id T_G_M min_timestamp_ns max_timestamp_ns)
                     sensor_id_to_res_id_map s)"

definition integrateAllOptionalSensorDepthMapResourcesOfTypeImpl ::
  "MissionId list \<Rightarrow> ResourceType \<Rightarrow> ('t::{monoid_mult,inverse}, 'm) VIMap \<Rightarrow> Flags
    \<Rightarrow> ('t, 'm, 'st) DepthMapUndistortionAndIntegrationFunction option
    \<Rightarrow> ('t, 'm, 'st) run_state \<Rightarrow> ('t, 'm, 'st) run_state flow" where
  "integrateAllOptionalSensorDepthMapResourcesOfTypeImpl mission_ids input_resource_type vi_map
      flags integration_function s =
     (case integration_function of
        None \<Rightarrow> Fatal s
      | Some f \<Rightarrow>
          if input_resource_type \<notin> kSupportedDepthMapInputTypes then Fatal s
          else for_each (integrate_sensor_mission vi_map flags input_resource_type f)
                 mission_ids s)"

definition integrateAllOptionalSensorDepthMapResourcesOfType_single ::
  "MissionId list \<Rightarrow> ResourceType \<Rightarrow> ('t::{monoid_mult,inverse}, 'm) VIMap \<Rightarrow> Flags
    \<Rightarrow> ('t, 'm, 'st) DepthMapIntegrationFunction option
    \<Rightarrow> ('t, 'm, 'st) run_state \<Rightarrow> ('t, 'm, 'st) run_state flow" where
  "integrateAllOptionalSensorDepthMapResourcesOfType_single mission_ids input_resource_type
      vi_map flags integration_function =
     integrateAllOptionalSensorDepthMapResourcesOfTypeImpl mission_ids input_resource_type
       vi_map flags (Some (undistortion_integration_function integration_function))"

definition integrateAllOptionalSensorDepthMapResourcesOfType ::
  "MissionId list \<Rightarrow> ResourceType \<Rightarrow> ('t::{monoid_mult,inverse}, 'm) VIMap \<Rightarrow> Flags
    \<Rightarrow> ('t, 'm, 'st) DepthMapUndistortionAndIntegrationFunction option
    \<Rightarrow> ('t, 'm, 'st) run_state \<Rightarrow> ('t, 'm, 'st) run_state flow" where
  "integrateAllOptionalSensorDepthMapResourcesOfType mission_ids input_resource_type vi_map
      flags integration_function =
     integrateAllOptionalSensorDepthMapResourcesOfTypeImpl mission_ids input_resource_type
       vi_map flags integration_function"

text \<open>For the statements below: the array of timestamps that the processing of a sensor
  builds, and the poses the interpolation returns for it.\<close>

definition sensor_timestamps ::
  "Flags \<Rightarrow> int64 \<Rightarrow> int64 \<Rightarrow> 't NCamera \<Rightarrow> (int64 \<times> ResourceId) list \<Rightarrow> int64 list" where
  "sensor_timestamps flags min_timestamp_ns max_timestamp_ns ncamera resource_buffer =
     snd (build_resource_timestamps min_timestamp_ns max_timestamp_ns
            (timeshift_resource_to_imu_ns flags) (line_delay_ns_of flags (getCamera ncamera 0))
            (num_lines_per_depth_map_of flags (getCamera ncamera 0)) resource_buffer)"

definition sensor_poses ::
  "('t, 'm) VIMap \<Rightarrow> Flags \<Rightarrow> MissionId \<Rightarrow> int64 \<Rightarrow> int64 \<Rightarrow> 't NCamera
    \<Rightarrow> (int64 \<times> ResourceId) list \<Rightarrow> 't list" where
  "sensor_poses vi_map flags mission_id min_timestamp_ns max_timestamp_ns ncamera resource_buffer =
     getPosesAtTime vi_map mission_id
       (sensor_timestamps flags min_timestamp_ns max_timestamp_ns ncamera resource_buffer)"

text \<open>The resolver of companion images in the words of the spec: the lookup is tried for
  each type of a preference list in order, the first hit is returned, and the result is empty
  if there is none. It is compared below with the lookups of the two paths.\<close>

fun spec_companion_resolve :: "(ResourceType \<Rightarrow> 'm option) \<Rightarrow> ResourceType list \<Rightarrow> 'm option" where
  "spec_companion_resolve lookup [] = None"
| "spec_companion_resolve lookup (t # preference_list) =
     (case lookup t of
        Some img \<Rightarrow> Some img
      | None \<Rightarrow> spec_companion_resolve lookup preference_list)"

section \<open>Whole runs as one loop, and the events they leave\<close>

text \<open>
  For the statements about whole runs. A run of the frame-attached path takes the vertices of
  the missions that have a camera rig, mission after mission; \<open>frame_vertices\<close> lists them
  with their mission, and \<open>frame_vertex_body\<close> is the body of the loop over the vertices
  with the rig and the transformations of the mission of the vertex. A run of the free-running
  path takes the sensors of the missions that have a trajectory and sensor resources of the
  type; \<open>mission_sensors\<close> lists them with their mission, \<open>mission_sensor_body\<close>
  is the body of the loop over the sensors with the transformation and the range of the mission
  of the sensor, and \<open>sensor_resource_body\<close> is the body of the loop over the resources of
  a sensor with the camera, the array of timestamps and the poses of that sensor.
\<close>

definition frame_vertices ::
  "('t, 'm) VIMap \<Rightarrow> MissionId list \<Rightarrow> (MissionId \<times> VertexId) list" where
  "frame_vertices vi_map mission_ids =
     concat (map (\<lambda>mission_id.
                    map (Pair mission_id)
                      (if hasNCamera vi_map mission_id
                       then getAllVertexIdsInMissionAlongGraph vi_map mission_id else []))
               mission_ids)"

definition frame_vertex_body ::
  "('t::{monoid_mult,inverse}, 'm) VIMap \<Rightarrow> Flags \<Rightarrow> ResourceType
    \<Rightarrow> ('t, 'm, 'st) DepthMapUndistortionAndIntegrationFunction \<Rightarrow> MissionId \<times> VertexId
    \<Rightarrow> ('t, 'm, 'st) run_state \<Rightarrow> ('t, 'm, 'st) run_state flow" where
  "frame_vertex_body vi_map flags input_resource_type integration_function item =
     integrate_vertex vi_map flags input_resource_type integration_function
       (getSensor vi_map (getNCameraId vi_map (fst item)))
       (getSensor_T_B_S vi_map (getNCameraId vi_map (fst item)))
       (get_T_G_M vi_map (fst item)) (snd item)"

definition mission_sensors ::
  "('t, 'm) VIMap \<Rightarrow> ResourceType \<Rightarrow> MissionId list
    \<Rightarrow> (MissionId \<times> SensorId \<times> (int64 \<times> ResourceId) list) list" where
  "mission_sensors vi_map input_resource_type mission_ids =
     concat (map (\<lambda>mission_id.
                    map (Pair mission_id)
                      (if fst (getVertexToTimeStampMap vi_map mission_id) then []
                       else case getAllSensorResourceIdsOfType vi_map mission_id
                                   input_resource_type of
                              None \<Rightarrow> []
                            | Some sensor_id_to_res_id_map \<Rightarrow> sensor_id_to_res_id_map))
               mission_ids)"

definition mission_sensor_body ::
  "('t::{monoid_mult,inverse}, 'm) VIMap \<Rightarrow> Flags \<Rightarrow> ResourceType
    \<Rightarrow> ('t, 'm, 'st) DepthMapUndistortionAndIntegrationFunction
    \<Rightarrow> MissionId \<times> SensorId \<times> (int64 \<times> ResourceId) list
    \<Rightarrow> ('t, 'm, 'st) run_state \<Rightarrow> ('t, 'm, 'st) run_state flow" where
  "mission_sensor_body vi_map flags input_resource_type integration_function item =
     integrate_sensor vi_map flags input_resource_type integration_function (fst item)
       (get_T_G_M vi_map (fst item))
       (fst (snd (getVertexToTimeStampMap vi_map (fst item))))
       (snd (snd (getVertexToTimeStampMap vi_map (fst item))))
       (snd item)"

definition sensor_resource_body ::
  "('t::{monoid_mult,inverse}, 'm) VIMap \<Rightarrow> Flags \<Rightarrow> ResourceType
    \<Rightarrow> ('t, 'm, 'st) DepthMapUndistortionAndIntegrationFunction
    \<Rightarrow> MissionId \<Rightarrow> 't \<Rightarrow> int64 \<Rightarrow> int64 \<Rightarrow> SensorId \<Rightarrow> 't NCamera
    \<Rightarrow> (int64 \<times> ResourceId) list \<Rightarrow> int64 \<times> ResourceId
    \<Rightarrow> nat \<times> ('t, 'm, 'st) run_state \<Rightarrow> (nat \<times> ('t, 'm, 'st) run_state) flow" where
  "sensor_resource_body vi_map flags input_resource_type integration_function mission_id T_G_M
      min_timestamp_ns max_timestamp_ns sensor_id ncamera resource_buffer =
     integrate_resource vi_map flags input_resource_type integration_function mission_id sensor_id
       (getCamera ncamera 0) T_G_M
       (getSensor_T_B_S vi_map sensor_id * inverse (get_T_C_B ncamera 0))
       min_timestamp_ns max_timestamp_ns
       (num_lines_per_depth_map_of flags (getCamera ncamera 0))
       (of_nat (length resource_buffer
                  * unat (num_lines_per_depth_map_of flags (getCamera ncamera 0))))
       (sensor_timestamps flags min_timestamp_ns max_timestamp_ns ncamera resource_buffer)
       (sensor_poses vi_map flags mission_id min_timestamp_ns max_timestamp_ns ncamera
          resource_buffer)"

text \<open>
  The events that an item leaves in the trace when it is processed to its end. Every vertex
  and every resource starts with the poll of the break flag, if the breaker is enabled. A vertex
  then leaves one dispatch for each of its frames that has a depth map, in the order of the
  frames, with the one-element pose vector of the frame. A resource then leaves the warning, if
  its entry of the array of timestamps is outside the range, and else the dispatch of its depth
  map with the poses at its entries of the batched interpolation result. A sensor leaves the
  call of the interpolation and then the events of its resources.
\<close>

definition poll_events :: "Flags \<Rightarrow> ('t, 'm) event list" where
  "poll_events flags = (if enable_sigint_breaker flags then [Poll] else [])"

definition frame_events ::
  "('t::{monoid_mult,inverse}, 'm) VIMap \<Rightarrow> ResourceType \<Rightarrow> 't NCamera \<Rightarrow> 't \<Rightarrow> 't \<Rightarrow> VertexId
    \<Rightarrow> nat \<Rightarrow> ('t, 'm) event list" where
  "frame_events vi_map input_resource_type n_camera T_B_Cn T_G_B vertex frame_idx =
     (case getFrameResource vi_map vertex frame_idx input_resource_type of
        None \<Rightarrow> []
      | Some depth_map \<Rightarrow>
          [Dispatch [T_G_B * (T_B_Cn * inverse (get_T_C_B n_camera frame_idx))] depth_map
             (frame_companion_image vi_map vertex frame_idx) (getCamera n_camera frame_idx)])"

definition vertex_events ::
  "('t::{monoid_mult,inverse}, 'm) VIMap \<Rightarrow> Flags \<Rightarrow> ResourceType \<Rightarrow> MissionId \<times> VertexId
    \<Rightarrow> ('t, 'm) event list" where
  "vertex_events vi_map flags input_resource_type item =
     poll_events flags @
     concat (map (frame_events vi_map input_resource_type
                    (getSensor vi_map (getNCameraId vi_map (fst item)))
                    (getSensor_T_B_S vi_map (getNCameraId vi_map (fst item)))
                    (get_T_G_M vi_map (fst item) * get_T_M_I vi_map (snd item)) (snd item))
               [0..<numFrames vi_map (snd item)])"

definition resource_events ::
  "('t::{monoid_mult,inverse}, 'm) VIMap \<Rightarrow> ResourceType \<Rightarrow> MissionId \<Rightarrow> SensorId \<Rightarrow> Camera
    \<Rightarrow> 't \<Rightarrow> 't \<Rightarrow> int64 \<Rightarrow> int64 \<Rightarrow> uint32 \<Rightarrow> int64 list \<Rightarrow> 't list \<Rightarrow> nat
    \<Rightarrow> int64 \<times> ResourceId \<Rightarrow> ('t, 'm) event list" where
  "resource_events vi_map input_resource_type mission_id sensor_id camera T_G_M T_B_C
      min_timestamp_ns max_timestamp_ns num_lines_per_depth_map resource_timestamps poses_M_B idx
      stamped_resource_id =
     (if word_sless (resource_timestamps ! idx) min_timestamp_ns
         \<or> word_sless max_timestamp_ns (resource_timestamps ! idx)
      then [WarningOutside (fst stamped_resource_id) (resource_timestamps ! idx)]
      else case getSensorResource vi_map mission_id input_resource_type sensor_id
                  (fst stamped_resource_id) of
             None \<Rightarrow> []
           | Some depth_map \<Rightarrow>
               [Dispatch (map (\<lambda>line_idx. T_G_M * poses_M_B ! (idx + line_idx) * T_B_C)
                            [0..<unat num_lines_per_depth_map])
                  depth_map
                  (sensor_companion_image vi_map mission_id sensor_id (fst stamped_resource_id))
                  camera])"

fun resources_events ::
  "('t::{monoid_mult,inverse}, 'm) VIMap \<Rightarrow> Flags \<Rightarrow> ResourceType \<Rightarrow> MissionId \<Rightarrow> SensorId
    \<Rightarrow> Camera \<Rightarrow> 't \<Rightarrow> 't \<Rightarrow> int64 \<Rightarrow> int64 \<Rightarrow> uint32 \<Rightarrow> int64 list \<Rightarrow> 't list \<Rightarrow> nat
    \<Rightarrow> (int64 \<times> ResourceId) list \<Rightarrow> ('t, 'm) event list" where
  "resources_events vi_map flags input_resource_type mission_id sensor_id camera T_G_M T_B_C
      min_timestamp_ns max_timestamp_ns num_lines_per_depth_map resource_timestamps poses_M_B idx
      [] = []"
| "resources_events vi_map flags input_resource_type mission_id sensor_id camera T_G_M T_B_C
      min_timestamp_ns max_timestamp_ns num_lines_per_depth_map resource_timestamps poses_M_B idx
      (stamped_resource_id # rest) =
     poll_events flags @
     resource_events vi_map input_resource_type mission_id sensor_id camera T_G_M T_B_C
       min_timestamp_ns max_timestamp_ns num_lines_per_depth_map resource_timestamps poses_M_B idx
       stamped_resource_id @
     resources_events vi_map flags input_resource_type mission_id sensor_id camera T_G_M T_B_C
       min_timestamp_ns max_timestamp_ns num_lines_per_depth_map resource_timestamps poses_M_B
       (idx + unat num_lines_per_depth_map) rest"

definition sensor_resources_events ::
  "('t::{monoid_mult,inverse}, 'm) VIMap \<Rightarrow> Flags \<Rightarrow> ResourceType
    \<Rightarrow> MissionId \<Rightarrow> 't \<Rightarrow> int64 \<Rightarrow> int64 \<Rightarrow> SensorId \<Rightarrow> 't NCamera
    \<Rightarrow> (int64 \<times> ResourceId) list \<Rightarrow> (int64 \<times> ResourceId) list \<Rightarrow> ('t, 'm) event list" where
  "sensor_resources_events vi_map flags input_resource_type mission_id T_G_M
      min_timestamp_ns max_timestamp_ns sensor_id ncamera resource_buffer processed =
     Interpolate mission_id
       (sensor_timestamps flags min_timestamp_ns max_timestamp_ns ncamera resource_buffer) #
     resources_events vi_map flags input_resource_type mission_id sensor_id
       (getCamera ncamera 0) T_G_M
       (getSensor_T_B_S vi_map sensor_id * inverse (get_T_C_B ncamera 0))
       min_timestamp_ns max_timestamp_ns
       (num_lines_per_depth_map_of flags (getCamera ncamera 0))
       (sensor_timestamps flags min_timestamp_ns max_timestamp_ns ncamera resource_buffer)
       (sensor_poses vi_map flags mission_id min_timestamp_ns max_timestamp_ns ncamera
          resource_buffer)
       0 processed"

definition sensor_events ::
  "('t::{monoid_mult,inverse}, 'm) VIMap \<Rightarrow> Flags \<Rightarrow> ResourceType
    \<Rightarrow> MissionId \<times> SensorId \<times> (int64 \<times> ResourceId) list \<Rightarrow> ('t, 'm) event list" where
  "sensor_events vi_map flags input_resource_type item =
     (case getSensorPtr vi_map (fst (snd item)) of
        None \<Rightarrow> []
      | Some ncamera \<Rightarrow>
          sensor_resources_events vi_map flags input_resource_type (fst item)
            (get_T_G_M vi_map (fst item))
            (fst (snd (getVertexToTimeStampMap vi_map (fst item))))
            (snd (snd (getVertexToTimeStampMap vi_map (fst item))))
            (fst (snd item)) ncamera (snd (snd item)) (snd (snd item)))"


section \<open>Example inputs\<close>

text \<open>
  A small map on which the theorems below are instantiated. Transformations are real
  numbers under multiplication. Sensor 0 is a free-running camera with three lines and a line
  delay of 100 ns, sensor 4 is not a camera, and sensor 2 is the stereo rig of the mission.
  Vertex 3 has two frames with a raw depth map each, vertex 5 has one frame without a depth
  map. The trajectory spans 0 ns to 1000 ns, and sensor 0 owns depth maps at 500 ns and at
  2000 ns. The interpolated pose at a timestamp is the timestamp itself, so that a pose shows
  which timestamp it was interpolated at.
\<close>

definition ex_camera :: Camera where
  "ex_camera = \<lparr>getNumberOfLines = 3, getLineDelayNanoSeconds = 100\<rparr>"

definition ex_ncamera :: "real NCamera" where
  "ex_ncamera = \<lparr>getNumCameras = 1, get_T_C_B = (\<lambda>_. 2), getCamera = (\<lambda>_. ex_camera)\<rparr>"

definition ex_stereo :: "real NCamera" where
  "ex_stereo = \<lparr>getNumCameras = 2, get_T_C_B = (\<lambda>i. if i = 0 then 2 else 4),
     getCamera = (\<lambda>_. ex_camera)\<rparr>"

definition ex_map :: "(real, nat) VIMap" where
  "ex_map = \<lparr>
     hasNCamera = (\<lambda>_. True),
     getNCameraId = (\<lambda>_. 2),
     getSensor = (\<lambda>sensor_id. if sensor_id = 2 then ex_stereo else ex_ncamera),
     getSensorPtr = (\<lambda>sensor_id. if sensor_id = 2 then Some ex_stereo
                                 else if sensor_id = 0 then Some ex_ncamera else None),
     getSensorType = (\<lambda>sensor_id. if sensor_id = 4 then kOtherSensorType 0 else kNCamera),
     getSensor_T_B_S = (\<lambda>_. 3),
     get_T_G_M = (\<lambda>_. 5),
     getAllVertexIdsInMissionAlongGraph = (\<lambda>_. [3, 5]),
     get_T_M_I = (\<lambda>v. if v = 3 then 7 else 11),
     numFrames = (\<lambda>v. if v = 3 then 2 else 1),
     getFrameResource = (\<lambda>v f t.
        if t = kRawDepthMap then (if v = 3 then Some (100 + f) else None)
        else if t = kColorImageForDepthMap \<and> v = 3 \<and> f = 0 then Some 200
        else if t = kRawImage \<and> v = 3 \<and> f = 1 then Some 300
        else None),
     getVertexToTimeStampMap = (\<lambda>_. (False, 0, 1000)),
     getAllSensorResourceIdsOfType = (\<lambda>m t.
        if t = kRawDepthMap then Some [(0, [(500, 7), (2000, 8)])] else None),
     getPosesAtTime = (\<lambda>m ts. map (\<lambda>t. of_nat (unat t)) ts),
     getSensorResource = (\<lambda>m t sensor_id ts.
        if t = kRawDepthMap then (if ts = 700 then None else Some (unat ts))
        else if t = kRawImage then Some 300
        else None)\<rparr>"

definition ex_flags :: Flags where
  "ex_flags = \<lparr>enable_sigint_breaker = True, timeshift_resource_to_imu_ns = 0,
     enable_rolling_shutter_compensation = True, isBreakRequested = (\<lambda>_. False)\<rparr>"

text \<open>The break flag is set while the first item is processed: the second poll sees it.\<close>

definition ex_flags_break :: Flags where
  "ex_flags_break = \<lparr>enable_sigint_breaker = True, timeshift_resource_to_imu_ns = 0,
     enable_rolling_shutter_compensation = True, isBreakRequested = (\<lambda>n. 1 \<le> n)\<rparr>"

text \<open>The breaker is disabled, and the break flag is set from the start.\<close>

definition ex_flags_disabled :: Flags where
  "ex_flags_disabled = \<lparr>enable_sigint_breaker = False, timeshift_resource_to_imu_ns = 0,
     enable_rolling_shutter_compensation = True, isBreakRequested = (\<lambda>_. True)\<rparr>"

text \<open>The fusion of the examples counts the calls.\<close>

definition ex_integrate :: "(real, nat, nat) DepthMapUndistortionAndIntegrationFunction" where
  "ex_integrate = (\<lambda>T_G_C_vec depth_map intensities camera st. Some (st + 1))"

definition ex_integrate_single :: "(real, nat, nat) DepthMapIntegrationFunction" where
  "ex_integrate_single = (\<lambda>T_G_C depth_map intensities camera st. Some (st + 1))"

definition ex_state :: "(real, nat, nat) run_state" where
  "ex_state = \<lparr>trace = [], polls = 0, fusion = 0\<rparr>"

text \<open>The same map with an interpolator that returns no pose at all.\<close>

definition ex_map_short :: "(real, nat) VIMap" where
  "ex_map_short = ex_map\<lparr>getPosesAtTime := (\<lambda>m ts. [])\<rparr>"

text \<open>The same map with a sensor that owns a depth map at 700 ns, which the resource store
  does not hold.\<close>

definition ex_map_missing :: "(real, nat) VIMap" where
  "ex_map_missing = ex_map\<lparr>getAllSensorResourceIdsOfType := (\<lambda>m t. Some [(0, [(700, 9)])])\<rparr>"


section \<open>Loops\<close>

text \<open>A property that every iteration preserves, whichever way it ends, holds when the loop
  ends.\<close>

lemma for_each_invariant:
  assumes step: "\<And>x s. x \<in> set xs \<Longrightarrow> P s \<Longrightarrow> P (state_of (body x s))"
    and init: "P s"
  shows "P (state_of (for_each body xs s))"
  using assms
proof (induction xs arbitrary: s)
  case Nil
  then show ?case by simp
next
  case (Cons x xs)
  have px: "P (state_of (body x s))"
    using Cons.prems by simp
  show ?case
  proof (cases "body x s")
    case (Next s')
    with px have "P s'" by simp
    then have "P (state_of (for_each body xs s'))"
      using Cons.IH [of s'] Cons.prems(1) by simp
    with Next show ?thesis by simp
  next
    case (Return s')
    with px show ?thesis by simp
  next
    case (Fatal s')
    with px show ?thesis by simp
  qed
qed

section \<open>The array of timestamps and the pose vector\<close>

lemma clamp_in_range:
  assumes "word_sle mn mx"
  shows "word_sle mn (std_max mn (std_min mx t)) \<and> word_sle (std_max mn (std_min mx t)) mx"
  using assms by (auto simp: std_max_def std_min_def word_sle_eq word_sless_alt)

lemma clamp_id:
  assumes "word_sle mn t" and "word_sle t mx"
  shows "std_max mn (std_min mx t) = t"
proof (rule signed_word_eqI)
  show "sint (std_max mn (std_min mx t)) = sint t"
    using assms by (auto simp: std_max_def std_min_def word_sle_eq word_sless_alt)
qed

lemma fill_lines_fst:
  "fst (fill_lines mn mx d n (idx, t, arr)) = idx + n"
  by (induction n arbitrary: idx t arr) auto

lemma fill_lines_length:
  "length (snd (snd (fill_lines mn mx d n (idx, t, arr)))) = length arr"
  by (induction n arbitrary: idx t arr) auto

lemma fill_lines_nth_other:
  "i < idx \<or> idx + n \<le> i \<Longrightarrow> snd (snd (fill_lines mn mx d n (idx, t, arr))) ! i = arr ! i"
  by (induction n arbitrary: idx t arr) auto

lemma fill_lines_nth_written:
  "k < n \<Longrightarrow> idx + k < length arr \<Longrightarrow>
     snd (snd (fill_lines mn mx d n (idx, t, arr))) ! (idx + k)
       = std_max mn (std_min mx (t + of_nat k * d))"
proof (induction n arbitrary: idx t arr k)
  case 0
  then show ?case by simp
next
  case (Suc n)
  show ?case
  proof (cases k)
    case 0
    then show ?thesis
      using Suc.prems by (simp add: fill_lines_nth_other)
  next
    case (Suc k')
    have "snd (snd (fill_lines mn mx d n (idx + 1, t + d,
             arr[idx := std_max mn (std_min mx t)]))) ! (idx + 1 + k')
          = std_max mn (std_min mx (t + d + of_nat k' * d))"
      using Suc.prems Suc by (intro Suc.IH) auto
    then show ?thesis
      using Suc by (simp add: algebra_simps)
  qed
qed

lemma fill_resource_timestamps_fst:
  "fst (fill_resource_timestamps mn mx shift d L rs (idx, arr)) = idx + length rs * L"
proof (induction rs arbitrary: idx arr)
  case Nil
  then show ?case by simp
next
  case (Cons r rs)
  obtain i' t' arr' where f: "fill_lines mn mx d L (idx, fst r + shift, arr) = (i', t', arr')"
    by (cases "fill_lines mn mx d L (idx, fst r + shift, arr)") auto
  have "i' = idx + L"
    using fill_lines_fst [of mn mx d L idx "fst r + shift" arr] f by simp
  then show ?case
    using f Cons.IH [of i' arr'] by simp
qed

lemma fill_resource_timestamps_length:
  "length (snd (fill_resource_timestamps mn mx shift d L rs (idx, arr))) = length arr"
proof (induction rs arbitrary: idx arr)
  case Nil
  then show ?case by simp
next
  case (Cons r rs)
  obtain i' t' arr' where f: "fill_lines mn mx d L (idx, fst r + shift, arr) = (i', t', arr')"
    by (cases "fill_lines mn mx d L (idx, fst r + shift, arr)") auto
  have "length arr' = length arr"
    using fill_lines_length [of mn mx d L idx "fst r + shift" arr] f by simp
  then show ?case
    using f Cons.IH [of i' arr'] by simp
qed

lemma fill_resource_timestamps_nth_below:
  "i < idx \<Longrightarrow> snd (fill_resource_timestamps mn mx shift d L rs (idx, arr)) ! i = arr ! i"
proof (induction rs arbitrary: idx arr)
  case Nil
  then show ?case by simp
next
  case (Cons r rs)
  obtain i' t' arr' where f: "fill_lines mn mx d L (idx, fst r + shift, arr) = (i', t', arr')"
    by (cases "fill_lines mn mx d L (idx, fst r + shift, arr)") auto
  have i': "i' = idx + L"
    using fill_lines_fst [of mn mx d L idx "fst r + shift" arr] f by simp
  have "arr' ! i = arr ! i"
    using fill_lines_nth_other [of i idx L mn mx d "fst r + shift" arr] f Cons.prems by simp
  moreover have "snd (fill_resource_timestamps mn mx shift d L rs (i', arr')) ! i = arr' ! i"
    using Cons.prems i' by (intro Cons.IH) simp
  ultimately show ?case
    using f by simp
qed

lemma fill_resource_timestamps_nth:
  "j < length rs \<Longrightarrow> k < L \<Longrightarrow> idx + j * L + k < length arr \<Longrightarrow>
     snd (fill_resource_timestamps mn mx shift d L rs (idx, arr)) ! (idx + j * L + k)
       = std_max mn (std_min mx (fst (rs ! j) + shift + of_nat k * d))"
proof (induction rs arbitrary: idx arr j)
  case Nil
  then show ?case by simp
next
  case (Cons r rs)
  obtain i' t' arr' where f: "fill_lines mn mx d L (idx, fst r + shift, arr) = (i', t', arr')"
    by (cases "fill_lines mn mx d L (idx, fst r + shift, arr)") auto
  have i': "i' = idx + L"
    using fill_lines_fst [of mn mx d L idx "fst r + shift" arr] f by simp
  have len: "length arr' = length arr"
    using fill_lines_length [of mn mx d L idx "fst r + shift" arr] f by simp
  show ?case
  proof (cases j)
    case 0
    have "arr' ! (idx + k) = std_max mn (std_min mx (fst r + shift + of_nat k * d))"
      using fill_lines_nth_written [of k L idx arr mn mx d "fst r + shift"] f Cons.prems 0
      by simp
    moreover have "snd (fill_resource_timestamps mn mx shift d L rs (i', arr')) ! (idx + k)
        = arr' ! (idx + k)"
      using Cons.prems i' by (intro fill_resource_timestamps_nth_below) simp
    ultimately show ?thesis
      using f 0 by simp
  next
    case (Suc j')
    have "snd (fill_resource_timestamps mn mx shift d L rs (i', arr')) ! (i' + j' * L + k)
        = std_max mn (std_min mx (fst (rs ! j') + shift + of_nat k * d))"
      using Cons.prems Suc i' len by (intro Cons.IH) (auto simp: algebra_simps)
    moreover have "i' + j' * L + k = idx + j * L + k"
      using i' Suc by simp
    ultimately show ?thesis
      using f Suc by simp
  qed
qed


lemma build_resource_timestamps_fst:
  "fst (build_resource_timestamps mn mx shift d L rs) = length rs * unat L"
  by (simp add: build_resource_timestamps_def fill_resource_timestamps_fst)

lemma build_resource_timestamps_length:
  "length (snd (build_resource_timestamps mn mx shift d L rs))
     = unat (of_nat (length rs * unat L) :: uint32)"
  by (simp add: build_resource_timestamps_def fill_resource_timestamps_length)

lemma total_number_of_poses_exact:
  "n < 2 ^ 32 \<Longrightarrow> unat (of_nat n :: uint32) = n"
  by (simp add: unat_of_nat)

lemma total_number_of_poses_exact_iff:
  "unat (of_nat n :: uint32) = n \<longleftrightarrow> n < 2 ^ 32"
proof
  assume "unat (of_nat n :: uint32) = n"
  moreover have "unat (of_nat n :: uint32) < 2 ^ 32"
    using unsigned_less [of "of_nat n :: uint32"] by simp
  ultimately show "n < 2 ^ 32" by simp
next
  assume "n < 2 ^ 32"
  then show "unat (of_nat n :: uint32) = n" by (rule total_number_of_poses_exact)
qed

lemma build_resource_timestamps_nth:
  assumes "length rs * unat L < 2 ^ 32" and "j < length rs" and "k < unat L"
  shows "snd (build_resource_timestamps mn mx shift d L rs) ! (j * unat L + k)
           = std_max mn (std_min mx (fst (rs ! j) + shift + of_nat k * d))"
proof -
  have "j * unat L + k < Suc j * unat L"
    using assms(3) by simp
  also have "\<dots> \<le> length rs * unat L"
    using assms(2) by (intro mult_le_mono1) simp
  finally have "0 + j * unat L + k < length (replicate (length rs * unat L) (0 :: int64))"
    by simp
  then have "snd (fill_resource_timestamps mn mx shift d (unat L) rs
               (0, replicate (length rs * unat L) 0)) ! (0 + j * unat L + k)
             = std_max mn (std_min mx (fst (rs ! j) + shift + of_nat k * d))"
    using assms by (intro fill_resource_timestamps_nth)
  moreover have "unat (of_nat (length rs * unat L) :: uint32) = length rs * unat L"
    using assms(1) by (rule total_number_of_poses_exact)
  ultimately show ?thesis
    unfolding build_resource_timestamps_def Let_def by (simp only: add_0)
qed

lemma extract_poses_Some:
  "extract_poses G C poses tot n li (idx, vec) = Some (idx', vec') \<Longrightarrow>
     idx' = idx + n \<and> length vec' = length vec
     \<and> (\<forall>i<li. vec' ! i = vec ! i)
     \<and> (\<forall>k<n. li + k < length vec \<longrightarrow> vec' ! (li + k) = G * poses ! (idx + k) * C)"
proof (induction n arbitrary: li idx vec)
  case 0
  then show ?case by simp
next
  case (Suc n)
  let ?vec1 = "vec[li := G * poses ! idx * C]"
  from Suc.prems have lt: "idx < tot"
    and rec: "extract_poses G C poses tot n (li + 1) (idx + 1, ?vec1) = Some (idx', vec')"
    by (auto split: if_splits)
  from Suc.IH [OF rec]
  have a: "idx' = idx + 1 + n" and b: "length vec' = length ?vec1"
    and c: "\<forall>i<li + 1. vec' ! i = ?vec1 ! i"
    and d: "\<forall>k<n. li + 1 + k < length ?vec1 \<longrightarrow> vec' ! (li + 1 + k) = G * poses ! (idx + 1 + k) * C"
    by auto
  have "vec' ! (li + k) = G * poses ! (idx + k) * C" if "k < Suc n" "li + k < length vec" for k
  proof (cases k)
    case 0
    then show ?thesis using c that by simp
  next
    case (Suc k')
    then show ?thesis using d that by simp
  qed
  moreover have "\<forall>i<li. vec' ! i = vec ! i"
    using c by simp
  ultimately show ?case
    using a b by simp
qed

lemma check_sigint_Inl:
  "check_sigint flags s = Inl s' \<Longrightarrow>
     enable_sigint_breaker flags \<and> isBreakRequested flags (polls s)
     \<and> s' = s\<lparr>trace := trace s @ [Poll, WarningAborted], polls := polls s + 1\<rparr>"
  by (auto simp: check_sigint_def Let_def split: if_splits)

lemma check_sigint_Inr:
  "check_sigint flags s = Inr s1 \<Longrightarrow>
     (enable_sigint_breaker flags \<and> \<not> isBreakRequested flags (polls s)
        \<and> s1 = s\<lparr>trace := trace s @ [Poll], polls := polls s + 1\<rparr>)
     \<or> (\<not> enable_sigint_breaker flags \<and> s1 = s)"
  by (auto simp: check_sigint_def Let_def split: if_splits)

lemma call_integration_function_trace:
  "trace (state_of (call_integration_function f ps d img cam s)) = trace s @ [Dispatch ps d img cam]"
  by (simp add: call_integration_function_def Let_def split: option.splits)

lemma call_integration_function_polls:
  "polls (state_of (call_integration_function f ps d img cam s)) = polls s"
  by (simp add: call_integration_function_def Let_def split: option.splits)

lemma call_integration_function_not_Return:
  "call_integration_function f ps d img cam s \<noteq> Return s'"
  by (simp add: call_integration_function_def Let_def split: option.splits)

section \<open>The ways one resource of a sensor is processed\<close>

lemma state_of_map_flow: "state_of (map_flow g r) = g (state_of r)"
  by (cases r) auto

lemma integrate_resource_shape:
  fixes vi_map :: "('t::{monoid_mult,inverse}, 'm) VIMap"
    and f :: "('t, 'm, 'st) DepthMapUndistortionAndIntegrationFunction"
  assumes res_def: "res = integrate_resource vi_map flags t f mid sid cam G C mn mx L tot arr poses r (idx, s)"
  obtains
    (index) "\<not> idx < unat tot" "res = Fatal (idx, s)"
  | (cancel) s' where "idx < unat tot" "check_sigint flags s = Inl s'" "res = Return (idx, s')"
  | (failed) s1 where "idx < unat tot" "check_sigint flags s = Inr s1"
      "extract_poses G C poses (unat tot) (unat L) 0 (idx, replicate (unat L) 1) = None"
      "res = Fatal (idx, s1)"
  | (skip) s1 vec where "idx < unat tot" "check_sigint flags s = Inr s1"
      "extract_poses G C poses (unat tot) (unat L) 0 (idx, replicate (unat L) 1)
         = Some (idx + unat L, vec)"
      "word_sless (arr ! idx) mn \<or> word_sless mx (arr ! idx)"
      "res = Next (idx + unat L, s1\<lparr>trace := trace s1 @ [WarningOutside (fst r) (arr ! idx)]\<rparr>)"
  | (stop) s1 vec where "idx < unat tot" "check_sigint flags s = Inr s1"
      "extract_poses G C poses (unat tot) (unat L) 0 (idx, replicate (unat L) 1)
         = Some (idx + unat L, vec)"
      "\<not> (word_sless (arr ! idx) mn \<or> word_sless mx (arr ! idx))"
      "t \<notin> kSupportedDepthMapInputTypes \<or> getSensorResource vi_map mid t sid (fst r) = None"
      "res = Fatal (idx + unat L, s1)"
  | (dispatch) s1 vec depth_map where "idx < unat tot" "check_sigint flags s = Inr s1"
      "extract_poses G C poses (unat tot) (unat L) 0 (idx, replicate (unat L) 1)
         = Some (idx + unat L, vec)"
      "\<not> (word_sless (arr ! idx) mn \<or> word_sless mx (arr ! idx))"
      "t \<in> kSupportedDepthMapInputTypes"
      "getSensorResource vi_map mid t sid (fst r) = Some depth_map"
      "res = map_flow (Pair (idx + unat L))
         (call_integration_function f vec depth_map
            (sensor_companion_image vi_map mid sid (fst r)) cam s1)"
proof (cases "idx < unat tot")
  case False
  then have "res = Fatal (idx, s)"
    by (simp add: res_def integrate_resource_def)
  with False show ?thesis by (rule index)
next
  case lt: True
  show ?thesis
  proof (cases "check_sigint flags s")
    case (Inl s')
    then have "res = Return (idx, s')"
      using lt by (simp add: res_def integrate_resource_def)
    with lt Inl show ?thesis by (rule cancel)
  next
    case (Inr s1)
    show ?thesis
    proof (cases "extract_poses G C poses (unat tot) (unat L) 0 (idx, replicate (unat L) 1)")
      case None
      then have "res = Fatal (idx, s1)"
        using lt Inr by (simp add: res_def integrate_resource_def)
      with lt Inr None show ?thesis by (rule failed)
    next
      case (Some p)
      obtain idx' vec where p: "p = (idx', vec)" by (cases p)
      have idx': "idx' = idx + unat L"
        using extract_poses_Some [of G C poses "unat tot" "unat L" 0 idx "replicate (unat L) 1"
            idx' vec] Some p by simp
      have ex: "extract_poses G C poses (unat tot) (unat L) 0 (idx, replicate (unat L) 1)
         = Some (idx + unat L, vec)"
        using Some p idx' by simp
      show ?thesis
      proof (cases "word_sless (arr ! idx) mn \<or> word_sless mx (arr ! idx)")
        case True
        then have "res = Next (idx + unat L,
            s1\<lparr>trace := trace s1 @ [WarningOutside (fst r) (arr ! idx)]\<rparr>)"
          using lt Inr ex by (auto simp add: res_def integrate_resource_def Let_def)
        with lt Inr ex True show ?thesis by (rule skip)
      next
        case inrange: False
        show ?thesis
        proof (cases "t \<in> kSupportedDepthMapInputTypes")
          case False
          then have "res = Fatal (idx + unat L, s1)"
            using lt Inr ex inrange
            by (cases t) (auto simp add: res_def integrate_resource_def Let_def
                kSupportedDepthMapInputTypes_def)
          with lt Inr ex inrange False show ?thesis by (intro stop) auto
        next
          case sup: True
          show ?thesis
          proof (cases "getSensorResource vi_map mid t sid (fst r)")
            case None
            then have "res = Fatal (idx + unat L, s1)"
              using lt Inr ex inrange sup
              by (cases t) (auto simp add: res_def integrate_resource_def Let_def
                  kSupportedDepthMapInputTypes_def)
            with lt Inr ex inrange None show ?thesis by (intro stop) auto
          next
            case (Some depth_map)
            then have "res = map_flow (Pair (idx + unat L))
               (call_integration_function f vec depth_map
                  (sensor_companion_image vi_map mid sid (fst r)) cam s1)"
              using lt Inr ex inrange sup
              by (cases t) (auto simp add: res_def integrate_resource_def Let_def
                  kSupportedDepthMapInputTypes_def)
            with lt Inr ex inrange sup Some show ?thesis by (rule dispatch)
          qed
        qed
      qed
    qed
  qed
qed

lemma integrate_resource_idx:
  assumes "integrate_resource vi_map flags t f mid sid cam G C mn mx L tot arr poses r (idx, s)
             = Next (idx', s')"
  shows "idx' = idx + unat L"
proof -
  define res where
    "res = integrate_resource vi_map flags t f mid sid cam G C mn mx L tot arr poses r (idx, s)"
  have nx: "res = Next (idx', s')"
    using assms by (simp add: res_def)
  from res_def show ?thesis
  proof (cases rule: integrate_resource_shape)
    case (dispatch s1 vec depth_map)
    then have "state_of res = (idx + unat L, state_of (call_integration_function f vec depth_map
        (sensor_companion_image vi_map mid sid (fst r)) cam s1))"
      by (simp add: state_of_map_flow)
    with nx show ?thesis by simp
  qed (use nx in auto)
qed

lemma integrate_resource_events:
  assumes "e \<in> set (trace (snd (state_of
             (integrate_resource vi_map flags t f mid sid cam G C mn mx L tot arr poses r (idx, s)))))"
  shows "e \<in> set (trace s) \<or> e = Poll \<or> e = WarningAborted
       \<or> e = WarningOutside (fst r) (arr ! idx)
       \<or> (\<exists>vec depth_map.
             e = Dispatch vec depth_map (sensor_companion_image vi_map mid sid (fst r)) cam
             \<and> getSensorResource vi_map mid t sid (fst r) = Some depth_map
             \<and> length vec = unat L
             \<and> (\<forall>k<unat L. vec ! k = G * poses ! (idx + k) * C))"
proof -
  define res where
    "res = integrate_resource vi_map flags t f mid sid cam G C mn mx L tot arr poses r (idx, s)"
  have e: "e \<in> set (trace (snd (state_of res)))"
    using assms by (simp add: res_def)
  from res_def show ?thesis
  proof (cases rule: integrate_resource_shape)
    case index
    then show ?thesis using e by simp
  next
    case (cancel s')
    then show ?thesis using e check_sigint_Inl [of flags s s'] by auto
  next
    case (failed s1)
    then show ?thesis using e check_sigint_Inr [of flags s s1] by auto
  next
    case (skip s1 vec)
    then show ?thesis using e check_sigint_Inr [of flags s s1] by auto
  next
    case (stop s1 vec)
    then show ?thesis using e check_sigint_Inr [of flags s s1] by auto
  next
    case (dispatch s1 vec depth_map)
    have vec: "length vec = unat L \<and> (\<forall>k<unat L. vec ! k = G * poses ! (idx + k) * C)"
      using extract_poses_Some [OF dispatch(3)] by simp
    have "trace (snd (state_of res))
          = trace s1 @ [Dispatch vec depth_map (sensor_companion_image vi_map mid sid (fst r)) cam]"
      using dispatch(7) by (simp add: state_of_map_flow call_integration_function_trace)
    then show ?thesis
      using e check_sigint_Inr [of flags s s1] dispatch(2,6) vec by auto
  qed
qed

text \<open>The events of the loop over the resources of one sensor.\<close>

lemma resources_loop_events:
  assumes "e \<in> set (trace (snd (state_of
             (for_each (integrate_resource vi_map flags t f mid sid cam G C mn mx L tot arr poses)
                rs (idx, s)))))"
  shows "e \<in> set (trace s) \<or> e = Poll \<or> e = WarningAborted
       \<or> (\<exists>j<length rs. e = WarningOutside (fst (rs ! j)) (arr ! (idx + j * unat L)))
       \<or> (\<exists>j<length rs. \<exists>vec depth_map.
             e = Dispatch vec depth_map (sensor_companion_image vi_map mid sid (fst (rs ! j))) cam
             \<and> getSensorResource vi_map mid t sid (fst (rs ! j)) = Some depth_map
             \<and> length vec = unat L
             \<and> (\<forall>k<unat L. vec ! k = G * poses ! (idx + j * unat L + k) * C))"
  using assms
proof (induction rs arbitrary: idx s)
  case Nil
  then show ?case by simp
next
  case (Cons r rs)
  let ?body = "integrate_resource vi_map flags t f mid sid cam G C mn mx L tot arr poses"
  let ?W = "\<lambda>rs idx. \<exists>j<length rs. e = WarningOutside (fst (rs ! j)) (arr ! (idx + j * unat L))"
  let ?D = "\<lambda>rs idx. \<exists>j<length rs. \<exists>vec depth_map.
             e = Dispatch vec depth_map (sensor_companion_image vi_map mid sid (fst (rs ! j))) cam
             \<and> getSensorResource vi_map mid t sid (fst (rs ! j)) = Some depth_map
             \<and> length vec = unat L
             \<and> (\<forall>k<unat L. vec ! k = G * poses ! (idx + j * unat L + k) * C)"
  have first: "e \<in> set (trace s) \<or> e = Poll \<or> e = WarningAborted \<or> ?W (r # rs) idx \<or> ?D (r # rs) idx"
    if "e \<in> set (trace (snd (state_of (?body r (idx, s)))))"
  proof -
    from integrate_resource_events [OF that]
    consider "e \<in> set (trace s) \<or> e = Poll \<or> e = WarningAborted"
      | "e = WarningOutside (fst r) (arr ! idx)"
      | "\<exists>vec depth_map.
             e = Dispatch vec depth_map (sensor_companion_image vi_map mid sid (fst r)) cam
             \<and> getSensorResource vi_map mid t sid (fst r) = Some depth_map
             \<and> length vec = unat L
             \<and> (\<forall>k<unat L. vec ! k = G * poses ! (idx + k) * C)"
      by blast
    then show ?thesis
    proof cases
      case 1
      then show ?thesis by blast
    next
      case 2
      then have "?W (r # rs) idx" by (intro exI [of _ 0]) simp
      then show ?thesis by blast
    next
      case 3
      then have "?D (r # rs) idx" by (intro exI [of _ 0]) simp
      then show ?thesis by blast
    qed
  qed
  show ?case
  proof (cases "?body r (idx, s)")
    case (Next st)
    obtain idx' s' where st: "st = (idx', s')" by (cases st)
    have idx': "idx' = idx + unat L"
      using integrate_resource_idx Next st by blast
    have "e \<in> set (trace (snd (state_of (for_each ?body rs (idx', s')))))"
      using Cons.prems Next st by simp
    from Cons.IH [OF this]
    consider "e \<in> set (trace s')" | "e = Poll \<or> e = WarningAborted" | "?W rs idx'" | "?D rs idx'"
      by blast
    then show ?thesis
    proof cases
      case 1
      then show ?thesis using first Next st by simp
    next
      case 2
      then show ?thesis by blast
    next
      case 3
      then obtain j where "j < length rs" "e = WarningOutside (fst (rs ! j)) (arr ! (idx' + j * unat L))"
        by blast
      then have "?W (r # rs) idx"
        using idx' by (intro exI [of _ "Suc j"]) (simp add: algebra_simps)
      then show ?thesis by blast
    next
      case 4
      then obtain j vec depth_map where "j < length rs"
        "e = Dispatch vec depth_map (sensor_companion_image vi_map mid sid (fst (rs ! j))) cam"
        "getSensorResource vi_map mid t sid (fst (rs ! j)) = Some depth_map"
        "length vec = unat L"
        "\<forall>k<unat L. vec ! k = G * poses ! (idx' + j * unat L + k) * C"
        by blast
      then have "?D (r # rs) idx"
        using idx' by (intro exI [of _ "Suc j"]) (simp add: algebra_simps)
      then show ?thesis by blast
    qed
  next
    case (Return st)
    then show ?thesis using first Cons.prems by simp
  next
    case (Fatal st)
    then show ?thesis using first Cons.prems by simp
  qed
qed


text \<open>The events of one sensor.\<close>

lemma integrate_sensor_events:
  fixes vi_map :: "('t::{monoid_mult,inverse}, 'm) VIMap"
  assumes "e \<in> set (trace (state_of
             (integrate_sensor vi_map flags t f mid G mn mx (sid, rs) s)))"
    and "e \<notin> set (trace s)"
  shows "\<exists>nc. getSensorType vi_map sid = kNCamera \<and> getSensorPtr vi_map sid = Some nc
           \<and> getNumCameras nc = 1
           \<and> length rs * unat (num_lines_per_depth_map_of flags (getCamera nc 0)) < 2 ^ 32
           \<and> (e = Interpolate mid
                    (snd (build_resource_timestamps mn mx (timeshift_resource_to_imu_ns flags)
                            (line_delay_ns_of flags (getCamera nc 0))
                            (num_lines_per_depth_map_of flags (getCamera nc 0)) rs))
               \<or> e = Poll \<or> e = WarningAborted
               \<or> (\<exists>j<length rs. e = WarningOutside (fst (rs ! j))
                      (snd (build_resource_timestamps mn mx (timeshift_resource_to_imu_ns flags)
                              (line_delay_ns_of flags (getCamera nc 0))
                              (num_lines_per_depth_map_of flags (getCamera nc 0)) rs)
                         ! (j * unat (num_lines_per_depth_map_of flags (getCamera nc 0)))))
               \<or> (\<exists>j<length rs. \<exists>vec depth_map.
                     e = Dispatch vec depth_map
                           (sensor_companion_image vi_map mid sid (fst (rs ! j))) (getCamera nc 0)
                     \<and> getSensorResource vi_map mid t sid (fst (rs ! j)) = Some depth_map
                     \<and> length vec = unat (num_lines_per_depth_map_of flags (getCamera nc 0))
                     \<and> (\<forall>k<unat (num_lines_per_depth_map_of flags (getCamera nc 0)).
                           vec ! k =
                             G * getPosesAtTime vi_map mid
                                   (snd (build_resource_timestamps mn mx
                                           (timeshift_resource_to_imu_ns flags)
                                           (line_delay_ns_of flags (getCamera nc 0))
                                           (num_lines_per_depth_map_of flags (getCamera nc 0)) rs))
                                 ! (j * unat (num_lines_per_depth_map_of flags (getCamera nc 0)) + k)
                               * (getSensor_T_B_S vi_map sid * inverse (get_T_C_B nc 0)))))"
proof -
  let ?res = "integrate_sensor vi_map flags t f mid G mn mx (sid, rs) s"
  have ty: "getSensorType vi_map sid = kNCamera"
  proof (rule ccontr)
    assume "getSensorType vi_map sid \<noteq> kNCamera"
    then have "?res = Fatal s" by (simp add: integrate_sensor_def)
    with assms show False by simp
  qed
  obtain nc where nc: "getSensorPtr vi_map sid = Some nc"
  proof (cases "getSensorPtr vi_map sid")
    case None
    then have "?res = Fatal s" using ty by (simp add: integrate_sensor_def)
    with assms show ?thesis by simp
  next
    case (Some nc)
    then show ?thesis by (rule that)
  qed
  have one: "getNumCameras nc = 1"
  proof (rule ccontr)
    assume "getNumCameras nc \<noteq> 1"
    then have "?res = Fatal s" using ty nc by (simp add: integrate_sensor_def)
    with assms show False by simp
  qed
  define cam where "cam = getCamera nc 0"
  define L where "L = num_lines_per_depth_map_of flags cam"
  define d where "d = line_delay_ns_of flags cam"
  define tot where "tot = (of_nat (length rs * unat L) :: uint32)"
  define tss where
    "tss = snd (build_resource_timestamps mn mx (timeshift_resource_to_imu_ns flags) d L rs)"
  define poses where "poses = getPosesAtTime vi_map mid tss"
  define s1 where "s1 = s\<lparr>trace := trace s @ [Interpolate mid tss]\<rparr>"
  define C where "C = getSensor_T_B_S vi_map sid * inverse (get_T_C_B nc 0)"
  have b: "build_resource_timestamps mn mx (timeshift_resource_to_imu_ns flags) d L rs
             = (length rs * unat L, tss)"
    using build_resource_timestamps_fst [of mn mx "timeshift_resource_to_imu_ns flags" d L rs]
    by (simp add: tss_def prod_eq_iff)
  have unfolded: "?res =
      (if length rs * unat L \<noteq> unat tot then Fatal s
       else if \<not> ((of_nat (length poses) :: uint32) = tot \<and> length poses = unat tot)
         then Fatal s1
         else map_flow snd
                (for_each (integrate_resource vi_map flags t f mid sid cam G C mn mx L tot tss poses)
                   rs (0, s1)))"
    using ty nc one b
    by (simp add: integrate_sensor_def Let_def cam_def [symmetric] L_def [symmetric]
        d_def [symmetric] tot_def [symmetric] poses_def [symmetric] s1_def [symmetric]
        C_def [symmetric] del: of_nat_mult)
  have exact: "length rs * unat L = unat tot"
  proof (rule ccontr)
    assume "length rs * unat L \<noteq> unat tot"
    then have "?res = Fatal s" using unfolded by simp
    with assms show False by simp
  qed
  then have small: "length rs * unat L < 2 ^ 32"
    using total_number_of_poses_exact_iff [of "length rs * unat L"] by (simp add: tot_def)
  show ?thesis
  proof (cases "e = Interpolate mid tss")
    case True
    then show ?thesis
      using ty nc one small by (auto simp: tss_def L_def d_def cam_def)
  next
    case False
    have len: "length poses = unat tot"
    proof (rule ccontr)
      assume "length poses \<noteq> unat tot"
      then have "?res = Fatal s1" using unfolded exact by simp
      with assms False show False by (simp add: s1_def)
    qed
    then have "?res = map_flow snd
                (for_each (integrate_resource vi_map flags t f mid sid cam G C mn mx L tot tss poses)
                   rs (0, s1))"
      using unfolded exact by simp
    then have "e \<in> set (trace (snd (state_of
                (for_each (integrate_resource vi_map flags t f mid sid cam G C mn mx L tot tss poses)
                   rs (0, s1)))))"
      using assms(1) by (simp add: state_of_map_flow)
    from resources_loop_events [OF this] assms(2) False
    have "e = Poll \<or> e = WarningAborted
       \<or> (\<exists>j<length rs. e = WarningOutside (fst (rs ! j)) (tss ! (j * unat L)))
       \<or> (\<exists>j<length rs. \<exists>vec depth_map.
             e = Dispatch vec depth_map (sensor_companion_image vi_map mid sid (fst (rs ! j))) cam
             \<and> getSensorResource vi_map mid t sid (fst (rs ! j)) = Some depth_map
             \<and> length vec = unat L
             \<and> (\<forall>k<unat L. vec ! k = G * poses ! (j * unat L + k) * C))"
      by (simp add: s1_def)
    then show ?thesis
      using ty nc one small
      unfolding tss_def L_def d_def cam_def poses_def C_def
      by (intro exI [of _ nc]) blast
  qed
qed

section \<open>The calls of the integration function\<close>

lemma integrate_frame_supported:
  assumes "t \<in> kSupportedDepthMapInputTypes"
  shows "integrate_frame vi_map t f nc T_B_Cn T_G_B v k s =
           (case getFrameResource vi_map v k t of
              None \<Rightarrow> Next s
            | Some depth_map \<Rightarrow>
                call_integration_function f [T_G_B * (T_B_Cn * inverse (get_T_C_B nc k))] depth_map
                  (frame_companion_image vi_map v k) (getCamera nc k) s)"
  using assms
  by (cases t)
    (auto simp: integrate_frame_def kSupportedDepthMapInputTypes_def Let_def split: option.splits)

lemma integrate_frame_unsupported:
  assumes "t \<notin> kSupportedDepthMapInputTypes"
  shows "integrate_frame vi_map t f nc T_B_Cn T_G_B v k s = Fatal s"
  using assms
  by (cases t) (auto simp: integrate_frame_def kSupportedDepthMapInputTypes_def Let_def)

lemma integrate_frame_events:
  assumes "e \<in> set (trace (state_of (integrate_frame vi_map t f nc T_B_Cn T_G_B v k s)))"
  shows "e \<in> set (trace s)
       \<or> (\<exists>depth_map.
             e = Dispatch [T_G_B * (T_B_Cn * inverse (get_T_C_B nc k))] depth_map
                   (frame_companion_image vi_map v k) (getCamera nc k)
             \<and> getFrameResource vi_map v k t = Some depth_map)"
proof (cases "t \<in> kSupportedDepthMapInputTypes")
  case True
  show ?thesis
  proof (cases "getFrameResource vi_map v k t")
    case None
    then show ?thesis
      using assms integrate_frame_supported [OF True, of vi_map f nc T_B_Cn T_G_B v k s] by simp
  next
    case (Some depth_map)
    then show ?thesis
      using assms integrate_frame_supported [OF True, of vi_map f nc T_B_Cn T_G_B v k s]
      by (auto simp: call_integration_function_trace)
  qed
next
  case False
  then show ?thesis
    using assms integrate_frame_unsupported [OF False, of vi_map f nc T_B_Cn T_G_B v k s] by simp
qed

lemma integrate_vertex_events:
  fixes s :: "('t::{monoid_mult,inverse}, 'm, 'st) run_state"
  assumes "e \<in> set (trace (state_of (integrate_vertex vi_map flags t f nc T_B_Cn G v s)))"
  shows "e \<in> set (trace s) \<or> e = Poll \<or> e = WarningAborted
       \<or> (\<exists>k<numFrames vi_map v. \<exists>depth_map.
             e = Dispatch [G * get_T_M_I vi_map v * (T_B_Cn * inverse (get_T_C_B nc k))] depth_map
                   (frame_companion_image vi_map v k) (getCamera nc k)
             \<and> getFrameResource vi_map v k t = Some depth_map)"
proof (cases "check_sigint flags s")
  case (Inl s')
  then show ?thesis
    using assms check_sigint_Inl [OF Inl] by (auto simp: integrate_vertex_def)
next
  case (Inr s1)
  let ?Q = "\<lambda>e. \<exists>k<numFrames vi_map v. \<exists>depth_map.
             e = Dispatch [G * get_T_M_I vi_map v * (T_B_Cn * inverse (get_T_C_B nc k))] depth_map
                   (frame_companion_image vi_map v k) (getCamera nc k)
             \<and> getFrameResource vi_map v k t = Some depth_map"
  let ?P = "\<lambda>s' :: ('t, 'm, 'st) run_state. e \<in> set (trace s') \<longrightarrow> e \<in> set (trace s1) \<or> ?Q e"
  let ?body = "integrate_frame vi_map t f nc T_B_Cn (G * get_T_M_I vi_map v) v"
  have "?P (state_of (for_each ?body [0..<numFrames vi_map v] s1))"
  proof (rule for_each_invariant [where P = ?P])
    show "?P s1" by simp
  next
    fix k s'
    assume k: "k \<in> set [0..<numFrames vi_map v]" and P: "?P s'"
    show "?P (state_of (?body k s'))"
    proof
      assume "e \<in> set (trace (state_of (?body k s')))"
      from integrate_frame_events [OF this] P k show "e \<in> set (trace s1) \<or> ?Q e"
        by auto
    qed
  qed
  moreover have "integrate_vertex vi_map flags t f nc T_B_Cn G v s
                   = for_each ?body [0..<numFrames vi_map v] s1"
    using Inr by (simp add: integrate_vertex_def Let_def)
  ultimately have "e \<in> set (trace s1) \<or> ?Q e"
    using assms by simp
  then show ?thesis
    using check_sigint_Inr [OF Inr] by auto
qed

lemma integrate_frame_mission_events:
  fixes s :: "('t::{monoid_mult,inverse}, 'm, 'st) run_state"
  assumes "e \<in> set (trace (state_of (integrate_frame_mission vi_map flags t f mid s)))"
  shows "e \<in> set (trace s) \<or> e = Poll \<or> e = WarningAborted
       \<or> (hasNCamera vi_map mid
           \<and> (\<exists>v\<in>set (getAllVertexIdsInMissionAlongGraph vi_map mid).
                \<exists>k<numFrames vi_map v. \<exists>depth_map.
                  e = Dispatch
                        [get_T_G_M vi_map mid * get_T_M_I vi_map v
                           * (getSensor_T_B_S vi_map (getNCameraId vi_map mid)
                                * inverse (get_T_C_B (getSensor vi_map (getNCameraId vi_map mid)) k))]
                        depth_map (frame_companion_image vi_map v k)
                        (getCamera (getSensor vi_map (getNCameraId vi_map mid)) k)
                  \<and> getFrameResource vi_map v k t = Some depth_map))"
proof (cases "hasNCamera vi_map mid")
  case False
  then show ?thesis using assms by (simp add: integrate_frame_mission_def)
next
  case True
  let ?nc = "getSensor vi_map (getNCameraId vi_map mid)"
  let ?B = "getSensor_T_B_S vi_map (getNCameraId vi_map mid)"
  let ?G = "get_T_G_M vi_map mid"
  let ?Q = "\<lambda>e. e = Poll \<or> e = WarningAborted
       \<or> (\<exists>v\<in>set (getAllVertexIdsInMissionAlongGraph vi_map mid).
                \<exists>k<numFrames vi_map v. \<exists>depth_map.
                  e = Dispatch [?G * get_T_M_I vi_map v * (?B * inverse (get_T_C_B ?nc k))]
                        depth_map (frame_companion_image vi_map v k) (getCamera ?nc k)
                  \<and> getFrameResource vi_map v k t = Some depth_map)"
  let ?P = "\<lambda>s' :: ('t, 'm, 'st) run_state. e \<in> set (trace s') \<longrightarrow> e \<in> set (trace s) \<or> ?Q e"
  let ?body = "integrate_vertex vi_map flags t f ?nc ?B ?G"
  have "?P (state_of (for_each ?body (getAllVertexIdsInMissionAlongGraph vi_map mid) s))"
  proof (rule for_each_invariant [where P = ?P])
    show "?P s" by simp
  next
    fix v s'
    assume v: "v \<in> set (getAllVertexIdsInMissionAlongGraph vi_map mid)" and P: "?P s'"
    show "?P (state_of (?body v s'))"
    proof
      assume "e \<in> set (trace (state_of (?body v s')))"
      from integrate_vertex_events [OF this] P v show "e \<in> set (trace s) \<or> ?Q e"
        by blast
    qed
  qed
  moreover have "integrate_frame_mission vi_map flags t f mid s
                   = for_each ?body (getAllVertexIdsInMissionAlongGraph vi_map mid) s"
    using True by (simp add: integrate_frame_mission_def Let_def)
  ultimately show ?thesis
    using assms True by auto
qed


lemma integrate_sensor_dispatch:
  fixes vi_map :: "('t::{monoid_mult,inverse}, 'm) VIMap"
  assumes "Dispatch vec depth_map img cam \<in> set (trace (state_of
             (integrate_sensor vi_map flags t f mid G mn mx (sid, rs) s)))"
    and "Dispatch vec depth_map img cam \<notin> set (trace s)"
  shows "\<exists>nc. getSensorPtr vi_map sid = Some nc
           \<and> length vec = unat (num_lines_per_depth_map_of flags (getCamera nc 0))
           \<and> (\<exists>j<length rs.
                 getSensorResource vi_map mid t sid (fst (rs ! j)) = Some depth_map
                 \<and> img = sensor_companion_image vi_map mid sid (fst (rs ! j))
                 \<and> (\<forall>k<unat (num_lines_per_depth_map_of flags (getCamera nc 0)).
                       vec ! k =
                         G * sensor_poses vi_map flags mid mn mx nc rs
                               ! (j * unat (num_lines_per_depth_map_of flags (getCamera nc 0)) + k)
                           * getSensor_T_B_S vi_map sid * inverse (get_T_C_B nc 0)))"
proof -
  from integrate_sensor_events [OF assms]
  obtain nc j vec' depth_map' where nc: "getSensorPtr vi_map sid = Some nc"
    and j: "j < length rs"
    and e: "Dispatch vec depth_map img cam = Dispatch vec' depth_map'
              (sensor_companion_image vi_map mid sid (fst (rs ! j))) (getCamera nc 0)"
    and d: "getSensorResource vi_map mid t sid (fst (rs ! j)) = Some depth_map'"
    and len: "length vec' = unat (num_lines_per_depth_map_of flags (getCamera nc 0))"
    and entries: "\<forall>k<unat (num_lines_per_depth_map_of flags (getCamera nc 0)).
        vec' ! k = G * getPosesAtTime vi_map mid
            (snd (build_resource_timestamps mn mx (timeshift_resource_to_imu_ns flags)
                 (line_delay_ns_of flags (getCamera nc 0))
                 (num_lines_per_depth_map_of flags (getCamera nc 0)) rs))
            ! (j * unat (num_lines_per_depth_map_of flags (getCamera nc 0)) + k)
          * (getSensor_T_B_S vi_map sid * inverse (get_T_C_B nc 0))"
    by auto
  from e have eq: "vec' = vec" "depth_map' = depth_map"
    "img = sensor_companion_image vi_map mid sid (fst (rs ! j))" by simp_all
  show ?thesis
    using nc j d len entries eq
    by (intro exI [of _ nc] conjI exI [of _ j])
      (simp_all add: sensor_poses_def sensor_timestamps_def mult.assoc)
qed


lemma integrate_sensor_mission_dispatch:
  fixes vi_map :: "('t::{monoid_mult,inverse}, 'm) VIMap"
    and s :: "('t, 'm, 'st) run_state"
  assumes "Dispatch vec depth_map img cam \<in> set (trace (state_of
             (integrate_sensor_mission vi_map flags t f mid s)))"
    and "Dispatch vec depth_map img cam \<notin> set (trace s)"
  shows "\<exists>mn mx sensors sid rs nc.
           getVertexToTimeStampMap vi_map mid = (False, mn, mx)
           \<and> getAllSensorResourceIdsOfType vi_map mid t = Some sensors
           \<and> (sid, rs) \<in> set sensors
           \<and> getSensorPtr vi_map sid = Some nc
           \<and> length vec = unat (num_lines_per_depth_map_of flags (getCamera nc 0))
           \<and> (\<exists>j<length rs.
                 getSensorResource vi_map mid t sid (fst (rs ! j)) = Some depth_map
                 \<and> img = sensor_companion_image vi_map mid sid (fst (rs ! j))
                 \<and> (\<forall>k<unat (num_lines_per_depth_map_of flags (getCamera nc 0)).
                       vec ! k =
                         get_T_G_M vi_map mid * sensor_poses vi_map flags mid mn mx nc rs
                               ! (j * unat (num_lines_per_depth_map_of flags (getCamera nc 0)) + k)
                           * getSensor_T_B_S vi_map sid * inverse (get_T_C_B nc 0)))"
proof -
  obtain empty mn mx where range: "getVertexToTimeStampMap vi_map mid = (empty, mn, mx)"
    by (cases "getVertexToTimeStampMap vi_map mid") auto
  have nonempty: "\<not> empty"
  proof
    assume empty
    then have "integrate_sensor_mission vi_map flags t f mid s = Next s"
      using range by (simp add: integrate_sensor_mission_def)
    with assms show False by simp
  qed
  obtain sensors where sensors: "getAllSensorResourceIdsOfType vi_map mid t = Some sensors"
  proof (cases "getAllSensorResourceIdsOfType vi_map mid t")
    case None
    then have "integrate_sensor_mission vi_map flags t f mid s = Next s"
      using range by (simp add: integrate_sensor_mission_def)
    with assms show ?thesis by simp
  next
    case (Some sensors)
    then show ?thesis by (rule that)
  qed
  let ?e = "Dispatch vec depth_map img cam"
  let ?Q = "\<exists>sid rs nc. (sid, rs) \<in> set sensors
           \<and> getSensorPtr vi_map sid = Some nc
           \<and> length vec = unat (num_lines_per_depth_map_of flags (getCamera nc 0))
           \<and> (\<exists>j<length rs.
                 getSensorResource vi_map mid t sid (fst (rs ! j)) = Some depth_map
                 \<and> img = sensor_companion_image vi_map mid sid (fst (rs ! j))
                 \<and> (\<forall>k<unat (num_lines_per_depth_map_of flags (getCamera nc 0)).
                       vec ! k =
                         get_T_G_M vi_map mid * sensor_poses vi_map flags mid mn mx nc rs
                               ! (j * unat (num_lines_per_depth_map_of flags (getCamera nc 0)) + k)
                           * getSensor_T_B_S vi_map sid * inverse (get_T_C_B nc 0)))"
  let ?P = "\<lambda>s' :: ('t, 'm, 'st) run_state. ?e \<in> set (trace s') \<longrightarrow> ?e \<in> set (trace s) \<or> ?Q"
  let ?body = "integrate_sensor vi_map flags t f mid (get_T_G_M vi_map mid) mn mx"
  have "?P (state_of (for_each ?body sensors s))"
  proof (rule for_each_invariant [where P = ?P])
    show "?P s" by simp
  next
    fix x s'
    assume x: "x \<in> set sensors" and P: "?P s'"
    obtain sid rs where xeq: "x = (sid, rs)" by (cases x)
    show "?P (state_of (?body x s'))"
    proof
      assume in_trace: "?e \<in> set (trace (state_of (?body x s')))"
      show "?e \<in> set (trace s) \<or> ?Q"
      proof (cases "?e \<in> set (trace s')")
        case True
        with P show ?thesis by simp
      next
        case False
        from integrate_sensor_dispatch [OF in_trace [unfolded xeq] False]
        have ?Q using x xeq by blast
        then show ?thesis ..
      qed
    qed
  qed
  moreover have "integrate_sensor_mission vi_map flags t f mid s = for_each ?body sensors s"
    using range nonempty sensors by (simp add: integrate_sensor_mission_def Let_def)
  ultimately have ?Q
    using assms by simp
  then obtain sid rs nc where
    "(sid, rs) \<in> set sensors
     \<and> getSensorPtr vi_map sid = Some nc
     \<and> length vec = unat (num_lines_per_depth_map_of flags (getCamera nc 0))
     \<and> (\<exists>j<length rs.
           getSensorResource vi_map mid t sid (fst (rs ! j)) = Some depth_map
           \<and> img = sensor_companion_image vi_map mid sid (fst (rs ! j))
           \<and> (\<forall>k<unat (num_lines_per_depth_map_of flags (getCamera nc 0)).
                 vec ! k =
                   get_T_G_M vi_map mid * sensor_poses vi_map flags mid mn mx nc rs
                         ! (j * unat (num_lines_per_depth_map_of flags (getCamera nc 0)) + k)
                     * getSensor_T_B_S vi_map sid * inverse (get_T_C_B nc 0)))"
    by (elim exE)
  moreover have "getVertexToTimeStampMap vi_map mid = (False, mn, mx)"
    using range nonempty by simp
  ultimately have "getVertexToTimeStampMap vi_map mid = (False, mn, mx)
     \<and> getAllSensorResourceIdsOfType vi_map mid t = Some sensors
     \<and> (sid, rs) \<in> set sensors
     \<and> getSensorPtr vi_map sid = Some nc
     \<and> length vec = unat (num_lines_per_depth_map_of flags (getCamera nc 0))
     \<and> (\<exists>j<length rs.
           getSensorResource vi_map mid t sid (fst (rs ! j)) = Some depth_map
           \<and> img = sensor_companion_image vi_map mid sid (fst (rs ! j))
           \<and> (\<forall>k<unat (num_lines_per_depth_map_of flags (getCamera nc 0)).
                 vec ! k =
                   get_T_G_M vi_map mid * sensor_poses vi_map flags mid mn mx nc rs
                         ! (j * unat (num_lines_per_depth_map_of flags (getCamera nc 0)) + k)
                     * getSensor_T_B_S vi_map sid * inverse (get_T_C_B nc 0)))"
    using sensors by simp
  then show ?thesis
    by - ((rule exI)+, assumption)
qed

lemma frame_impl_dispatch:
  fixes vi_map :: "('t::{monoid_mult,inverse}, 'm) VIMap"
    and s :: "('t, 'm, 'st) run_state"
  assumes "Dispatch vec depth_map img cam \<in> set (trace (state_of
             (integrateAllFrameDepthMapResourcesOfTypeImpl mission_ids t vi_map flags fo s)))"
    and "Dispatch vec depth_map img cam \<notin> set (trace s)"
  shows "\<exists>mid\<in>set mission_ids. \<exists>v\<in>set (getAllVertexIdsInMissionAlongGraph vi_map mid).
           \<exists>k<numFrames vi_map v.
             getFrameResource vi_map v k t = Some depth_map
             \<and> img = frame_companion_image vi_map v k
             \<and> vec = [get_T_G_M vi_map mid * get_T_M_I vi_map v
                        * getSensor_T_B_S vi_map (getNCameraId vi_map mid)
                        * inverse (get_T_C_B (getSensor vi_map (getNCameraId vi_map mid)) k)]"
proof -
  let ?e = "Dispatch vec depth_map img cam"
  let ?Q = "\<exists>mid\<in>set mission_ids. \<exists>v\<in>set (getAllVertexIdsInMissionAlongGraph vi_map mid).
           \<exists>k<numFrames vi_map v.
             getFrameResource vi_map v k t = Some depth_map
             \<and> img = frame_companion_image vi_map v k
             \<and> vec = [get_T_G_M vi_map mid * get_T_M_I vi_map v
                        * getSensor_T_B_S vi_map (getNCameraId vi_map mid)
                        * inverse (get_T_C_B (getSensor vi_map (getNCameraId vi_map mid)) k)]"
  obtain f where f: "fo = Some f"
  proof (cases fo)
    case None
    then show ?thesis
      using assms by (simp add: integrateAllFrameDepthMapResourcesOfTypeImpl_def)
  next
    case (Some f)
    then show ?thesis by (rule that)
  qed
  have sup: "t \<in> kSupportedDepthMapInputTypes"
  proof (rule ccontr)
    assume "t \<notin> kSupportedDepthMapInputTypes"
    then show False
      using assms f by (simp add: integrateAllFrameDepthMapResourcesOfTypeImpl_def)
  qed
  let ?P = "\<lambda>s' :: ('t, 'm, 'st) run_state. ?e \<in> set (trace s') \<longrightarrow> ?e \<in> set (trace s) \<or> ?Q"
  let ?body = "integrate_frame_mission vi_map flags t f"
  have "?P (state_of (for_each ?body mission_ids s))"
  proof (rule for_each_invariant [where P = ?P])
    show "?P s" by simp
  next
    fix mid s'
    assume mid: "mid \<in> set mission_ids" and P: "?P s'"
    show "?P (state_of (?body mid s'))"
    proof
      assume "?e \<in> set (trace (state_of (?body mid s')))"
      from integrate_frame_mission_events [OF this]
      have "?e \<in> set (trace s')
        \<or> (hasNCamera vi_map mid
           \<and> (\<exists>v\<in>set (getAllVertexIdsInMissionAlongGraph vi_map mid).
                \<exists>k<numFrames vi_map v. \<exists>depth_map'.
                  ?e = Dispatch
                        [get_T_G_M vi_map mid * get_T_M_I vi_map v
                           * (getSensor_T_B_S vi_map (getNCameraId vi_map mid)
                                * inverse (get_T_C_B (getSensor vi_map (getNCameraId vi_map mid)) k))]
                        depth_map' (frame_companion_image vi_map v k)
                        (getCamera (getSensor vi_map (getNCameraId vi_map mid)) k)
                  \<and> getFrameResource vi_map v k t = Some depth_map'))"
        by (simp only: event.distinct simp_thms)
      then consider "?e \<in> set (trace s')"
        | "\<exists>v\<in>set (getAllVertexIdsInMissionAlongGraph vi_map mid).
                \<exists>k<numFrames vi_map v. \<exists>depth_map'.
                  ?e = Dispatch
                        [get_T_G_M vi_map mid * get_T_M_I vi_map v
                           * (getSensor_T_B_S vi_map (getNCameraId vi_map mid)
                                * inverse (get_T_C_B (getSensor vi_map (getNCameraId vi_map mid)) k))]
                        depth_map' (frame_companion_image vi_map v k)
                        (getCamera (getSensor vi_map (getNCameraId vi_map mid)) k)
                  \<and> getFrameResource vi_map v k t = Some depth_map'"
        by blast
      then show "?e \<in> set (trace s) \<or> ?Q"
      proof cases
        case 1
        with P show ?thesis by simp
      next
        case 2
        then obtain v k depth_map' where v: "v \<in> set (getAllVertexIdsInMissionAlongGraph vi_map mid)"
          and k: "k < numFrames vi_map v"
          and e: "?e = Dispatch
                        [get_T_G_M vi_map mid * get_T_M_I vi_map v
                           * (getSensor_T_B_S vi_map (getNCameraId vi_map mid)
                                * inverse (get_T_C_B (getSensor vi_map (getNCameraId vi_map mid)) k))]
                        depth_map' (frame_companion_image vi_map v k)
                        (getCamera (getSensor vi_map (getNCameraId vi_map mid)) k)"
          and d: "getFrameResource vi_map v k t = Some depth_map'"
          by blast
        from e have "vec = [get_T_G_M vi_map mid * get_T_M_I vi_map v
                        * getSensor_T_B_S vi_map (getNCameraId vi_map mid)
                        * inverse (get_T_C_B (getSensor vi_map (getNCameraId vi_map mid)) k)]"
          and "img = frame_companion_image vi_map v k" and "depth_map' = depth_map"
          by (simp_all add: mult.assoc)
        with d k have fk: "\<exists>k<numFrames vi_map v.
             getFrameResource vi_map v k t = Some depth_map
             \<and> img = frame_companion_image vi_map v k
             \<and> vec = [get_T_G_M vi_map mid * get_T_M_I vi_map v
                        * getSensor_T_B_S vi_map (getNCameraId vi_map mid)
                        * inverse (get_T_C_B (getSensor vi_map (getNCameraId vi_map mid)) k)]"
          by (intro exI [of _ k]) simp
        have fv: "\<exists>v\<in>set (getAllVertexIdsInMissionAlongGraph vi_map mid).
           \<exists>k<numFrames vi_map v.
             getFrameResource vi_map v k t = Some depth_map
             \<and> img = frame_companion_image vi_map v k
             \<and> vec = [get_T_G_M vi_map mid * get_T_M_I vi_map v
                        * getSensor_T_B_S vi_map (getNCameraId vi_map mid)
                        * inverse (get_T_C_B (getSensor vi_map (getNCameraId vi_map mid)) k)]"
          by (rule bexI) (rule fk, rule v)
        have ?Q
          by (rule bexI) (rule fv, rule mid)
        then show ?thesis ..
      qed
    qed
  qed
  moreover have "integrateAllFrameDepthMapResourcesOfTypeImpl mission_ids t vi_map flags fo s
                   = for_each ?body mission_ids s"
    using f sup by (simp add: integrateAllFrameDepthMapResourcesOfTypeImpl_def)
  ultimately have "?e \<in> set (trace s) \<or> ?Q"
    using assms(1) by (simp only:)
  with assms(2) show ?thesis by (simp only: simp_thms)
qed

lemma sensor_impl_dispatch:
  fixes vi_map :: "('t::{monoid_mult,inverse}, 'm) VIMap"
    and s :: "('t, 'm, 'st) run_state"
  assumes "Dispatch vec depth_map img cam \<in> set (trace (state_of
             (integrateAllOptionalSensorDepthMapResourcesOfTypeImpl mission_ids t vi_map flags
                fo s)))"
    and "Dispatch vec depth_map img cam \<notin> set (trace s)"
  shows "\<exists>mid\<in>set mission_ids. \<exists>mn mx sensors sid rs nc.
           getVertexToTimeStampMap vi_map mid = (False, mn, mx)
           \<and> getAllSensorResourceIdsOfType vi_map mid t = Some sensors
           \<and> (sid, rs) \<in> set sensors
           \<and> getSensorPtr vi_map sid = Some nc
           \<and> length vec = unat (num_lines_per_depth_map_of flags (getCamera nc 0))
           \<and> (\<exists>j<length rs.
                 getSensorResource vi_map mid t sid (fst (rs ! j)) = Some depth_map
                 \<and> img = sensor_companion_image vi_map mid sid (fst (rs ! j))
                 \<and> (\<forall>k<unat (num_lines_per_depth_map_of flags (getCamera nc 0)).
                       vec ! k =
                         get_T_G_M vi_map mid * sensor_poses vi_map flags mid mn mx nc rs
                               ! (j * unat (num_lines_per_depth_map_of flags (getCamera nc 0)) + k)
                           * getSensor_T_B_S vi_map sid * inverse (get_T_C_B nc 0)))"
proof -
  let ?e = "Dispatch vec depth_map img cam"
  let ?R = "\<lambda>mid. \<exists>mn mx sensors sid rs nc.
           getVertexToTimeStampMap vi_map mid = (False, mn, mx)
           \<and> getAllSensorResourceIdsOfType vi_map mid t = Some sensors
           \<and> (sid, rs) \<in> set sensors
           \<and> getSensorPtr vi_map sid = Some nc
           \<and> length vec = unat (num_lines_per_depth_map_of flags (getCamera nc 0))
           \<and> (\<exists>j<length rs.
                 getSensorResource vi_map mid t sid (fst (rs ! j)) = Some depth_map
                 \<and> img = sensor_companion_image vi_map mid sid (fst (rs ! j))
                 \<and> (\<forall>k<unat (num_lines_per_depth_map_of flags (getCamera nc 0)).
                       vec ! k =
                         get_T_G_M vi_map mid * sensor_poses vi_map flags mid mn mx nc rs
                               ! (j * unat (num_lines_per_depth_map_of flags (getCamera nc 0)) + k)
                           * getSensor_T_B_S vi_map sid * inverse (get_T_C_B nc 0)))"
  obtain f where f: "fo = Some f"
  proof (cases fo)
    case None
    then show ?thesis
      using assms by (simp add: integrateAllOptionalSensorDepthMapResourcesOfTypeImpl_def)
  next
    case (Some f)
    then show ?thesis by (rule that)
  qed
  have sup: "t \<in> kSupportedDepthMapInputTypes"
  proof (rule ccontr)
    assume "t \<notin> kSupportedDepthMapInputTypes"
    then show False
      using assms f by (simp add: integrateAllOptionalSensorDepthMapResourcesOfTypeImpl_def)
  qed
  let ?P = "\<lambda>s' :: ('t, 'm, 'st) run_state.
              ?e \<in> set (trace s') \<longrightarrow> ?e \<in> set (trace s) \<or> (\<exists>mid\<in>set mission_ids. ?R mid)"
  let ?body = "integrate_sensor_mission vi_map flags t f"
  have "?P (state_of (for_each ?body mission_ids s))"
  proof (rule for_each_invariant [where P = ?P])
    show "?P s" by simp
  next
    fix mid s'
    assume mid: "mid \<in> set mission_ids" and P: "?P s'"
    show "?P (state_of (?body mid s'))"
    proof
      assume in_trace: "?e \<in> set (trace (state_of (?body mid s')))"
      show "?e \<in> set (trace s) \<or> (\<exists>mid\<in>set mission_ids. ?R mid)"
      proof (cases "?e \<in> set (trace s')")
        case True
        with P show ?thesis by simp
      next
        case False
        have r: "?R mid"
          by (rule integrate_sensor_mission_dispatch [OF in_trace False])
        have "\<exists>mid\<in>set mission_ids. ?R mid"
          by (rule bexI) (rule r, rule mid)
        then show ?thesis ..
      qed
    qed
  qed
  moreover have "integrateAllOptionalSensorDepthMapResourcesOfTypeImpl mission_ids t vi_map
                   flags fo s = for_each ?body mission_ids s"
    using f sup by (simp add: integrateAllOptionalSensorDepthMapResourcesOfTypeImpl_def)
  ultimately have "?e \<in> set (trace s) \<or> (\<exists>mid\<in>set mission_ids. ?R mid)"
    using assms(1) by (simp only:)
  with assms(2) show ?thesis by (simp only: simp_thms)
qed

lemma length_check_iff:
  "((of_nat n :: uint32) = tot \<and> n = unat tot) \<longleftrightarrow> n = unat tot"
  by auto

lemma integrate_sensor_checked:
  fixes vi_map :: "('t::{monoid_mult,inverse}, 'm) VIMap"
  assumes ty: "getSensorType vi_map sid = kNCamera"
    and nc: "getSensorPtr vi_map sid = Some nc"
    and one: "getNumCameras nc = 1"
    and small: "length rs * unat (num_lines_per_depth_map_of flags (getCamera nc 0)) < 2 ^ 32"
  shows "integrate_sensor vi_map flags t f mid G mn mx (sid, rs) s =
           (if length (sensor_poses vi_map flags mid mn mx nc rs)
                 \<noteq> length rs * unat (num_lines_per_depth_map_of flags (getCamera nc 0))
            then Fatal (s\<lparr>trace := trace s @
                          [Interpolate mid (sensor_timestamps flags mn mx nc rs)]\<rparr>)
            else map_flow snd
                   (for_each
                      (integrate_resource vi_map flags t f mid sid (getCamera nc 0) G
                         (getSensor_T_B_S vi_map sid * inverse (get_T_C_B nc 0)) mn mx
                         (num_lines_per_depth_map_of flags (getCamera nc 0))
                         (of_nat (length rs * unat (num_lines_per_depth_map_of flags (getCamera nc 0))))
                         (sensor_timestamps flags mn mx nc rs)
                         (sensor_poses vi_map flags mid mn mx nc rs))
                      rs
                      (0, s\<lparr>trace := trace s @
                               [Interpolate mid (sensor_timestamps flags mn mx nc rs)]\<rparr>)))"
proof -
  define L where "L = num_lines_per_depth_map_of flags (getCamera nc 0)"
  define d where "d = line_delay_ns_of flags (getCamera nc 0)"
  define tot where "tot = (of_nat (length rs * unat L) :: uint32)"
  define tss where "tss = sensor_timestamps flags mn mx nc rs"
  have tot: "unat tot = length rs * unat L"
    using small by (simp add: tot_def L_def total_number_of_poses_exact del: of_nat_mult)
  have b: "build_resource_timestamps mn mx (timeshift_resource_to_imu_ns flags) d L rs
             = (length rs * unat L, tss)"
    using build_resource_timestamps_fst [of mn mx "timeshift_resource_to_imu_ns flags" d L rs]
    by (simp add: tss_def sensor_timestamps_def prod_eq_iff L_def d_def)
  show ?thesis
    using ty nc one b tot
    by (simp add: integrate_sensor_def Let_def L_def [symmetric] d_def [symmetric]
        tot_def [symmetric] tss_def [symmetric] sensor_poses_def length_check_iff
        del: of_nat_mult)
qed

section \<open>The example runs\<close>

lemma ex_map_simps:
  "hasNCamera ex_map m = True"
  "getNCameraId ex_map m = 2"
  "getSensor ex_map 2 = ex_stereo"
  "getSensorPtr ex_map 0 = Some ex_ncamera"
  "getSensorPtr ex_map 4 = None"
  "getSensorType ex_map 0 = kNCamera"
  "getSensorType ex_map 4 = kOtherSensorType 0"
  "getSensor_T_B_S ex_map sid = 3"
  "get_T_G_M ex_map m = 5"
  "getAllVertexIdsInMissionAlongGraph ex_map m = [3, 5]"
  "get_T_M_I ex_map 3 = 7"
  "get_T_M_I ex_map 5 = 11"
  "numFrames ex_map 3 = 2"
  "numFrames ex_map 5 = 1"
  "getVertexToTimeStampMap ex_map m = (False, 0, 1000)"
  "getAllSensorResourceIdsOfType ex_map m kRawDepthMap = Some [(0, [(500, 7), (2000, 8)])]"
  "getPosesAtTime ex_map m ts = map (\<lambda>t. of_nat (unat t)) ts"
  by (simp_all add: ex_map_def)

lemma ex_ncamera_simps:
  "getNumCameras ex_ncamera = 1"
  "get_T_C_B ex_ncamera i = 2"
  "getCamera ex_ncamera i = ex_camera"
  "getNumCameras ex_stereo = 2"
  "get_T_C_B ex_stereo 0 = 2"
  "get_T_C_B ex_stereo 1 = 4"
  "getCamera ex_stereo i = ex_camera"
  "num_lines_per_depth_map_of ex_flags ex_camera = 3"
  "line_delay_ns_of ex_flags ex_camera = 100"
  "num_lines_per_depth_map_of ex_flags_break ex_camera = 3"
  "line_delay_ns_of ex_flags_break ex_camera = 100"
  "timeshift_resource_to_imu_ns ex_flags = 0"
  "timeshift_resource_to_imu_ns ex_flags_break = 0"
  by (simp_all add: ex_ncamera_def ex_stereo_def ex_camera_def ex_flags_def ex_flags_break_def
      num_lines_per_depth_map_of_def line_delay_ns_of_def)

lemma ex_build:
  "build_resource_timestamps 0 1000 0 100 3 [(500, 7), (2000, 8)]
     = (6, [500, 600, 700, 1000, 1000, 1000])"
  by code_simp

lemma ex_sensor_timestamps:
  "sensor_timestamps ex_flags 0 1000 ex_ncamera [(500, 7), (2000, 8)]
     = [500, 600, 700, 1000, 1000, 1000]"
  "sensor_timestamps ex_flags_break 0 1000 ex_ncamera [(500, 7), (2000, 8)]
     = [500, 600, 700, 1000, 1000, 1000]"
  by (simp_all add: sensor_timestamps_def ex_ncamera_simps ex_build)

lemma ex_sensor_poses:
  "sensor_poses ex_map ex_flags 0 0 1000 ex_ncamera [(500, 7), (2000, 8)]
     = [500, 600, 700, 1000, 1000, 1000]"
  "sensor_poses ex_map ex_flags_break 0 0 1000 ex_ncamera [(500, 7), (2000, 8)]
     = [500, 600, 700, 1000, 1000, 1000]"
  by (simp_all add: sensor_poses_def ex_sensor_timestamps ex_map_simps)

lemma ex_resources_loop:
  "for_each (integrate_resource ex_map ex_flags kRawDepthMap ex_integrate 0 0 ex_camera 5 (3 / 2)
       0 1000 3 6 [500, 600, 700, 1000, 1000, 1000] [500, 600, 700, 1000, 1000, 1000])
     [(500, 7), (2000, 8)]
     (0, \<lparr>trace = [Interpolate 0 [500, 600, 700, 1000, 1000, 1000]], polls = 0, fusion = 0\<rparr>)
   = Next (6, \<lparr>trace = [Interpolate 0 [500, 600, 700, 1000, 1000, 1000], Poll,
                      Dispatch [3750, 4500, 5250] 500 None ex_camera, Poll,
                      Dispatch [7500, 7500, 7500] 2000 None ex_camera],
             polls = 2, fusion = 2\<rparr>)"
  by code_simp

lemma ex_sensor:
  "integrate_sensor ex_map ex_flags kRawDepthMap ex_integrate 0 5 0 1000
     (0, [(500, 7), (2000, 8)]) ex_state
   = Next \<lparr>trace = [Interpolate 0 [500, 600, 700, 1000, 1000, 1000], Poll,
                      Dispatch [3750, 4500, 5250] 500 None ex_camera, Poll,
                      Dispatch [7500, 7500, 7500] 2000 None ex_camera],
             polls = 2, fusion = 2\<rparr>"
proof -
  have "integrate_sensor ex_map ex_flags kRawDepthMap ex_integrate 0 5 0 1000
     (0, [(500, 7), (2000, 8)]) ex_state
   = map_flow snd (for_each (integrate_resource ex_map ex_flags kRawDepthMap ex_integrate 0 0
       ex_camera 5 (3 / 2) 0 1000 3 6 [500, 600, 700, 1000, 1000, 1000]
       [500, 600, 700, 1000, 1000, 1000])
     [(500, 7), (2000, 8)]
     (0, \<lparr>trace = [Interpolate 0 [500, 600, 700, 1000, 1000, 1000]], polls = 0, fusion = 0\<rparr>))"
    by (subst integrate_sensor_checked [where nc = ex_ncamera])
      (simp_all add: ex_map_simps ex_ncamera_simps ex_sensor_timestamps ex_sensor_poses
        ex_state_def)
  then show ?thesis
    by (simp only: ex_resources_loop flow.map snd_conv)
qed

lemma ex_sensor_run:
  "integrateAllOptionalSensorDepthMapResourcesOfTypeImpl [0] kRawDepthMap ex_map ex_flags
           (Some ex_integrate) ex_state
     = Next \<lparr>trace = [Interpolate 0 [500, 600, 700, 1000, 1000, 1000], Poll,
                      Dispatch [3750, 4500, 5250] 500 None ex_camera, Poll,
                      Dispatch [7500, 7500, 7500] 2000 None ex_camera],
             polls = 2, fusion = 2\<rparr>"
  by (simp add: integrateAllOptionalSensorDepthMapResourcesOfTypeImpl_def
      kSupportedDepthMapInputTypes_def integrate_sensor_mission_def ex_map_simps ex_sensor)

lemma ex_frame_run:
  "integrateAllFrameDepthMapResourcesOfTypeImpl [0] kRawDepthMap ex_map ex_flags
           (Some ex_integrate) ex_state
     = Next \<lparr>trace = [Poll, Dispatch [105 / 2] 100 None ex_camera,
                      Dispatch [105 / 4] 101 (Some 300) ex_camera, Poll],
             polls = 2, fusion = 2\<rparr>"
  by code_simp

section \<open>Preconditions of the entry points\<close>

text \<open>
  Claim C9. If the requested input type is neither the raw nor the optimized depth map, each
  entry point (the two implementations and their four template instances) aborts at its
  second check, with the state as it was on entry: no mission, vertex, sensor or resource was
  looked at, whatever the map holds.
\<close>

theorem unsupported_input_type_aborts:
  assumes "input_resource_type \<noteq> kRawDepthMap" and "input_resource_type \<noteq> kOptimizedDepthMap"
  shows "integrateAllFrameDepthMapResourcesOfTypeImpl mission_ids input_resource_type vi_map flags
           integration_function s = Fatal s
       \<and> integrateAllOptionalSensorDepthMapResourcesOfTypeImpl mission_ids input_resource_type
           vi_map flags integration_function s = Fatal s
       \<and> integrateAllFrameDepthMapResourcesOfType mission_ids input_resource_type vi_map flags
           integration_function s = Fatal s
       \<and> integrateAllOptionalSensorDepthMapResourcesOfType mission_ids input_resource_type
           vi_map flags integration_function s = Fatal s
       \<and> integrateAllFrameDepthMapResourcesOfType_single mission_ids input_resource_type vi_map
           flags single_function s = Fatal s
       \<and> integrateAllOptionalSensorDepthMapResourcesOfType_single mission_ids
           input_resource_type vi_map flags single_function s = Fatal s"
  using assms
  by (simp add: integrateAllFrameDepthMapResourcesOfTypeImpl_def
      integrateAllOptionalSensorDepthMapResourcesOfTypeImpl_def
      integrateAllFrameDepthMapResourcesOfType_def
      integrateAllOptionalSensorDepthMapResourcesOfType_def
      integrateAllFrameDepthMapResourcesOfType_single_def
      integrateAllOptionalSensorDepthMapResourcesOfType_single_def
      kSupportedDepthMapInputTypes_def split: option.splits)

theorem unsupported_input_type_aborts_witness:
  "kRawImage \<noteq> kRawDepthMap \<and> kRawImage \<noteq> kOptimizedDepthMap
   \<and> integrateAllFrameDepthMapResourcesOfTypeImpl [0] kRawImage ex_map ex_flags
        (Some ex_integrate) ex_state = Fatal ex_state
   \<and> integrateAllOptionalSensorDepthMapResourcesOfTypeImpl [0] kRawImage ex_map ex_flags
        (Some ex_integrate) ex_state = Fatal ex_state
   \<and> integrateAllFrameDepthMapResourcesOfType_single [0] kRawImage ex_map ex_flags
        (Some ex_integrate_single) ex_state = Fatal ex_state
   \<and> integrateAllOptionalSensorDepthMapResourcesOfType_single [0] kRawImage ex_map ex_flags
        (Some ex_integrate_single) ex_state = Fatal ex_state"
  using unsupported_input_type_aborts [of kRawImage "[0]" ex_map ex_flags "Some ex_integrate"
      ex_state "Some ex_integrate_single"]
  by simp

text \<open>
  Claim C10. In the free-running path the processing of a sensor aborts unless the sensor is
  an NCamera with exactly one camera. The state at the abort is the state on entry: the checks
  come before the timestamps are built, before the interpolation call and before any
  dispatch.
\<close>

theorem sensor_must_be_single_camera:
  assumes "\<not> (getSensorType vi_map sensor_id = kNCamera
             \<and> (\<exists>ncamera. getSensorPtr vi_map sensor_id = Some ncamera
                    \<and> getNumCameras ncamera = 1))"
  shows "integrate_sensor vi_map flags input_resource_type integration_function mission_id T_G_M
           min_timestamp_ns max_timestamp_ns (sensor_id, resource_buffer) s = Fatal s"
  using assms
  by (auto simp: integrate_sensor_def split: option.splits)

theorem sensor_must_be_single_camera_witness:
  "\<not> (getSensorType ex_map 4 = kNCamera
       \<and> (\<exists>ncamera. getSensorPtr ex_map 4 = Some ncamera \<and> getNumCameras ncamera = 1))
   \<and> integrate_sensor ex_map ex_flags kRawDepthMap ex_integrate 0 5 0 1000 (4, [(500, 7)])
        ex_state = Fatal ex_state"
  using sensor_must_be_single_camera [of ex_map 4 ex_flags kRawDepthMap ex_integrate 0 5 0 1000
      "[(500, 7)]" ex_state]
  by (simp add: ex_map_def)

section \<open>The batched interpolation\<close>

lemma integrate_sensor_overflow:
  fixes vi_map :: "('t::{monoid_mult,inverse}, 'm) VIMap"
  assumes "\<not> length rs * unat (num_lines_per_depth_map_of flags (getCamera nc 0)) < 2 ^ 32"
    and nc: "getSensorPtr vi_map sid = Some nc"
  shows "integrate_sensor vi_map flags t f mid G mn mx (sid, rs) s = Fatal s"
proof -
  define L where "L = num_lines_per_depth_map_of flags (getCamera nc 0)"
  have "length rs * unat L \<noteq> unat (of_nat (length rs * unat L) :: uint32)"
    using assms(1) total_number_of_poses_exact_iff [of "length rs * unat L"]
    by (simp add: L_def del: of_nat_mult)
  moreover obtain tss where
    "build_resource_timestamps mn mx (timeshift_resource_to_imu_ns flags)
       (line_delay_ns_of flags (getCamera nc 0)) L rs = (length rs * unat L, tss)"
    using build_resource_timestamps_fst [of mn mx "timeshift_resource_to_imu_ns flags"
        "line_delay_ns_of flags (getCamera nc 0)" L rs]
    by (cases "build_resource_timestamps mn mx (timeshift_resource_to_imu_ns flags)
       (line_delay_ns_of flags (getCamera nc 0)) L rs") simp
  ultimately show ?thesis
    using nc
    by (simp add: integrate_sensor_def Let_def L_def [symmetric] del: of_nat_mult)
qed

text \<open>
  Claim C7. For a sensor that passed the camera checks and whose number of timestamps,
  resources times lines, fits the 32-bit counter (otherwise the run has aborted before the
  interpolation, \<open>integrate_sensor_overflow\<close>): the array handed to the interpolation has
  one timestamp for each line of each resource; if the interpolation returns a different number
  of poses the processing aborts right after the call, and otherwise it goes on with the loop
  over the resources.
\<close>

theorem interpolation_result_length_checked:
  fixes vi_map :: "('t::{monoid_mult,inverse}, 'm) VIMap"
  assumes "getSensorType vi_map sid = kNCamera"
    and "getSensorPtr vi_map sid = Some nc"
    and "getNumCameras nc = 1"
    and "length rs * unat (num_lines_per_depth_map_of flags (getCamera nc 0)) < 2 ^ 32"
  shows "length (sensor_timestamps flags mn mx nc rs)
           = length rs * unat (num_lines_per_depth_map_of flags (getCamera nc 0))
       \<and> integrate_sensor vi_map flags t f mid G mn mx (sid, rs) s =
           (if length (sensor_poses vi_map flags mid mn mx nc rs)
                 \<noteq> length (sensor_timestamps flags mn mx nc rs)
            then Fatal (s\<lparr>trace := trace s @
                          [Interpolate mid (sensor_timestamps flags mn mx nc rs)]\<rparr>)
            else map_flow snd
                   (for_each
                      (integrate_resource vi_map flags t f mid sid (getCamera nc 0) G
                         (getSensor_T_B_S vi_map sid * inverse (get_T_C_B nc 0)) mn mx
                         (num_lines_per_depth_map_of flags (getCamera nc 0))
                         (of_nat (length rs * unat (num_lines_per_depth_map_of flags (getCamera nc 0))))
                         (sensor_timestamps flags mn mx nc rs)
                         (sensor_poses vi_map flags mid mn mx nc rs))
                      rs
                      (0, s\<lparr>trace := trace s @
                               [Interpolate mid (sensor_timestamps flags mn mx nc rs)]\<rparr>)))"
proof -
  have len: "length (sensor_timestamps flags mn mx nc rs)
           = length rs * unat (num_lines_per_depth_map_of flags (getCamera nc 0))"
    using assms(4)
    by (simp add: sensor_timestamps_def build_resource_timestamps_length
        total_number_of_poses_exact del: of_nat_mult)
  show ?thesis
    using len integrate_sensor_checked [OF assms, of t f mid G mn mx s] by simp
qed

lemma ex_short_sensor:
  "sensor_poses ex_map_short ex_flags 0 0 1000 ex_ncamera [(500, 7), (2000, 8)] = []"
  "getSensorType ex_map_short 0 = kNCamera"
  "getSensorPtr ex_map_short 0 = Some ex_ncamera"
  by (simp_all add: sensor_poses_def ex_map_short_def ex_map_simps)

theorem interpolation_result_length_checked_witness:
  "getSensorType ex_map 0 = kNCamera \<and> getSensorPtr ex_map 0 = Some ex_ncamera
   \<and> getNumCameras ex_ncamera = 1
   \<and> length [(500 :: int64, 7 :: nat), (2000, 8)]
        * unat (num_lines_per_depth_map_of ex_flags (getCamera ex_ncamera 0)) < 2 ^ 32
   \<and> length (sensor_poses ex_map ex_flags 0 0 1000 ex_ncamera [(500, 7), (2000, 8)]) = 6
   \<and> length (sensor_timestamps ex_flags 0 1000 ex_ncamera [(500, 7), (2000, 8)]) = 6
   \<and> integrate_sensor ex_map ex_flags kRawDepthMap ex_integrate 0 5 0 1000
        (0, [(500, 7), (2000, 8)]) ex_state
      = Next \<lparr>trace = [Interpolate 0 [500, 600, 700, 1000, 1000, 1000], Poll,
                      Dispatch [3750, 4500, 5250] 500 None ex_camera, Poll,
                      Dispatch [7500, 7500, 7500] 2000 None ex_camera],
             polls = 2, fusion = 2\<rparr>
   \<and> length (sensor_poses ex_map_short ex_flags 0 0 1000 ex_ncamera [(500, 7), (2000, 8)]) = 0
   \<and> integrate_sensor ex_map_short ex_flags kRawDepthMap ex_integrate 0 5 0 1000
        (0, [(500, 7), (2000, 8)]) ex_state
      = Fatal \<lparr>trace = [Interpolate 0 [500, 600, 700, 1000, 1000, 1000]],
               polls = 0, fusion = 0\<rparr>"
proof -
  have h: "getSensorType ex_map 0 = kNCamera" "getSensorPtr ex_map 0 = Some ex_ncamera"
    "getNumCameras ex_ncamera = 1"
    "length [(500 :: int64, 7 :: nat), (2000, 8)]
        * unat (num_lines_per_depth_map_of ex_flags (getCamera ex_ncamera 0)) < 2 ^ 32"
    by (simp_all add: ex_map_simps ex_ncamera_simps)
  have short: "integrate_sensor ex_map_short ex_flags kRawDepthMap ex_integrate 0 5 0 1000
        (0, [(500, 7), (2000, 8)]) ex_state
      = Fatal \<lparr>trace = [Interpolate 0 [500, 600, 700, 1000, 1000, 1000]],
               polls = 0, fusion = 0\<rparr>"
    using interpolation_result_length_checked [OF ex_short_sensor(2,3) h(3,4),
        of 0 1000 kRawDepthMap ex_integrate 0 5 ex_state]
    by (simp add: ex_short_sensor ex_sensor_timestamps ex_state_def)
  show ?thesis
    using interpolation_result_length_checked [OF h, of 0 1000 kRawDepthMap ex_integrate 0 5
        ex_state] h short
    by (simp add: ex_sensor ex_sensor_poses ex_sensor_timestamps ex_short_sensor)
qed

section \<open>The timestamps handed to the interpolation\<close>

lemma sensor_timestamps_nth:
  assumes "length rs * unat (num_lines_per_depth_map_of flags (getCamera nc 0)) < 2 ^ 32"
    and "j < length rs" and "k < unat (num_lines_per_depth_map_of flags (getCamera nc 0))"
  shows "sensor_timestamps flags mn mx nc rs
             ! (j * unat (num_lines_per_depth_map_of flags (getCamera nc 0)) + k)
           = std_max mn (std_min mx
               (fst (rs ! j) + timeshift_resource_to_imu_ns flags
                  + of_nat k * line_delay_ns_of flags (getCamera nc 0)))"
  using assms by (simp add: sensor_timestamps_def build_resource_timestamps_nth)

lemma sensor_timestamps_length:
  assumes "length rs * unat (num_lines_per_depth_map_of flags (getCamera nc 0)) < 2 ^ 32"
  shows "length (sensor_timestamps flags mn mx nc rs)
           = length rs * unat (num_lines_per_depth_map_of flags (getCamera nc 0))"
  using assms
  by (simp add: sensor_timestamps_def build_resource_timestamps_length
      total_number_of_poses_exact del: of_nat_mult)

lemma sensor_timestamps_in_range:
  assumes small: "length rs * unat (num_lines_per_depth_map_of flags (getCamera nc 0)) < 2 ^ 32"
    and range: "word_sle mn mx"
    and x: "x \<in> set (sensor_timestamps flags mn mx nc rs)"
  shows "word_sle mn x \<and> word_sle x mx"
proof -
  define L where "L = unat (num_lines_per_depth_map_of flags (getCamera nc 0))"
  from x obtain i where i: "i < length (sensor_timestamps flags mn mx nc rs)"
    and xi: "x = sensor_timestamps flags mn mx nc rs ! i"
    by (auto simp: in_set_conv_nth)
  have iL: "i < length rs * L"
    using i sensor_timestamps_length [OF small, of mn mx] by (simp add: L_def)
  then have Lpos: "0 < L"
    by (cases L) auto
  have j: "i div L < length rs"
    using iL Lpos by (simp add: less_mult_imp_div_less)
  have k: "i mod L < L"
    using Lpos by simp
  have "sensor_timestamps flags mn mx nc rs ! (i div L * L + i mod L)
          = std_max mn (std_min mx
               (fst (rs ! (i div L)) + timeshift_resource_to_imu_ns flags
                  + of_nat (i mod L) * line_delay_ns_of flags (getCamera nc 0)))"
    using sensor_timestamps_nth [OF small, of "i div L" "i mod L" mn mx] j k
    by (simp add: L_def)
  then have "x = std_max mn (std_min mx
               (fst (rs ! (i div L)) + timeshift_resource_to_imu_ns flags
                  + of_nat (i mod L) * line_delay_ns_of flags (getCamera nc 0)))"
    using xi by simp
  then show ?thesis
    using clamp_in_range [OF range] by simp
qed

text \<open>
  Claim C3. The array that the processing of a sensor hands to the interpolation (the
  \<open>Interpolate\<close> event it adds to the trace) has one entry for each line of each
  resource; the entry of resource \<open>j\<close> and line \<open>k\<close> is the raw timestamp plus the global
  shift plus \<open>k\<close> line delays, in 64-bit arithmetic, clamped by
  \<^verbatim>\<open>std::max(min, std::min(max, t))\<close>; and if the range of the trajectory is not empty
  (\<open>min \<le> max\<close>, signed), every entry lies in it.
\<close>

theorem interpolation_timestamps_clamped:
  fixes vi_map :: "('t::{monoid_mult,inverse}, 'm) VIMap"
  assumes "Interpolate m tss \<in> set (trace (state_of
             (integrate_sensor vi_map flags t f mid G mn mx (sid, rs) s)))"
    and "Interpolate m tss \<notin> set (trace s)"
    and "getSensorPtr vi_map sid = Some nc"
  shows "m = mid \<and> tss = sensor_timestamps flags mn mx nc rs
       \<and> length tss = length rs * unat (num_lines_per_depth_map_of flags (getCamera nc 0))
       \<and> (\<forall>j<length rs. \<forall>k<unat (num_lines_per_depth_map_of flags (getCamera nc 0)).
             tss ! (j * unat (num_lines_per_depth_map_of flags (getCamera nc 0)) + k)
               = std_max mn (std_min mx
                   (fst (rs ! j) + timeshift_resource_to_imu_ns flags
                      + of_nat k * line_delay_ns_of flags (getCamera nc 0))))
       \<and> (word_sle mn mx \<longrightarrow> (\<forall>x\<in>set tss. word_sle mn x \<and> word_sle x mx))"
proof -
  from integrate_sensor_events [OF assms(1,2)] assms(3)
  have small: "length rs * unat (num_lines_per_depth_map_of flags (getCamera nc 0)) < 2 ^ 32"
    and e: "Interpolate m tss = Interpolate mid
              (snd (build_resource_timestamps mn mx (timeshift_resource_to_imu_ns flags)
                      (line_delay_ns_of flags (getCamera nc 0))
                      (num_lines_per_depth_map_of flags (getCamera nc 0)) rs))"
    by auto
  from e have m: "m = mid" and tss: "tss = sensor_timestamps flags mn mx nc rs"
    by (simp_all add: sensor_timestamps_def)
  have len: "length tss = length rs * unat (num_lines_per_depth_map_of flags (getCamera nc 0))"
    unfolding tss by (rule sensor_timestamps_length [OF small])
  have entries: "\<forall>j<length rs. \<forall>k<unat (num_lines_per_depth_map_of flags (getCamera nc 0)).
             tss ! (j * unat (num_lines_per_depth_map_of flags (getCamera nc 0)) + k)
               = std_max mn (std_min mx
                   (fst (rs ! j) + timeshift_resource_to_imu_ns flags
                      + of_nat k * line_delay_ns_of flags (getCamera nc 0)))"
    unfolding tss by (intro allI impI sensor_timestamps_nth [OF small])
  have inside: "word_sle mn mx \<longrightarrow> (\<forall>x\<in>set tss. word_sle mn x \<and> word_sle x mx)"
    unfolding tss by (intro impI ballI sensor_timestamps_in_range [OF small])
  show ?thesis
    by (intro conjI m tss len entries inside)
qed

lemma ex_sensor_trace_Interpolate:
  "Interpolate 0 [500, 600, 700, 1000, 1000, 1000] \<in> set (trace (state_of
     (integrate_sensor ex_map ex_flags kRawDepthMap ex_integrate 0 5 0 1000
        (0, [(500, 7), (2000, 8)]) ex_state)))"
  by (simp add: ex_sensor)

theorem interpolation_timestamps_clamped_witness:
  "Interpolate 0 [500, 600, 700, 1000, 1000, 1000] \<in> set (trace (state_of
     (integrate_sensor ex_map ex_flags kRawDepthMap ex_integrate 0 5 0 1000
        (0, [(500, 7), (2000, 8)]) ex_state)))
   \<and> Interpolate 0 [500, 600, 700, 1000, 1000, 1000] \<notin> set (trace ex_state)
   \<and> getSensorPtr ex_map 0 = Some ex_ncamera
   \<and> word_sle (0 :: int64) 1000
   \<and> length [500 :: int64, 600, 700, 1000, 1000, 1000] = length [(500 :: int64, 7 :: nat), (2000, 8)] * 3
   \<and> [500 :: int64, 600, 700, 1000, 1000, 1000] ! (1 * 3 + 2)
        = std_max 0 (std_min 1000 (2000 + 0 + of_nat 2 * 100))
   \<and> word_sle 0 (1000 :: int64) \<and> word_sle (1000 :: int64) 1000"
proof -
  have h2: "Interpolate 0 [500, 600, 700, 1000, 1000, 1000] \<notin> set (trace ex_state)"
    by (simp add: ex_state_def)
  have h3: "getSensorPtr ex_map 0 = Some ex_ncamera"
    by (simp add: ex_map_simps)
  have h4: "word_sle (0 :: int64) 1000"
    by (simp add: word_sle_eq)
  note c = interpolation_timestamps_clamped [OF ex_sensor_trace_Interpolate h2 h3]
  have c3: "length [500 :: int64, 600, 700, 1000, 1000, 1000]
              = length [(500 :: int64, 7 :: nat), (2000, 8)] * 3"
    by simp
  have c4: "[500 :: int64, 600, 700, 1000, 1000, 1000] ! (1 * 3 + 2)
        = std_max 0 (std_min 1000 (2000 + 0 + of_nat 2 * 100))"
    using c [THEN conjunct2, THEN conjunct2, THEN conjunct2, THEN conjunct1, rule_format, of 1 2]
    by (simp add: ex_ncamera_simps)
  have c5: "word_sle 0 (1000 :: int64) \<and> word_sle (1000 :: int64) 1000"
    using c [THEN conjunct2, THEN conjunct2, THEN conjunct2, THEN conjunct2, rule_format, OF h4,
        of 1000]
    by simp
  show ?thesis
    by (intro conjI ex_sensor_trace_Interpolate h2 h3 h4 c3 c4 c5)
qed

section \<open>The pose vectors handed to the integration function\<close>

text \<open>
  Claim C2. Every call of the integration function that a run adds to the trace carries a pose
  vector of the right length whose entries are the composition
  \<open>T_G_M * T_M_B * T_B_Cn * inverse T_C_Cn\<close>. In the frame-attached path the vector has one entry,
  for a frame \<open>k\<close> of a vertex \<open>v\<close> of a mission of the list, with the pose of the vertex
  as \<open>T_M_B\<close>. In the free-running path the vector has as many entries as the sensor has
  lines (one if the compensation is disabled or the camera has one line), and entry \<open>k\<close> is
  composed from entry \<open>j * lines + k\<close> of the interpolation result, where \<open>j\<close> is the
  position in the buffer of the resource whose depth map is dispatched.
\<close>

theorem dispatched_pose_vectors:
  fixes vi_map :: "('t::{monoid_mult,inverse}, 'm) VIMap"
    and s :: "('t, 'm, 'st) run_state"
  shows "(Dispatch vec depth_map img cam \<in> set (trace (state_of
             (integrateAllFrameDepthMapResourcesOfTypeImpl mission_ids t vi_map flags fo s)))
          \<and> Dispatch vec depth_map img cam \<notin> set (trace s)
          \<longrightarrow> length vec = 1
              \<and> (\<exists>mid\<in>set mission_ids. \<exists>v\<in>set (getAllVertexIdsInMissionAlongGraph vi_map mid).
                    \<exists>k<numFrames vi_map v.
                      getFrameResource vi_map v k t = Some depth_map
                      \<and> vec ! 0 = get_T_G_M vi_map mid * get_T_M_I vi_map v
                            * getSensor_T_B_S vi_map (getNCameraId vi_map mid)
                            * inverse (get_T_C_B (getSensor vi_map (getNCameraId vi_map mid)) k)))
       \<and> (Dispatch vec depth_map img cam \<in> set (trace (state_of
             (integrateAllOptionalSensorDepthMapResourcesOfTypeImpl mission_ids t vi_map flags
                fo s)))
          \<and> Dispatch vec depth_map img cam \<notin> set (trace s)
          \<longrightarrow> (\<exists>mid\<in>set mission_ids. \<exists>mn mx sensors sid rs nc.
                 getVertexToTimeStampMap vi_map mid = (False, mn, mx)
                 \<and> getAllSensorResourceIdsOfType vi_map mid t = Some sensors
                 \<and> (sid, rs) \<in> set sensors
                 \<and> getSensorPtr vi_map sid = Some nc
                 \<and> length vec = unat (num_lines_per_depth_map_of flags (getCamera nc 0))
                 \<and> (\<not> enable_rolling_shutter_compensation flags
                        \<or> getNumberOfLines (getCamera nc 0) = 1 \<longrightarrow> length vec = 1)
                 \<and> (\<exists>j<length rs.
                       getSensorResource vi_map mid t sid (fst (rs ! j)) = Some depth_map
                       \<and> (\<forall>k<unat (num_lines_per_depth_map_of flags (getCamera nc 0)).
                             vec ! k =
                               get_T_G_M vi_map mid
                                 * sensor_poses vi_map flags mid mn mx nc rs
                                     ! (j * unat (num_lines_per_depth_map_of flags (getCamera nc 0)) + k)
                                 * getSensor_T_B_S vi_map sid * inverse (get_T_C_B nc 0)))))"
proof (intro conjI impI)
  assume a: "Dispatch vec depth_map img cam \<in> set (trace (state_of
             (integrateAllFrameDepthMapResourcesOfTypeImpl mission_ids t vi_map flags fo s)))
          \<and> Dispatch vec depth_map img cam \<notin> set (trace s)"
  from frame_impl_dispatch [OF a [THEN conjunct1] a [THEN conjunct2]]
  obtain mid v k where mid: "mid \<in> set mission_ids"
    and v: "v \<in> set (getAllVertexIdsInMissionAlongGraph vi_map mid)"
    and k: "k < numFrames vi_map v"
    and d: "getFrameResource vi_map v k t = Some depth_map"
    and vec: "vec = [get_T_G_M vi_map mid * get_T_M_I vi_map v
                        * getSensor_T_B_S vi_map (getNCameraId vi_map mid)
                        * inverse (get_T_C_B (getSensor vi_map (getNCameraId vi_map mid)) k)]"
    by blast
  from vec show "length vec = 1" by simp
  have fk: "\<exists>k<numFrames vi_map v.
                      getFrameResource vi_map v k t = Some depth_map
                      \<and> vec ! 0 = get_T_G_M vi_map mid * get_T_M_I vi_map v
                            * getSensor_T_B_S vi_map (getNCameraId vi_map mid)
                            * inverse (get_T_C_B (getSensor vi_map (getNCameraId vi_map mid)) k)"
    using k d vec by (intro exI [of _ k]) simp
  have fv: "\<exists>v\<in>set (getAllVertexIdsInMissionAlongGraph vi_map mid).
                    \<exists>k<numFrames vi_map v.
                      getFrameResource vi_map v k t = Some depth_map
                      \<and> vec ! 0 = get_T_G_M vi_map mid * get_T_M_I vi_map v
                            * getSensor_T_B_S vi_map (getNCameraId vi_map mid)
                            * inverse (get_T_C_B (getSensor vi_map (getNCameraId vi_map mid)) k)"
    by (rule bexI) (rule fk, rule v)
  show "\<exists>mid\<in>set mission_ids. \<exists>v\<in>set (getAllVertexIdsInMissionAlongGraph vi_map mid).
                    \<exists>k<numFrames vi_map v.
                      getFrameResource vi_map v k t = Some depth_map
                      \<and> vec ! 0 = get_T_G_M vi_map mid * get_T_M_I vi_map v
                            * getSensor_T_B_S vi_map (getNCameraId vi_map mid)
                            * inverse (get_T_C_B (getSensor vi_map (getNCameraId vi_map mid)) k)"
    by (rule bexI) (rule fv, rule mid)
next
  assume a: "Dispatch vec depth_map img cam \<in> set (trace (state_of
             (integrateAllOptionalSensorDepthMapResourcesOfTypeImpl mission_ids t vi_map flags
                fo s)))
          \<and> Dispatch vec depth_map img cam \<notin> set (trace s)"
  from sensor_impl_dispatch [OF a [THEN conjunct1] a [THEN conjunct2]]
  obtain mid mn mx sensors sid rs nc j where mid: "mid \<in> set mission_ids"
    and range: "getVertexToTimeStampMap vi_map mid = (False, mn, mx)"
    and sensors: "getAllSensorResourceIdsOfType vi_map mid t = Some sensors"
    and sid: "(sid, rs) \<in> set sensors"
    and nc: "getSensorPtr vi_map sid = Some nc"
    and len: "length vec = unat (num_lines_per_depth_map_of flags (getCamera nc 0))"
    and j: "j < length rs"
    and d: "getSensorResource vi_map mid t sid (fst (rs ! j)) = Some depth_map"
    and entries: "\<forall>k<unat (num_lines_per_depth_map_of flags (getCamera nc 0)).
                       vec ! k =
                         get_T_G_M vi_map mid * sensor_poses vi_map flags mid mn mx nc rs
                               ! (j * unat (num_lines_per_depth_map_of flags (getCamera nc 0)) + k)
                           * getSensor_T_B_S vi_map sid * inverse (get_T_C_B nc 0)"
    by blast
  have one: "\<not> enable_rolling_shutter_compensation flags
                \<or> getNumberOfLines (getCamera nc 0) = 1 \<longrightarrow> length vec = 1"
    using len by (auto simp: num_lines_per_depth_map_of_def)
  have fj: "\<exists>j<length rs.
                       getSensorResource vi_map mid t sid (fst (rs ! j)) = Some depth_map
                       \<and> (\<forall>k<unat (num_lines_per_depth_map_of flags (getCamera nc 0)).
                             vec ! k =
                               get_T_G_M vi_map mid
                                 * sensor_poses vi_map flags mid mn mx nc rs
                                     ! (j * unat (num_lines_per_depth_map_of flags (getCamera nc 0)) + k)
                                 * getSensor_T_B_S vi_map sid * inverse (get_T_C_B nc 0))"
    using j d entries by (intro exI [of _ j]) simp
  have "getVertexToTimeStampMap vi_map mid = (False, mn, mx)
                 \<and> getAllSensorResourceIdsOfType vi_map mid t = Some sensors
                 \<and> (sid, rs) \<in> set sensors
                 \<and> getSensorPtr vi_map sid = Some nc
                 \<and> length vec = unat (num_lines_per_depth_map_of flags (getCamera nc 0))
                 \<and> (\<not> enable_rolling_shutter_compensation flags
                        \<or> getNumberOfLines (getCamera nc 0) = 1 \<longrightarrow> length vec = 1)
                 \<and> (\<exists>j<length rs.
                       getSensorResource vi_map mid t sid (fst (rs ! j)) = Some depth_map
                       \<and> (\<forall>k<unat (num_lines_per_depth_map_of flags (getCamera nc 0)).
                             vec ! k =
                               get_T_G_M vi_map mid
                                 * sensor_poses vi_map flags mid mn mx nc rs
                                     ! (j * unat (num_lines_per_depth_map_of flags (getCamera nc 0)) + k)
                                 * getSensor_T_B_S vi_map sid * inverse (get_T_C_B nc 0)))"
    by (intro conjI range sensors sid nc len one fj)
  then have r: "\<exists>mn mx sensors sid rs nc.
                 getVertexToTimeStampMap vi_map mid = (False, mn, mx)
                 \<and> getAllSensorResourceIdsOfType vi_map mid t = Some sensors
                 \<and> (sid, rs) \<in> set sensors
                 \<and> getSensorPtr vi_map sid = Some nc
                 \<and> length vec = unat (num_lines_per_depth_map_of flags (getCamera nc 0))
                 \<and> (\<not> enable_rolling_shutter_compensation flags
                        \<or> getNumberOfLines (getCamera nc 0) = 1 \<longrightarrow> length vec = 1)
                 \<and> (\<exists>j<length rs.
                       getSensorResource vi_map mid t sid (fst (rs ! j)) = Some depth_map
                       \<and> (\<forall>k<unat (num_lines_per_depth_map_of flags (getCamera nc 0)).
                             vec ! k =
                               get_T_G_M vi_map mid
                                 * sensor_poses vi_map flags mid mn mx nc rs
                                     ! (j * unat (num_lines_per_depth_map_of flags (getCamera nc 0)) + k)
                                 * getSensor_T_B_S vi_map sid * inverse (get_T_C_B nc 0)))"
    by - ((rule exI)+, assumption)
  show "\<exists>mid\<in>set mission_ids. \<exists>mn mx sensors sid rs nc.
                 getVertexToTimeStampMap vi_map mid = (False, mn, mx)
                 \<and> getAllSensorResourceIdsOfType vi_map mid t = Some sensors
                 \<and> (sid, rs) \<in> set sensors
                 \<and> getSensorPtr vi_map sid = Some nc
                 \<and> length vec = unat (num_lines_per_depth_map_of flags (getCamera nc 0))
                 \<and> (\<not> enable_rolling_shutter_compensation flags
                        \<or> getNumberOfLines (getCamera nc 0) = 1 \<longrightarrow> length vec = 1)
                 \<and> (\<exists>j<length rs.
                       getSensorResource vi_map mid t sid (fst (rs ! j)) = Some depth_map
                       \<and> (\<forall>k<unat (num_lines_per_depth_map_of flags (getCamera nc 0)).
                             vec ! k =
                               get_T_G_M vi_map mid
                                 * sensor_poses vi_map flags mid mn mx nc rs
                                     ! (j * unat (num_lines_per_depth_map_of flags (getCamera nc 0)) + k)
                                 * getSensor_T_B_S vi_map sid * inverse (get_T_C_B nc 0)))"
    by (rule bexI) (rule r, rule mid)
qed


theorem dispatched_pose_vectors_witness:
  "Dispatch [105 / 2] 100 None ex_camera \<in> set (trace (state_of
     (integrateAllFrameDepthMapResourcesOfTypeImpl [0] kRawDepthMap ex_map ex_flags
        (Some ex_integrate) ex_state)))
   \<and> Dispatch [105 / 2] 100 None ex_camera \<notin> set (trace ex_state)
   \<and> length [105 / 2 :: real] = 1
              \<and> (\<exists>mid\<in>set [0 :: nat]. \<exists>v\<in>set (getAllVertexIdsInMissionAlongGraph ex_map mid).
                    \<exists>k<numFrames ex_map v.
                      getFrameResource ex_map v k kRawDepthMap = Some (100 :: nat)
                      \<and> [105 / 2 :: real] ! 0 = get_T_G_M ex_map mid * get_T_M_I ex_map v
                            * getSensor_T_B_S ex_map (getNCameraId ex_map mid)
                            * inverse (get_T_C_B (getSensor ex_map (getNCameraId ex_map mid)) k))
   \<and> Dispatch [3750, 4500, 5250] 500 None ex_camera \<in> set (trace (state_of
     (integrateAllOptionalSensorDepthMapResourcesOfTypeImpl [0] kRawDepthMap ex_map ex_flags
        (Some ex_integrate) ex_state)))
   \<and> Dispatch [3750, 4500, 5250] 500 None ex_camera \<notin> set (trace ex_state)
   \<and> (\<exists>mid\<in>set [0 :: nat]. \<exists>mn mx sensors sid rs nc.
                 getVertexToTimeStampMap ex_map mid = (False, mn, mx)
                 \<and> getAllSensorResourceIdsOfType ex_map mid kRawDepthMap = Some sensors
                 \<and> (sid, rs) \<in> set sensors
                 \<and> getSensorPtr ex_map sid = Some nc
                 \<and> length [3750 :: real, 4500, 5250] = unat (num_lines_per_depth_map_of ex_flags (getCamera nc 0))
                 \<and> (\<not> enable_rolling_shutter_compensation ex_flags
                        \<or> getNumberOfLines (getCamera nc 0) = 1 \<longrightarrow> length [3750 :: real, 4500, 5250] = 1)
                 \<and> (\<exists>j<length rs.
                       getSensorResource ex_map mid kRawDepthMap sid (fst (rs ! j)) = Some (500 :: nat)
                       \<and> (\<forall>k<unat (num_lines_per_depth_map_of ex_flags (getCamera nc 0)).
                             [3750 :: real, 4500, 5250] ! k =
                               get_T_G_M ex_map mid
                                 * sensor_poses ex_map ex_flags mid mn mx nc rs
                                     ! (j * unat (num_lines_per_depth_map_of ex_flags (getCamera nc 0)) + k)
                                 * getSensor_T_B_S ex_map sid * inverse (get_T_C_B nc 0))))"
proof -
  have a: "Dispatch [105 / 2] 100 None ex_camera \<in> set (trace (state_of
     (integrateAllFrameDepthMapResourcesOfTypeImpl [0] kRawDepthMap ex_map ex_flags
        (Some ex_integrate) ex_state)))
   \<and> Dispatch [105 / 2] 100 None ex_camera \<notin> set (trace ex_state)"
    by (rule conjI) (simp add: ex_frame_run, simp add: ex_state_def)
  have b: "Dispatch [3750, 4500, 5250] 500 None ex_camera \<in> set (trace (state_of
     (integrateAllOptionalSensorDepthMapResourcesOfTypeImpl [0] kRawDepthMap ex_map ex_flags
        (Some ex_integrate) ex_state)))
   \<and> Dispatch [3750, 4500, 5250] 500 None ex_camera \<notin> set (trace ex_state)"
    by (rule conjI) (simp add: ex_sensor_run, simp add: ex_state_def)
  note t1 = dispatched_pose_vectors [of "[105 / 2]" 100 None ex_camera "[0]" kRawDepthMap ex_map
      ex_flags "Some ex_integrate" ex_state, THEN conjunct1, THEN mp, OF a]
  note t2 = dispatched_pose_vectors [of "[3750, 4500, 5250]" 500 None ex_camera "[0]"
      kRawDepthMap ex_map ex_flags "Some ex_integrate" ex_state, THEN conjunct2, THEN mp, OF b]
  from a b t1 t2 show ?thesis
    by (elim conjE, intro conjI) assumption+
qed

section \<open>Resources outside the range of the trajectory\<close>

text \<open>
  Claim C1. The claim says that a resource whose shifted timestamp lies outside the range of
  the trajectory is skipped with a warning. The source reads the range check's
  \<^verbatim>\<open>corrected_timestamp_ns\<close> from \<^verbatim>\<open>resource_timestamps[idx]\<close>, the entry that was
  clamped into the range; the sum \<^verbatim>\<open>timestamp_ns + timestamp_shift_ns\<close> stands next to it
  as a statement of its own, without effect. On the example map the trajectory spans 0 ns to
  1000 ns and the shift is 0: the resource at 2000 ns is handed to the integration function,
  with the poses interpolated at 1000 ns, and no warning is logged.
\<close>

theorem out_of_range_resource_is_dispatched:
  "getVertexToTimeStampMap ex_map 0 = (False, 0, 1000)
   \<and> getAllSensorResourceIdsOfType ex_map 0 kRawDepthMap = Some [(0, [(500, 7), (2000, 8)])]
   \<and> word_sless (1000 :: int64) (2000 + timeshift_resource_to_imu_ns ex_flags)
   \<and> integrateAllOptionalSensorDepthMapResourcesOfTypeImpl [0] kRawDepthMap ex_map ex_flags
        (Some ex_integrate) ex_state
      = Next \<lparr>trace = [Interpolate 0 [500, 600, 700, 1000, 1000, 1000], Poll,
                       Dispatch [3750, 4500, 5250] 500 None ex_camera, Poll,
                       Dispatch [7500, 7500, 7500] 2000 None ex_camera],
              polls = 2, fusion = 2\<rparr>"
  by (simp add: ex_sensor_run ex_map_simps ex_ncamera_simps word_sless_alt)

section \<open>The single-pose adapter\<close>

lemma ex_resources_loop_single:
  "for_each (integrate_resource ex_map ex_flags kRawDepthMap
       (undistortion_integration_function (Some ex_integrate_single)) 0 0 ex_camera 5 (3 / 2)
       0 1000 3 6 [500, 600, 700, 1000, 1000, 1000] [500, 600, 700, 1000, 1000, 1000])
     [(500, 7), (2000, 8)]
     (0, \<lparr>trace = [Interpolate 0 [500, 600, 700, 1000, 1000, 1000]], polls = 0, fusion = 0\<rparr>)
   = Next (6, \<lparr>trace = [Interpolate 0 [500, 600, 700, 1000, 1000, 1000], Poll,
                      Dispatch [3750, 4500, 5250] 500 None ex_camera, Poll,
                      Dispatch [7500, 7500, 7500] 2000 None ex_camera],
             polls = 2, fusion = 2\<rparr>)"
  by code_simp

lemma ex_single_run:
  "integrateAllOptionalSensorDepthMapResourcesOfType_single [0] kRawDepthMap ex_map ex_flags
     (Some ex_integrate_single) ex_state
   = Next \<lparr>trace = [Interpolate 0 [500, 600, 700, 1000, 1000, 1000], Poll,
                      Dispatch [3750, 4500, 5250] 500 None ex_camera, Poll,
                      Dispatch [7500, 7500, 7500] 2000 None ex_camera],
             polls = 2, fusion = 2\<rparr>"
proof -
  have "integrate_sensor ex_map ex_flags kRawDepthMap
          (undistortion_integration_function (Some ex_integrate_single)) 0 5 0 1000
          (0, [(500, 7), (2000, 8)]) ex_state
   = map_flow snd (for_each (integrate_resource ex_map ex_flags kRawDepthMap
       (undistortion_integration_function (Some ex_integrate_single)) 0 0
       ex_camera 5 (3 / 2) 0 1000 3 6 [500, 600, 700, 1000, 1000, 1000]
       [500, 600, 700, 1000, 1000, 1000])
     [(500, 7), (2000, 8)]
     (0, \<lparr>trace = [Interpolate 0 [500, 600, 700, 1000, 1000, 1000]], polls = 0, fusion = 0\<rparr>))"
    by (subst integrate_sensor_checked [where nc = ex_ncamera])
      (simp_all add: ex_map_simps ex_ncamera_simps ex_sensor_timestamps ex_sensor_poses
        ex_state_def)
  then have "integrate_sensor ex_map ex_flags kRawDepthMap
          (undistortion_integration_function (Some ex_integrate_single)) 0 5 0 1000
          (0, [(500, 7), (2000, 8)]) ex_state
     = Next \<lparr>trace = [Interpolate 0 [500, 600, 700, 1000, 1000, 1000], Poll,
                      Dispatch [3750, 4500, 5250] 500 None ex_camera, Poll,
                      Dispatch [7500, 7500, 7500] 2000 None ex_camera],
             polls = 2, fusion = 2\<rparr>"
    by (simp only: ex_resources_loop_single flow.map snd_conv)
  then show ?thesis
    by (simp add: integrateAllOptionalSensorDepthMapResourcesOfType_single_def
        integrateAllOptionalSensorDepthMapResourcesOfTypeImpl_def
        kSupportedDepthMapInputTypes_def integrate_sensor_mission_def ex_map_simps)
qed

text \<open>
  Claim C8, as stated, fails: the adapter checks \<^verbatim>\<open>CHECK_GE(T_G_C_vec.size(), 1u)\<close>, so
  a vector of three poses passes and its first pose is forwarded. The free-running path
  produces such a vector for the three-line camera of the example, and the run through the
  single-pose entry point ends normally.
\<close>

theorem single_pose_adapter_accepts_longer_vector:
  "length [3750 :: real, 4500, 5250] \<noteq> 1
   \<and> undistortion_integration_function (Some ex_integrate_single) [3750, 4500, 5250] 500 None
        ex_camera 0
       = ex_integrate_single 3750 500 None ex_camera 0
   \<and> ex_integrate_single 3750 500 None ex_camera 0 = Some 1
   \<and> integrateAllOptionalSensorDepthMapResourcesOfType_single [0] kRawDepthMap ex_map ex_flags
        (Some ex_integrate_single) ex_state
       = Next \<lparr>trace = [Interpolate 0 [500, 600, 700, 1000, 1000, 1000], Poll,
                      Dispatch [3750, 4500, 5250] 500 None ex_camera, Poll,
                      Dispatch [7500, 7500, 7500] 2000 None ex_camera],
             polls = 2, fusion = 2\<rparr>"
proof (intro conjI)
  show "integrateAllOptionalSensorDepthMapResourcesOfType_single [0] kRawDepthMap ex_map ex_flags
        (Some ex_integrate_single) ex_state
       = Next \<lparr>trace = [Interpolate 0 [500, 600, 700, 1000, 1000, 1000], Poll,
                      Dispatch [3750, 4500, 5250] 500 None ex_camera, Poll,
                      Dispatch [7500, 7500, 7500] 2000 None ex_camera],
             polls = 2, fusion = 2\<rparr>"
    by (rule ex_single_run)
qed (simp_all add: undistortion_integration_function_def ex_integrate_single_def)

text \<open>
  Claim C8, amended: the adapter aborts on the empty pose vector, and calls the wrapped function
  with the first pose of any vector of length at least 1.
\<close>

theorem single_pose_adapter_forwards_first:
  "undistortion_integration_function (Some f) [] depth_map intensities camera st = None
   \<and> undistortion_integration_function (Some f) (T_G_C # rest) depth_map intensities camera st
       = f T_G_C depth_map intensities camera st"
  by (simp add: undistortion_integration_function_def)

section \<open>The companion image\<close>

text \<open>
  Claim C4, as stated, fails: neither path probes the three companion types the claim lists.
  Frame 0 of vertex 3 of the example has a dedicated color image only, which the claimed order
  would find; the frame-attached path dispatches its depth map with an empty image. The
  resource at 500 ns of sensor 0 has a raw image only; the free-running path dispatches its
  depth map with an empty image.
\<close>

theorem companion_preference_counterexample:
  "getFrameResource ex_map 3 0 kRawDepthMap = Some 100
   \<and> spec_companion_resolve (getFrameResource ex_map 3 0)
        [kImageForDepthMap, kColorImageForDepthMap, kRawImage] = Some 200
   \<and> integrateAllFrameDepthMapResourcesOfTypeImpl [0] kRawDepthMap ex_map ex_flags
        (Some ex_integrate) ex_state
      = Next \<lparr>trace = [Poll, Dispatch [105 / 2] 100 None ex_camera,
                       Dispatch [105 / 4] 101 (Some 300) ex_camera, Poll],
              polls = 2, fusion = 2\<rparr>
   \<and> getSensorResource ex_map 0 kRawDepthMap 0 500 = Some 500
   \<and> spec_companion_resolve (\<lambda>t. getSensorResource ex_map 0 t 0 500)
        [kImageForDepthMap, kColorImageForDepthMap, kRawImage] = Some 300
   \<and> integrateAllOptionalSensorDepthMapResourcesOfTypeImpl [0] kRawDepthMap ex_map ex_flags
        (Some ex_integrate) ex_state
      = Next \<lparr>trace = [Interpolate 0 [500, 600, 700, 1000, 1000, 1000], Poll,
                       Dispatch [3750, 4500, 5250] 500 None ex_camera, Poll,
                       Dispatch [7500, 7500, 7500] 2000 None ex_camera],
              polls = 2, fusion = 2\<rparr>"
proof (intro conjI)
  show "integrateAllFrameDepthMapResourcesOfTypeImpl [0] kRawDepthMap ex_map ex_flags
        (Some ex_integrate) ex_state
      = Next \<lparr>trace = [Poll, Dispatch [105 / 2] 100 None ex_camera,
                       Dispatch [105 / 4] 101 (Some 300) ex_camera, Poll],
              polls = 2, fusion = 2\<rparr>"
    by (rule ex_frame_run)
  show "integrateAllOptionalSensorDepthMapResourcesOfTypeImpl [0] kRawDepthMap ex_map ex_flags
        (Some ex_integrate) ex_state
      = Next \<lparr>trace = [Interpolate 0 [500, 600, 700, 1000, 1000, 1000], Poll,
                       Dispatch [3750, 4500, 5250] 500 None ex_camera, Poll,
                       Dispatch [7500, 7500, 7500] 2000 None ex_camera],
              polls = 2, fusion = 2\<rparr>"
    by (rule ex_sensor_run)
qed (simp_all add: ex_map_def)

text \<open>
  Claim C4, amended. The frame-attached path probes the dedicated image for the depth map and
  then the raw image; the free-running path probes the dedicated grayscale image and then the
  dedicated color image; the first hit wins. Whenever a depth map is found (and, in the
  free-running path, the iteration got as far as the lookup), the processing of the item is
  the call of the integration function with that image, empty if none was found; the call is
  always made, whatever the image.
\<close>

theorem companion_image_resolution:
  fixes vi_map :: "('t::{monoid_mult,inverse}, 'm) VIMap"
    and s :: "('t, 'm, 'st) run_state"
  shows "frame_companion_image vi_map v k
           = spec_companion_resolve (getFrameResource vi_map v k) [kImageForDepthMap, kRawImage]
       \<and> sensor_companion_image vi_map mid sid ts
           = spec_companion_resolve (\<lambda>rt. getSensorResource vi_map mid rt sid ts)
               [kImageForDepthMap, kColorImageForDepthMap]
       \<and> (t \<in> kSupportedDepthMapInputTypes \<and> getFrameResource vi_map v k t = Some depth_map
            \<longrightarrow> integrate_frame vi_map t f nc T_B_Cn T_G_B v k s
                  = call_integration_function f [T_G_B * (T_B_Cn * inverse (get_T_C_B nc k))]
                      depth_map (frame_companion_image vi_map v k) (getCamera nc k) s)
       \<and> (idx < unat tot \<and> check_sigint flags s = Inr s1
            \<and> extract_poses G C poses (unat tot) (unat L) 0 (idx, replicate (unat L) 1)
                 = Some (idx', vec)
            \<and> \<not> (word_sless (arr ! idx) mn \<or> word_sless mx (arr ! idx))
            \<and> t \<in> kSupportedDepthMapInputTypes
            \<and> getSensorResource vi_map mid t sid (fst r) = Some depth_map
            \<longrightarrow> integrate_resource vi_map flags t f mid sid cam G C mn mx L tot arr poses r (idx, s)
                  = map_flow (Pair idx')
                      (call_integration_function f vec depth_map
                         (sensor_companion_image vi_map mid sid (fst r)) cam s1))
       \<and> trace (state_of (call_integration_function f vec depth_map img cam s))
           = trace s @ [Dispatch vec depth_map img cam]"
proof (intro conjI impI)
  show "frame_companion_image vi_map v k
           = spec_companion_resolve (getFrameResource vi_map v k) [kImageForDepthMap, kRawImage]"
    by (simp add: frame_companion_image_def split: option.splits)
  show "sensor_companion_image vi_map mid sid ts
           = spec_companion_resolve (\<lambda>rt. getSensorResource vi_map mid rt sid ts)
               [kImageForDepthMap, kColorImageForDepthMap]"
    by (simp add: sensor_companion_image_def split: option.splits)
  show "integrate_frame vi_map t f nc T_B_Cn T_G_B v k s
                  = call_integration_function f [T_G_B * (T_B_Cn * inverse (get_T_C_B nc k))]
                      depth_map (frame_companion_image vi_map v k) (getCamera nc k) s"
    if "t \<in> kSupportedDepthMapInputTypes \<and> getFrameResource vi_map v k t = Some depth_map"
    using that integrate_frame_supported [of t vi_map f nc T_B_Cn T_G_B v k s] by simp
  show "integrate_resource vi_map flags t f mid sid cam G C mn mx L tot arr poses r (idx, s)
                  = map_flow (Pair idx')
                      (call_integration_function f vec depth_map
                         (sensor_companion_image vi_map mid sid (fst r)) cam s1)"
    if a: "idx < unat tot \<and> check_sigint flags s = Inr s1
            \<and> extract_poses G C poses (unat tot) (unat L) 0 (idx, replicate (unat L) 1)
                 = Some (idx', vec)
            \<and> \<not> (word_sless (arr ! idx) mn \<or> word_sless mx (arr ! idx))
            \<and> t \<in> kSupportedDepthMapInputTypes
            \<and> getSensorResource vi_map mid t sid (fst r) = Some depth_map"
  proof -
    have "t = kRawDepthMap \<or> t = kOptimizedDepthMap"
      using a by (simp add: kSupportedDepthMapInputTypes_def)
    then show ?thesis
      using a by (auto simp: integrate_resource_def Let_def)
  qed
  show "trace (state_of (call_integration_function f vec depth_map img cam s))
           = trace s @ [Dispatch vec depth_map img cam]"
    by (rule call_integration_function_trace)
qed


lemma ex_extract_poses:
  "extract_poses (5 :: real) (3 / 2) [500, 600, 700, 1000, 1000, 1000] (unat (6 :: uint32))
     (unat (3 :: uint32)) 0 (0, replicate (unat (3 :: uint32)) 1)
   = Some (3, [3750, 4500, 5250])"
  by code_simp

lemma ex_check_sigint:
  "check_sigint ex_flags ex_state = Inr \<lparr>trace = [Poll], polls = 1, fusion = 0\<rparr>"
  by (simp add: check_sigint_def ex_flags_def ex_state_def)

theorem companion_image_resolution_witness:
  "kRawDepthMap \<in> kSupportedDepthMapInputTypes
   \<and> getFrameResource ex_map 3 1 kRawDepthMap = Some 101
   \<and> integrate_frame ex_map kRawDepthMap ex_integrate ex_stereo 3 35 3 1 ex_state
       = call_integration_function ex_integrate [35 * (3 * inverse (get_T_C_B ex_stereo 1))] 101
           (frame_companion_image ex_map 3 1) (getCamera ex_stereo 1) ex_state
   \<and> frame_companion_image ex_map 3 1 = Some 300
   \<and> (0 :: nat) < unat (6 :: uint32)
   \<and> check_sigint ex_flags ex_state = Inr \<lparr>trace = [Poll], polls = 1, fusion = 0\<rparr>
   \<and> extract_poses (5 :: real) (3 / 2) [500, 600, 700, 1000, 1000, 1000] (unat (6 :: uint32))
        (unat (3 :: uint32)) 0 (0, replicate (unat (3 :: uint32)) 1)
       = Some (3, [3750, 4500, 5250])
   \<and> \<not> (word_sless ([500, 600, 700, 1000, 1000, 1000] ! 0) (0 :: int64)
          \<or> word_sless (1000 :: int64) ([500, 600, 700, 1000, 1000, 1000] ! 0))
   \<and> getSensorResource ex_map 0 kRawDepthMap 0 (fst (500 :: int64, 7 :: nat)) = Some 500
   \<and> integrate_resource ex_map ex_flags kRawDepthMap ex_integrate 0 0 ex_camera 5 (3 / 2) 0 1000
        3 6 [500, 600, 700, 1000, 1000, 1000] [500, 600, 700, 1000, 1000, 1000] (500, 7)
        (0, ex_state)
       = map_flow (Pair 3)
           (call_integration_function ex_integrate [3750, 4500, 5250] 500
              (sensor_companion_image ex_map 0 0 (fst (500 :: int64, 7 :: nat))) ex_camera
              \<lparr>trace = [Poll], polls = 1, fusion = 0\<rparr>)
   \<and> sensor_companion_image ex_map 0 0 500 = None"
proof -
  have sup: "kRawDepthMap \<in> kSupportedDepthMapInputTypes"
    by (simp add: kSupportedDepthMapInputTypes_def)
  have d1: "getFrameResource ex_map 3 1 kRawDepthMap = Some 101"
    by (simp add: ex_map_def)
  have lt: "(0 :: nat) < unat (6 :: uint32)"
    by simp
  have inside: "\<not> (word_sless ([500, 600, 700, 1000, 1000, 1000] ! 0) (0 :: int64)
          \<or> word_sless (1000 :: int64) ([500, 600, 700, 1000, 1000, 1000] ! 0))"
    by (simp add: word_sless_alt)
  have d2: "getSensorResource ex_map 0 kRawDepthMap 0 (fst (500 :: int64, 7 :: nat)) = Some 500"
    by (simp add: ex_map_def)
  have c1: "frame_companion_image ex_map 3 1 = Some 300"
    by (simp add: frame_companion_image_def ex_map_def)
  have c2: "sensor_companion_image ex_map 0 0 500 = None"
    by (simp add: sensor_companion_image_def ex_map_def)
  note w3 = companion_image_resolution [where vi_map = ex_map and v = 3 and k = 1
      and t = kRawDepthMap and depth_map = 101 and f = ex_integrate and nc = ex_stereo
      and T_B_Cn = 3 and T_G_B = 35 and s = ex_state,
      THEN conjunct2, THEN conjunct2, THEN conjunct1, THEN mp, OF conjI [OF sup d1]]
  note w4 = companion_image_resolution [where vi_map = ex_map and t = kRawDepthMap
      and depth_map = 500 and f = ex_integrate and s = ex_state and idx = 0 and tot = 6
      and flags = ex_flags and ?s1.0 = "\<lparr>trace = [Poll], polls = 1, fusion = 0\<rparr>"
      and G = 5 and C = "3 / 2" and poses = "[500, 600, 700, 1000, 1000, 1000]" and L = 3
      and idx' = 3 and vec = "[3750, 4500, 5250]" and arr = "[500, 600, 700, 1000, 1000, 1000]"
      and mn = 0 and mx = 1000 and mid = 0 and sid = 0 and r = "(500, 7)" and cam = ex_camera,
      THEN conjunct2, THEN conjunct2, THEN conjunct2, THEN conjunct1, THEN mp,
      OF conjI [OF lt conjI [OF ex_check_sigint conjI [OF ex_extract_poses
        conjI [OF inside conjI [OF sup d2]]]]]]
  show ?thesis
    by (intro conjI sup d1 w3 c1 lt ex_check_sigint ex_extract_poses inside d2 w4 c2)
qed

section \<open>Polls and early returns\<close>

lemma for_each_Return:
  "for_each body xs s = Return s' \<Longrightarrow> \<exists>x\<in>set xs. \<exists>s0. body x s0 = Return s'"
proof (induction xs arbitrary: s)
  case Nil
  then show ?case by simp
next
  case (Cons x xs)
  show ?case
  proof (cases "body x s")
    case (Next s1)
    then have "for_each body xs s1 = Return s'"
      using Cons.prems by simp
    from Cons.IH [OF this] show ?thesis by auto
  next
    case (Return s1)
    then have "s1 = s'" using Cons.prems by simp
    with Return show ?thesis by auto
  next
    case (Fatal s1)
    then show ?thesis using Cons.prems by simp
  qed
qed

lemma integrate_resource_Return:
  assumes "integrate_resource vi_map flags t f mid sid cam G C mn mx L tot arr poses r (idx, s)
             = Return st"
  shows "enable_sigint_breaker flags \<and> isBreakRequested flags (polls s)
         \<and> st = (idx, s\<lparr>trace := trace s @ [Poll, WarningAborted], polls := polls s + 1\<rparr>)"
proof -
  define res where
    "res = integrate_resource vi_map flags t f mid sid cam G C mn mx L tot arr poses r (idx, s)"
  have rt: "res = Return st"
    using assms by (simp add: res_def)
  from res_def show ?thesis
  proof (cases rule: integrate_resource_shape)
    case (cancel s')
    then show ?thesis using rt check_sigint_Inl [of flags s s'] by simp
  next
    case (dispatch s1 vec depth_map)
    then show ?thesis
      using rt call_integration_function_not_Return [of f vec depth_map
          "sensor_companion_image vi_map mid sid (fst r)" cam s1]
      by (cases "call_integration_function f vec depth_map
                   (sensor_companion_image vi_map mid sid (fst r)) cam s1") auto
  qed (use rt in auto)
qed

lemma integrate_frame_polls:
  "polls (state_of (integrate_frame vi_map t f nc T_B_Cn T_G_B v k s)) = polls s"
proof (cases "t \<in> kSupportedDepthMapInputTypes")
  case True
  then show ?thesis
    using integrate_frame_supported [OF True, of vi_map f nc T_B_Cn T_G_B v k s]
    by (simp add: call_integration_function_polls split: option.splits)
next
  case False
  then show ?thesis
    using integrate_frame_unsupported [OF False, of vi_map f nc T_B_Cn T_G_B v k s] by simp
qed

lemma integrate_vertex_cancel:
  assumes "enable_sigint_breaker flags" and "isBreakRequested flags (polls s)"
  shows "integrate_vertex vi_map flags t f nc T_B_Cn G v s
           = Return (s\<lparr>trace := trace s @ [Poll, WarningAborted], polls := polls s + 1\<rparr>)"
  using assms by (simp add: integrate_vertex_def check_sigint_def)

lemma integrate_vertex_polls:
  fixes s :: "('t::{monoid_mult,inverse}, 'm, 'st) run_state"
  assumes en: "enable_sigint_breaker flags"
    and nx: "integrate_vertex vi_map flags t f nc T_B_Cn G v s = Next s1"
  shows "polls s1 = polls s + 1"
proof (cases "check_sigint flags s")
  case (Inl s')
  then show ?thesis using nx by (simp add: integrate_vertex_def)
next
  case (Inr s0)
  then have p0: "polls s0 = polls s + 1"
    using check_sigint_Inr [OF Inr] en by auto
  let ?P = "\<lambda>s' :: ('t, 'm, 'st) run_state. polls s' = polls s0"
  let ?body = "integrate_frame vi_map t f nc T_B_Cn (G * get_T_M_I vi_map v) v"
  have "?P (state_of (for_each ?body [0..<numFrames vi_map v] s0))"
    by (rule for_each_invariant [where P = ?P]) (simp_all add: integrate_frame_polls)
  moreover have "for_each ?body [0..<numFrames vi_map v] s0 = Next s1"
    using nx Inr by (simp add: integrate_vertex_def Let_def)
  ultimately show ?thesis using p0 by simp
qed

lemma integrate_resource_cancel:
  assumes "enable_sigint_breaker flags" and "isBreakRequested flags (polls s)"
    and "idx < unat tot"
  shows "integrate_resource vi_map flags t f mid sid cam G C mn mx L tot arr poses r (idx, s)
           = Return (idx, s\<lparr>trace := trace s @ [Poll, WarningAborted], polls := polls s + 1\<rparr>)"
  using assms by (simp add: integrate_resource_def check_sigint_def)

lemma integrate_resource_polls:
  assumes en: "enable_sigint_breaker flags"
    and nx: "integrate_resource vi_map flags t f mid sid cam G C mn mx L tot arr poses r (idx, s)
               = Next (idx', s')"
  shows "polls s' = polls s + 1"
proof -
  define res where
    "res = integrate_resource vi_map flags t f mid sid cam G C mn mx L tot arr poses r (idx, s)"
  have nx': "res = Next (idx', s')"
    using nx by (simp add: res_def)
  from res_def show ?thesis
  proof (cases rule: integrate_resource_shape)
    case (skip s1 vec)
    then show ?thesis using nx' check_sigint_Inr [of flags s s1] en by auto
  next
    case (dispatch s1 vec depth_map)
    then have "snd (state_of res) = state_of (call_integration_function f vec depth_map
        (sensor_companion_image vi_map mid sid (fst r)) cam s1)"
      by (simp add: state_of_map_flow)
    then have "polls s' = polls s1"
      using nx' by (simp add: call_integration_function_polls)
    then show ?thesis using check_sigint_Inr [of flags s s1] dispatch(2) en by auto
  qed (use nx' in auto)
qed

lemma integrate_frame_not_Return:
  "integrate_frame vi_map t f nc T_B_Cn T_G_B v k s \<noteq> Return s'"
proof (cases "t \<in> kSupportedDepthMapInputTypes")
  case True
  then show ?thesis
    by (simp add: integrate_frame_supported call_integration_function_not_Return
        split: option.splits)
next
  case False
  then show ?thesis by (simp add: integrate_frame_unsupported)
qed

lemma integrate_vertex_Return:
  fixes s :: "('t::{monoid_mult,inverse}, 'm, 'st) run_state"
  assumes "integrate_vertex vi_map flags t f nc T_B_Cn G v s = Return s'"
  shows "enable_sigint_breaker flags \<and> isBreakRequested flags (polls s)
         \<and> s' = s\<lparr>trace := trace s @ [Poll, WarningAborted], polls := polls s + 1\<rparr>"
proof (cases "check_sigint flags s")
  case (Inl s1)
  then have "s1 = s'" using assms by (simp add: integrate_vertex_def)
  then show ?thesis using check_sigint_Inl [OF Inl] by simp
next
  case (Inr s1)
  then have "for_each (integrate_frame vi_map t f nc T_B_Cn (G * get_T_M_I vi_map v) v)
               [0..<numFrames vi_map v] s1 = Return s'"
    using assms by (simp add: integrate_vertex_def Let_def)
  from for_each_Return [OF this] show ?thesis
    by (simp add: integrate_frame_not_Return)
qed

lemma integrate_sensor_invalid:
  assumes "\<not> (getSensorType vi_map sid = kNCamera
             \<and> (\<exists>nc. getSensorPtr vi_map sid = Some nc \<and> getNumCameras nc = 1))"
  shows "integrate_sensor vi_map flags t f mid G mn mx (sid, rs) s = Fatal s"
  using assms by (auto simp: integrate_sensor_def split: option.splits)

lemma integrate_sensor_Return:
  fixes vi_map :: "('t::{monoid_mult,inverse}, 'm) VIMap"
  assumes "integrate_sensor vi_map flags t f mid G mn mx x s = Return s'"
  shows "enable_sigint_breaker flags
         \<and> (\<exists>s0. isBreakRequested flags (polls s0)
                 \<and> s' = s0\<lparr>trace := trace s0 @ [Poll, WarningAborted], polls := polls s0 + 1\<rparr>)"
proof -
  obtain sid rs where x: "x = (sid, rs)" by (cases x)
  let ?res = "integrate_sensor vi_map flags t f mid G mn mx (sid, rs) s"
  have r: "?res = Return s'" using assms x by simp
  have valid: "getSensorType vi_map sid = kNCamera
             \<and> (\<exists>nc. getSensorPtr vi_map sid = Some nc \<and> getNumCameras nc = 1)"
  proof (rule ccontr)
    assume a: "\<not> ?thesis"
    show False using r by (simp add: integrate_sensor_invalid [OF a])
  qed
  then obtain nc where ty: "getSensorType vi_map sid = kNCamera"
    and nc: "getSensorPtr vi_map sid = Some nc" and one: "getNumCameras nc = 1"
    by blast
  define L where "L = num_lines_per_depth_map_of flags (getCamera nc 0)"
  have small: "length rs * unat L < 2 ^ 32"
  proof (rule ccontr)
    assume "\<not> ?thesis"
    then show False
      using integrate_sensor_overflow [of rs flags nc vi_map sid t f mid G mn mx s] nc r
      by (simp add: L_def)
  qed
  define tot where "tot = (of_nat (length rs * unat L) :: uint32)"
  define tss where "tss = sensor_timestamps flags mn mx nc rs"
  define poses where "poses = sensor_poses vi_map flags mid mn mx nc rs"
  define s1 where "s1 = s\<lparr>trace := trace s @ [Interpolate mid tss]\<rparr>"
  define loop where
    "loop = for_each (integrate_resource vi_map flags t f mid sid (getCamera nc 0) G
               (getSensor_T_B_S vi_map sid * inverse (get_T_C_B nc 0)) mn mx L tot tss poses)
             rs (0, s1)"
  have res: "?res = (if length poses \<noteq> length rs * unat L then Fatal s1
                     else map_flow snd loop)"
    using integrate_sensor_checked [OF ty nc one, of rs flags t f mid G mn mx s] small
    by (simp add: L_def tot_def tss_def poses_def s1_def loop_def)
  then have "map_flow snd loop = Return s'"
    using r by (simp split: if_splits)
  then obtain st where st: "loop = Return st" and s': "s' = snd st"
    by (cases loop) auto
  from for_each_Return [OF st [unfolded loop_def]]
  obtain r0 st0 where "integrate_resource vi_map flags t f mid sid (getCamera nc 0) G
               (getSensor_T_B_S vi_map sid * inverse (get_T_C_B nc 0)) mn mx L tot tss poses
               r0 st0 = Return st"
    by blast
  then have "enable_sigint_breaker flags \<and> isBreakRequested flags (polls (snd st0))
         \<and> st = (fst st0, (snd st0)\<lparr>trace := trace (snd st0) @ [Poll, WarningAborted],
                                     polls := polls (snd st0) + 1\<rparr>)"
    using integrate_resource_Return [of vi_map flags t f mid sid "getCamera nc 0" G
        "getSensor_T_B_S vi_map sid * inverse (get_T_C_B nc 0)" mn mx L tot tss poses r0
        "fst st0" "snd st0" st]
    by simp
  then show ?thesis using s' by (intro conjI exI [of _ "snd st0"]) simp_all
qed

lemma integrate_sensor_mission_Return:
  fixes vi_map :: "('t::{monoid_mult,inverse}, 'm) VIMap"
  assumes "integrate_sensor_mission vi_map flags t f mid s = Return s'"
  shows "enable_sigint_breaker flags
         \<and> (\<exists>s0. isBreakRequested flags (polls s0)
                 \<and> s' = s0\<lparr>trace := trace s0 @ [Poll, WarningAborted], polls := polls s0 + 1\<rparr>)"
proof -
  obtain e mn mx where range: "getVertexToTimeStampMap vi_map mid = (e, mn, mx)"
    by (cases "getVertexToTimeStampMap vi_map mid") auto
  from assms range obtain sensors where
    "for_each (integrate_sensor vi_map flags t f mid (get_T_G_M vi_map mid) mn mx) sensors s
       = Return s'"
    by (auto simp: integrate_sensor_mission_def Let_def split: if_splits option.splits)
  from for_each_Return [OF this] obtain x s0 where
    "integrate_sensor vi_map flags t f mid (get_T_G_M vi_map mid) mn mx x s0 = Return s'"
    by blast
  then show ?thesis by (rule integrate_sensor_Return)
qed

lemma sensor_impl_Return:
  fixes vi_map :: "('t::{monoid_mult,inverse}, 'm) VIMap"
  assumes "integrateAllOptionalSensorDepthMapResourcesOfTypeImpl mission_ids t vi_map flags fo s
             = Return s'"
  shows "enable_sigint_breaker flags
         \<and> (\<exists>s0. isBreakRequested flags (polls s0)
                 \<and> s' = s0\<lparr>trace := trace s0 @ [Poll, WarningAborted], polls := polls s0 + 1\<rparr>)"
proof -
  from assms obtain f where
    "for_each (integrate_sensor_mission vi_map flags t f) mission_ids s = Return s'"
    by (auto simp: integrateAllOptionalSensorDepthMapResourcesOfTypeImpl_def
        split: option.splits if_splits)
  from for_each_Return [OF this] obtain mid s0 where
    "integrate_sensor_mission vi_map flags t f mid s0 = Return s'"
    by blast
  then show ?thesis by (rule integrate_sensor_mission_Return)
qed

lemma frame_impl_Return:
  fixes vi_map :: "('t::{monoid_mult,inverse}, 'm) VIMap"
    and s :: "('t, 'm, 'st) run_state"
  assumes "integrateAllFrameDepthMapResourcesOfTypeImpl mission_ids t vi_map flags fo s
             = Return s'"
  shows "enable_sigint_breaker flags
         \<and> (\<exists>s0. isBreakRequested flags (polls s0)
                 \<and> s' = s0\<lparr>trace := trace s0 @ [Poll, WarningAborted], polls := polls s0 + 1\<rparr>)"
proof -
  from assms obtain f where
    "for_each (integrate_frame_mission vi_map flags t f) mission_ids s = Return s'"
    by (auto simp: integrateAllFrameDepthMapResourcesOfTypeImpl_def
        split: option.splits if_splits)
  from for_each_Return [OF this] obtain mid s0 where
    m: "integrate_frame_mission vi_map flags t f mid s0 = Return s'"
    by blast
  then have "for_each (integrate_vertex vi_map flags t f
               (getSensor vi_map (getNCameraId vi_map mid))
               (getSensor_T_B_S vi_map (getNCameraId vi_map mid)) (get_T_G_M vi_map mid))
             (getAllVertexIdsInMissionAlongGraph vi_map mid) s0 = Return s'"
    by (simp add: integrate_frame_mission_def Let_def split: if_splits)
  from for_each_Return [OF this] obtain v s1 where
    "integrate_vertex vi_map flags t f (getSensor vi_map (getNCameraId vi_map mid))
       (getSensor_T_B_S vi_map (getNCameraId vi_map mid)) (get_T_G_M vi_map mid) v s1 = Return s'"
    by blast
  from integrate_vertex_Return [OF this] show ?thesis
    by (intro conjI exI [of _ s1]) simp_all
qed

lemma for_each_cancelled:
  assumes A: "\<And>x s. ok s \<Longrightarrow> brk (pc s) \<Longrightarrow> body x s = Return (cancel s)"
    and B: "\<And>x s s1. body x s = Next s1 \<Longrightarrow> pc s1 = pc s + 1"
    and n: "n < length xs"
    and quiet: "\<forall>i<n. \<not> brk (pc s + i)"
    and seen: "brk (pc s + n)"
    and pre: "for_each body (take n xs) s = Next s'"
    and ok: "ok s'"
  shows "pc s' = pc s + n \<and> for_each body xs s = Return (cancel s')"
  using n quiet seen pre
proof (induction n arbitrary: xs s)
  case 0
  then obtain x xs' where xs: "xs = x # xs'" by (cases xs) auto
  from 0 have s': "s' = s" by simp
  have "body x s = Return (cancel s)"
    using A [of s x] ok 0 s' by simp
  then show ?case using xs s' by simp
next
  case (Suc n)
  then obtain x xs' where xs: "xs = x # xs'" by (cases xs) auto
  from Suc.prems(4) xs obtain s1 where step: "body x s = Next s1"
    and rest: "for_each body (take n xs') s1 = Next s'"
    by (cases "body x s") auto
  have pc1: "pc s1 = pc s + 1" by (rule B [OF step])
  have "pc s' = pc s1 + n \<and> for_each body xs' s1 = Return (cancel s')"
  proof (rule Suc.IH [OF _ _ _ rest])
    show "n < length xs'" using Suc.prems(1) xs by simp
    show "\<forall>i<n. \<not> brk (pc s1 + i)"
    proof (intro allI impI)
      fix i assume "i < n"
      then have "Suc i < Suc n" by simp
      with Suc.prems(2) have "\<not> brk (pc s + Suc i)" by blast
      then show "\<not> brk (pc s1 + i)" using pc1 by simp
    qed
    show "brk (pc s1 + n)" using Suc.prems(3) pc1 by simp
  qed
  then show ?case using xs step pc1 by simp
qed

section \<open>The trace of a run\<close>

subsection \<open>A loop over loops is a loop over all the items\<close>

lemma for_each_append:
  "for_each body (xs @ ys) s =
     (case for_each body xs s of
        Next s' \<Rightarrow> for_each body ys s'
      | Return s' \<Rightarrow> Return s'
      | Fatal s' \<Rightarrow> Fatal s')"
  by (induction xs arbitrary: s) (auto split: flow.splits)

lemma for_each_map:
  "for_each body (map g xs) s = for_each (\<lambda>x. body (g x)) xs s"
  by (induction xs arbitrary: s) (auto split: flow.splits)

lemma for_each_nested:
  "for_each (\<lambda>x. for_each (\<lambda>y. body (x, y)) (items x)) xs s
     = for_each body (concat (map (\<lambda>x. map (Pair x) (items x)) xs)) s"
proof (induction xs arbitrary: s)
  case Nil
  then show ?case by simp
next
  case (Cons x xs)
  show ?case
    by (simp add: for_each_append for_each_map Cons.IH split: flow.splits)
qed

lemma for_each_blocks:
  assumes step: "\<And>x s s'. body x s = Next s' \<Longrightarrow> tr s' = tr s @ ev x"
    and run: "for_each body xs s = Next s'"
  shows "tr s' = tr s @ concat (map ev xs)"
  using run
proof (induction xs arbitrary: s)
  case Nil
  then show ?case by simp
next
  case (Cons x xs)
  from Cons.prems obtain s1 where b: "body x s = Next s1"
    and rest: "for_each body xs s1 = Next s'"
    by (cases "body x s") auto
  have "tr s' = tr s1 @ concat (map ev xs)" by (rule Cons.IH [OF rest])
  then show ?case using step [OF b] by simp
qed

lemma for_each_take_Suc:
  assumes k: "k < length xs"
    and pre: "for_each body (take k xs) s = Next s1"
    and ret: "body (xs ! k) s1 = Return s2"
  shows "for_each body xs s = Return s2"
proof -
  have "xs = take k xs @ xs ! k # drop (Suc k) xs"
    using k by (simp add: id_take_nth_drop)
  then have "for_each body xs s = for_each body (take k xs @ xs ! k # drop (Suc k) xs) s"
    by simp
  also have "\<dots> = Return s2"
    using pre ret by (simp add: for_each_append)
  finally show ?thesis .
qed

subsection \<open>The frame-attached path\<close>

lemma integrate_frame_Next:
  assumes "integrate_frame vi_map t f nc T_B_Cn T_G_B v k s = Next s'"
  shows "trace s' = trace s @ frame_events vi_map t nc T_B_Cn T_G_B v k"
proof (cases "t \<in> kSupportedDepthMapInputTypes")
  case False
  then show ?thesis
    using assms by (simp add: integrate_frame_unsupported)
next
  case True
  show ?thesis
  proof (cases "getFrameResource vi_map v k t")
    case None
    then show ?thesis
      using assms by (simp add: integrate_frame_supported [OF True] frame_events_def)
  next
    case (Some depth_map)
    then have "call_integration_function f [T_G_B * (T_B_Cn * inverse (get_T_C_B nc k))] depth_map
                  (frame_companion_image vi_map v k) (getCamera nc k) s = Next s'"
      using assms by (simp add: integrate_frame_supported [OF True])
    then have "trace s' = trace s @ [Dispatch [T_G_B * (T_B_Cn * inverse (get_T_C_B nc k))]
        depth_map (frame_companion_image vi_map v k) (getCamera nc k)]"
      using call_integration_function_trace [of f "[T_G_B * (T_B_Cn * inverse (get_T_C_B nc k))]"
          depth_map "frame_companion_image vi_map v k" "getCamera nc k" s]
      by simp
    then show ?thesis using Some by (simp add: frame_events_def)
  qed
qed

lemma check_sigint_Inr_trace:
  assumes "check_sigint flags s = Inr s1"
  shows "trace s1 = trace s @ poll_events flags"
  using check_sigint_Inr [OF assms] by (auto simp: poll_events_def)

lemma frame_vertex_body_Next:
  fixes s :: "('t::{monoid_mult,inverse}, 'm, 'st) run_state"
  assumes "frame_vertex_body vi_map flags t f item s = Next s'"
  shows "trace s' = trace s @ vertex_events vi_map flags t item"
proof (cases "check_sigint flags s")
  case (Inl s1)
  then show ?thesis
    using assms by (simp add: frame_vertex_body_def integrate_vertex_def)
next
  case (Inr s1)
  let ?nc = "getSensor vi_map (getNCameraId vi_map (fst item))"
  let ?B = "getSensor_T_B_S vi_map (getNCameraId vi_map (fst item))"
  let ?G = "get_T_G_M vi_map (fst item) * get_T_M_I vi_map (snd item)"
  have "for_each (integrate_frame vi_map t f ?nc ?B ?G (snd item))
          [0..<numFrames vi_map (snd item)] s1 = Next s'"
    using assms Inr by (simp add: frame_vertex_body_def integrate_vertex_def Let_def)
  then have "trace s' = trace s1 @ concat (map (frame_events vi_map t ?nc ?B ?G (snd item))
                                            [0..<numFrames vi_map (snd item)])"
    by (rule for_each_blocks [where tr = trace, rotated]) (rule integrate_frame_Next)
  then show ?thesis
    using check_sigint_Inr_trace [OF Inr] by (simp add: vertex_events_def)
qed

lemma frame_impl_flat:
  fixes vi_map :: "('t::{monoid_mult,inverse}, 'm) VIMap"
  assumes "t \<in> kSupportedDepthMapInputTypes"
  shows "integrateAllFrameDepthMapResourcesOfTypeImpl mission_ids t vi_map flags (Some f) s
           = for_each (frame_vertex_body vi_map flags t f) (frame_vertices vi_map mission_ids) s"
proof -
  have "integrate_frame_mission vi_map flags t f
          = (\<lambda>mid. for_each (\<lambda>v. frame_vertex_body vi_map flags t f (mid, v))
                     (if hasNCamera vi_map mid
                      then getAllVertexIdsInMissionAlongGraph vi_map mid else []))"
    by (rule ext, rule ext)
      (simp add: integrate_frame_mission_def frame_vertex_body_def Let_def)
  then have "for_each (integrate_frame_mission vi_map flags t f) mission_ids s
      = for_each (frame_vertex_body vi_map flags t f) (frame_vertices vi_map mission_ids) s"
    unfolding frame_vertices_def
    by (simp only: for_each_nested [where body = "frame_vertex_body vi_map flags t f"
          and items = "\<lambda>mid. if hasNCamera vi_map mid
                      then getAllVertexIdsInMissionAlongGraph vi_map mid else []"])
  then show ?thesis
    using assms by (simp add: integrateAllFrameDepthMapResourcesOfTypeImpl_def)
qed

lemma frame_impl_Next:
  fixes vi_map :: "('t::{monoid_mult,inverse}, 'm) VIMap"
    and s :: "('t, 'm, 'st) run_state"
  assumes "integrateAllFrameDepthMapResourcesOfTypeImpl mission_ids t vi_map flags (Some f) s
             = Next s'"
  shows "trace s' = trace s
           @ concat (map (vertex_events vi_map flags t) (frame_vertices vi_map mission_ids))"
proof -
  have sup: "t \<in> kSupportedDepthMapInputTypes"
    using assms
    by (auto simp: integrateAllFrameDepthMapResourcesOfTypeImpl_def split: if_splits)
  have "for_each (frame_vertex_body vi_map flags t f) (frame_vertices vi_map mission_ids) s
          = Next s'"
    using assms by (simp add: frame_impl_flat [OF sup])
  then show ?thesis
    by (rule for_each_blocks [where tr = trace, rotated]) (rule frame_vertex_body_Next)
qed

subsection \<open>The free-running path\<close>

lemma extract_poses_vector:
  assumes "extract_poses G C poses tot n 0 (idx, replicate n 1) = Some (idx', vec)"
  shows "vec = map (\<lambda>k. G * poses ! (idx + k) * C) [0..<n]"
proof (rule nth_equalityI)
  show "length vec = length (map (\<lambda>k. G * poses ! (idx + k) * C) [0..<n])"
    using extract_poses_Some [OF assms] by simp
  fix i assume "i < length vec"
  then have "i < n" using extract_poses_Some [OF assms] by simp
  then show "vec ! i = map (\<lambda>k. G * poses ! (idx + k) * C) [0..<n] ! i"
    using extract_poses_Some [OF assms] by simp
qed

lemma integrate_resource_Next:
  assumes "integrate_resource vi_map flags t f mid sid cam G C mn mx L tot arr poses r (idx, s)
             = Next (idx', s')"
  shows "trace s' = trace s @ poll_events flags
           @ resource_events vi_map t mid sid cam G C mn mx L arr poses idx r"
proof -
  define res where
    "res = integrate_resource vi_map flags t f mid sid cam G C mn mx L tot arr poses r (idx, s)"
  have nx: "res = Next (idx', s')"
    using assms by (simp add: res_def)
  from res_def show ?thesis
  proof (cases rule: integrate_resource_shape)
    case (skip s1 vec)
    then show ?thesis
      using nx check_sigint_Inr_trace [of flags s s1] by (simp add: resource_events_def)
  next
    case (dispatch s1 vec depth_map)
    have vec: "vec = map (\<lambda>k. G * poses ! (idx + k) * C) [0..<unat L]"
      using dispatch(3) by (rule extract_poses_vector)
    have "snd (state_of res) = state_of (call_integration_function f vec depth_map
        (sensor_companion_image vi_map mid sid (fst r)) cam s1)"
      using dispatch(7) by (simp add: state_of_map_flow)
    then have "trace s' = trace s1 @ [Dispatch vec depth_map
        (sensor_companion_image vi_map mid sid (fst r)) cam]"
      using nx by (simp add: call_integration_function_trace)
    then show ?thesis
      using dispatch(2,4,6) vec check_sigint_Inr_trace [of flags s s1]
      by (simp add: resource_events_def)
  qed (use nx in auto)
qed

lemma resources_loop_Next_trace:
  assumes "for_each (integrate_resource vi_map flags t f mid sid cam G C mn mx L tot arr poses)
             rs (idx, s) = Next (idx', s')"
  shows "idx' = idx + length rs * unat L
       \<and> trace s' = trace s
           @ resources_events vi_map flags t mid sid cam G C mn mx L arr poses idx rs"
  using assms
proof (induction rs arbitrary: idx s)
  case Nil
  then show ?case by simp
next
  case (Cons r rs)
  let ?body = "integrate_resource vi_map flags t f mid sid cam G C mn mx L tot arr poses"
  from Cons.prems obtain st1 where b1: "?body r (idx, s) = Next st1"
    and rest1: "for_each ?body rs st1 = Next (idx', s')"
    by (cases "?body r (idx, s)") auto
  obtain idx1 s1 where st1: "st1 = (idx1, s1)" by (cases st1)
  have b: "?body r (idx, s) = Next (idx1, s1)" using b1 st1 by simp
  have rest: "for_each ?body rs (idx1, s1) = Next (idx', s')" using rest1 st1 by simp
  have idx1: "idx1 = idx + unat L"
    using b by (rule integrate_resource_idx)
  have t1: "trace s1 = trace s @ poll_events flags
           @ resource_events vi_map t mid sid cam G C mn mx L arr poses idx r"
    using b by (rule integrate_resource_Next)
  from Cons.IH [OF rest] show ?case
    using idx1 t1 by simp
qed

lemma integrate_sensor_valid:
  fixes vi_map :: "('t::{monoid_mult,inverse}, 'm) VIMap"
  assumes "\<not> is_Fatal (integrate_sensor vi_map flags t f mid G mn mx (sid, rs) s)"
  obtains nc where "getSensorType vi_map sid = kNCamera" "getSensorPtr vi_map sid = Some nc"
    "getNumCameras nc = 1"
    "length rs * unat (num_lines_per_depth_map_of flags (getCamera nc 0)) < 2 ^ 32"
    "length (sensor_poses vi_map flags mid mn mx nc rs)
       = length rs * unat (num_lines_per_depth_map_of flags (getCamera nc 0))"
    "integrate_sensor vi_map flags t f mid G mn mx (sid, rs) s
       = map_flow snd
           (for_each (sensor_resource_body vi_map flags t f mid G mn mx sid nc rs) rs
              (0, s\<lparr>trace := trace s @ [Interpolate mid (sensor_timestamps flags mn mx nc rs)]\<rparr>))"
proof -
  let ?res = "integrate_sensor vi_map flags t f mid G mn mx (sid, rs) s"
  have valid: "getSensorType vi_map sid = kNCamera
             \<and> (\<exists>nc. getSensorPtr vi_map sid = Some nc \<and> getNumCameras nc = 1)"
  proof (rule ccontr)
    assume a: "\<not> ?thesis"
    show False using assms by (simp add: integrate_sensor_invalid [OF a])
  qed
  then obtain nc where ty: "getSensorType vi_map sid = kNCamera"
    and nc: "getSensorPtr vi_map sid = Some nc" and one: "getNumCameras nc = 1"
    by blast
  have small: "length rs * unat (num_lines_per_depth_map_of flags (getCamera nc 0)) < 2 ^ 32"
  proof (rule ccontr)
    assume "\<not> ?thesis"
    then show False
      using integrate_sensor_overflow [of rs flags nc vi_map sid t f mid G mn mx s] nc assms
      by simp
  qed
  note res = integrate_sensor_checked [OF ty nc one small, of t f mid G mn mx s]
  have len: "length (sensor_poses vi_map flags mid mn mx nc rs)
       = length rs * unat (num_lines_per_depth_map_of flags (getCamera nc 0))"
  proof (rule ccontr)
    assume "\<not> ?thesis"
    then show False using res assms by simp
  qed
  have "?res = map_flow snd
           (for_each (sensor_resource_body vi_map flags t f mid G mn mx sid nc rs) rs
              (0, s\<lparr>trace := trace s @ [Interpolate mid (sensor_timestamps flags mn mx nc rs)]\<rparr>))"
    using res len by (simp add: sensor_resource_body_def)
  with ty nc one small len show ?thesis by (rule that)
qed

lemma mission_sensor_body_Next:
  fixes vi_map :: "('t::{monoid_mult,inverse}, 'm) VIMap"
    and s :: "('t, 'm, 'st) run_state"
  assumes "mission_sensor_body vi_map flags t f item s = Next s'"
  shows "trace s' = trace s @ sensor_events vi_map flags t item"
proof -
  obtain mid sid rs where item: "item = (mid, sid, rs)" by (cases item)
  define G where "G = get_T_G_M vi_map mid"
  define mn where "mn = fst (snd (getVertexToTimeStampMap vi_map mid))"
  define mx where "mx = snd (snd (getVertexToTimeStampMap vi_map mid))"
  have nx: "integrate_sensor vi_map flags t f mid G mn mx (sid, rs) s = Next s'"
    using assms item by (simp add: mission_sensor_body_def G_def mn_def mx_def)
  then have "\<not> is_Fatal (integrate_sensor vi_map flags t f mid G mn mx (sid, rs) s)"
    by simp
  then obtain nc where nc: "getSensorPtr vi_map sid = Some nc"
    and res: "integrate_sensor vi_map flags t f mid G mn mx (sid, rs) s
       = map_flow snd
           (for_each (sensor_resource_body vi_map flags t f mid G mn mx sid nc rs) rs
              (0, s\<lparr>trace := trace s @ [Interpolate mid (sensor_timestamps flags mn mx nc rs)]\<rparr>))"
    by (rule integrate_sensor_valid)
  from nx res obtain idx' where
    "for_each (sensor_resource_body vi_map flags t f mid G mn mx sid nc rs) rs
       (0, s\<lparr>trace := trace s @ [Interpolate mid (sensor_timestamps flags mn mx nc rs)]\<rparr>)
     = Next (idx', s')"
    by (cases "for_each (sensor_resource_body vi_map flags t f mid G mn mx sid nc rs) rs
       (0, s\<lparr>trace := trace s @ [Interpolate mid (sensor_timestamps flags mn mx nc rs)]\<rparr>)")
      auto
  from resources_loop_Next_trace [OF this [unfolded sensor_resource_body_def]]
  have "trace s' = trace s @ sensor_resources_events vi_map flags t mid G mn mx sid nc rs rs"
    by (simp add: sensor_resources_events_def)
  then show ?thesis
    using nc item by (simp add: sensor_events_def G_def mn_def mx_def)
qed

lemma sensor_impl_flat:
  fixes vi_map :: "('t::{monoid_mult,inverse}, 'm) VIMap"
  assumes "t \<in> kSupportedDepthMapInputTypes"
  shows "integrateAllOptionalSensorDepthMapResourcesOfTypeImpl mission_ids t vi_map flags
           (Some f) s
           = for_each (mission_sensor_body vi_map flags t f)
               (mission_sensors vi_map t mission_ids) s"
proof -
  have "integrate_sensor_mission vi_map flags t f
          = (\<lambda>mid. for_each (\<lambda>x. mission_sensor_body vi_map flags t f (mid, x))
                     (if fst (getVertexToTimeStampMap vi_map mid) then []
                       else case getAllSensorResourceIdsOfType vi_map mid t of
                              None \<Rightarrow> []
                            | Some sensor_id_to_res_id_map \<Rightarrow> sensor_id_to_res_id_map))"
  proof (rule ext, rule ext)
    fix mid s0
    obtain e mn mx where range: "getVertexToTimeStampMap vi_map mid = (e, mn, mx)"
      by (cases "getVertexToTimeStampMap vi_map mid") auto
    show "integrate_sensor_mission vi_map flags t f mid s0
          = for_each (\<lambda>x. mission_sensor_body vi_map flags t f (mid, x))
                     (if fst (getVertexToTimeStampMap vi_map mid) then []
                       else case getAllSensorResourceIdsOfType vi_map mid t of
                              None \<Rightarrow> []
                            | Some sensor_id_to_res_id_map \<Rightarrow> sensor_id_to_res_id_map) s0"
      using range
      by (simp add: integrate_sensor_mission_def mission_sensor_body_def Let_def
          split: option.splits)
  qed
  then have "for_each (integrate_sensor_mission vi_map flags t f) mission_ids s
      = for_each (mission_sensor_body vi_map flags t f) (mission_sensors vi_map t mission_ids) s"
    unfolding mission_sensors_def
    by (simp only: for_each_nested [where body = "mission_sensor_body vi_map flags t f"
          and items = "\<lambda>mid. if fst (getVertexToTimeStampMap vi_map mid) then []
                       else case getAllSensorResourceIdsOfType vi_map mid t of
                              None \<Rightarrow> []
                            | Some sensor_id_to_res_id_map \<Rightarrow> sensor_id_to_res_id_map"])
  then show ?thesis
    using assms by (simp add: integrateAllOptionalSensorDepthMapResourcesOfTypeImpl_def)
qed

lemma sensor_impl_Next:
  fixes vi_map :: "('t::{monoid_mult,inverse}, 'm) VIMap"
    and s :: "('t, 'm, 'st) run_state"
  assumes "integrateAllOptionalSensorDepthMapResourcesOfTypeImpl mission_ids t vi_map flags
             (Some f) s = Next s'"
  shows "trace s' = trace s
           @ concat (map (sensor_events vi_map flags t) (mission_sensors vi_map t mission_ids))"
proof -
  have sup: "t \<in> kSupportedDepthMapInputTypes"
    using assms
    by (auto simp: integrateAllOptionalSensorDepthMapResourcesOfTypeImpl_def split: if_splits)
  have "for_each (mission_sensor_body vi_map flags t f) (mission_sensors vi_map t mission_ids) s
          = Next s'"
    using assms by (simp add: sensor_impl_flat [OF sup])
  then show ?thesis
    by (rule for_each_blocks [where tr = trace, rotated]) (rule mission_sensor_body_Next)
qed

section \<open>Missing depth maps\<close>

lemma resources_loop_Next:
  assumes "for_each (integrate_resource vi_map flags t f mid sid cam G C mn mx L tot arr poses)
             rs (idx, s) = Next st"
    and "j < length rs"
    and "\<not> (word_sless (arr ! (idx + j * unat L)) mn \<or> word_sless mx (arr ! (idx + j * unat L)))"
  shows "\<exists>depth_map. getSensorResource vi_map mid t sid (fst (rs ! j)) = Some depth_map"
  using assms
proof (induction rs arbitrary: idx s j)
  case Nil
  then show ?case by simp
next
  case (Cons r rs)
  let ?body = "integrate_resource vi_map flags t f mid sid cam G C mn mx L tot arr poses"
  define res where "res = ?body r (idx, s)"
  obtain idx1 s1 where nx: "res = Next (idx1, s1)"
    and rest: "for_each ?body rs (idx1, s1) = Next st"
    using Cons.prems(1) by (cases res) (auto simp: res_def)
  have idx1: "idx1 = idx + unat L"
    using integrate_resource_idx [of vi_map flags t f mid sid cam G C mn mx L tot arr poses r
        idx s idx1 s1] nx by (simp add: res_def)
  show ?case
  proof (cases j)
    case 0
    from res_def show ?thesis
    proof (cases rule: integrate_resource_shape)
      case (skip s1 vec)
      then show ?thesis using Cons.prems(3) 0 by simp
    next
      case (dispatch s1 vec depth_map)
      then show ?thesis using 0 by simp
    qed (use nx in auto)
  next
    case (Suc j')
    have "\<exists>depth_map. getSensorResource vi_map mid t sid (fst (rs ! j')) = Some depth_map"
    proof (rule Cons.IH [OF rest])
      show "j' < length rs" using Cons.prems(2) Suc by simp
      show "\<not> (word_sless (arr ! (idx1 + j' * unat L)) mn
                \<or> word_sless mx (arr ! (idx1 + j' * unat L)))"
        using Cons.prems(3) Suc idx1 by (simp add: algebra_simps)
    qed
    then show ?thesis using Suc by simp
  qed
qed

lemma not_skipped_if_inside:
  assumes "word_sle mn x" and "word_sle x mx"
  shows "\<not> (word_sless x mn \<or> word_sless mx x)"
  using assms by (auto simp: word_sle_eq word_sless_alt)

lemma resources_loop_Return_before:
  assumes "for_each (integrate_resource vi_map flags t f mid sid cam G C mn mx L tot arr poses)
             rs (idx, s) = Return st"
    and "j < length rs"
    and "\<not> (word_sless (arr ! (idx + j * unat L)) mn \<or> word_sless mx (arr ! (idx + j * unat L)))"
    and "getSensorResource vi_map mid t sid (fst (rs ! j)) = None"
  shows "enable_sigint_breaker flags \<and> (\<exists>i\<le>j. isBreakRequested flags (polls s + i))"
  using assms
proof (induction rs arbitrary: idx s j)
  case Nil
  then show ?case by simp
next
  case (Cons r rs)
  let ?body = "integrate_resource vi_map flags t f mid sid cam G C mn mx L tot arr poses"
  define res where "res = ?body r (idx, s)"
  show ?case
  proof (cases res)
    case (Return st1)
    then have "enable_sigint_breaker flags \<and> isBreakRequested flags (polls s)"
      using integrate_resource_Return [of vi_map flags t f mid sid cam G C mn mx L tot arr
          poses r idx s st1] by (simp add: res_def)
    then show ?thesis by (intro conjI exI [of _ 0]) simp_all
  next
    case (Fatal st1)
    then show ?thesis using Cons.prems(1) by (simp add: res_def)
  next
    case (Next st1)
    obtain idx1 s1 where st1: "st1 = (idx1, s1)" by (cases st1)
    have nx: "res = Next (idx1, s1)" using Next st1 by simp
    have rest: "for_each ?body rs (idx1, s1) = Return st"
      using Cons.prems(1) nx by (simp add: res_def)
    have idx1: "idx1 = idx + unat L"
      using integrate_resource_idx [of vi_map flags t f mid sid cam G C mn mx L tot arr poses r
          idx s idx1 s1] nx by (simp add: res_def)
    show ?thesis
    proof (cases j)
      case 0
      from res_def show ?thesis
      proof (cases rule: integrate_resource_shape)
        case (skip s1 vec)
        then show ?thesis using Cons.prems(3) 0 by simp
      next
        case (dispatch s1 vec depth_map)
        then show ?thesis using Cons.prems(4) 0 by simp
      qed (use nx in auto)
    next
      case (Suc j')
      have ih: "enable_sigint_breaker flags \<and> (\<exists>i\<le>j'. isBreakRequested flags (polls s1 + i))"
      proof (rule Cons.IH [OF rest])
        show "j' < length rs" using Cons.prems(2) Suc by simp
        show "\<not> (word_sless (arr ! (idx1 + j' * unat L)) mn
                  \<or> word_sless mx (arr ! (idx1 + j' * unat L)))"
          using Cons.prems(3) Suc idx1 by (simp add: algebra_simps)
        show "getSensorResource vi_map mid t sid (fst (rs ! j')) = None"
          using Cons.prems(4) Suc by simp
      qed
      then obtain i where i: "i \<le> j'" and b: "isBreakRequested flags (polls s1 + i)"
        by blast
      have "polls s1 = polls s + 1"
        using integrate_resource_polls [of flags vi_map t f mid sid cam G C mn mx L tot arr poses
            r idx s idx1 s1] ih nx by (simp add: res_def)
      then have "isBreakRequested flags (polls s + Suc i)" using b by simp
      moreover have "Suc i \<le> j" using i Suc by simp
      ultimately show ?thesis using ih by blast
    qed
  qed
qed

lemma integrate_sensor_missing:
  fixes vi_map :: "('t::{monoid_mult,inverse}, 'm) VIMap"
  assumes j: "j < length rs"
    and lo: "word_sle mn (fst (rs ! j) + timeshift_resource_to_imu_ns flags)"
    and hi: "word_sle (fst (rs ! j) + timeshift_resource_to_imu_ns flags) mx"
    and missing: "getSensorResource vi_map mid t sid (fst (rs ! j)) = None"
  shows "integrate_sensor vi_map flags t f mid G mn mx (sid, rs) s \<noteq> Next s'"
    and "integrate_sensor vi_map flags t f mid G mn mx (sid, rs) s = Return s'
           \<Longrightarrow> enable_sigint_breaker flags \<and> (\<exists>i\<le>j. isBreakRequested flags (polls s + i))"
proof -
  let ?res = "integrate_sensor vi_map flags t f mid G mn mx (sid, rs) s"
  have "?res \<noteq> Next s' \<and> (?res = Return s' \<longrightarrow>
          enable_sigint_breaker flags \<and> (\<exists>i\<le>j. isBreakRequested flags (polls s + i)))"
  proof (cases "getSensorType vi_map sid = kNCamera
             \<and> (\<exists>nc. getSensorPtr vi_map sid = Some nc \<and> getNumCameras nc = 1)")
    case False
    show ?thesis by (simp add: integrate_sensor_invalid [OF False])
  next
    case True
    then obtain nc where ty: "getSensorType vi_map sid = kNCamera"
      and nc: "getSensorPtr vi_map sid = Some nc" and one: "getNumCameras nc = 1"
      by blast
    define L where "L = num_lines_per_depth_map_of flags (getCamera nc 0)"
    show ?thesis
    proof (cases "length rs * unat L < 2 ^ 32")
      case False
      then show ?thesis
        using integrate_sensor_overflow [of rs flags nc vi_map sid t f mid G mn mx s] nc
        by (simp add: L_def)
    next
      case small: True
      define tot where "tot = (of_nat (length rs * unat L) :: uint32)"
      define tss where "tss = sensor_timestamps flags mn mx nc rs"
      define poses where "poses = sensor_poses vi_map flags mid mn mx nc rs"
      define s1 where "s1 = s\<lparr>trace := trace s @ [Interpolate mid tss]\<rparr>"
      define loop where
        "loop = for_each (integrate_resource vi_map flags t f mid sid (getCamera nc 0) G
                   (getSensor_T_B_S vi_map sid * inverse (get_T_C_B nc 0)) mn mx L tot tss poses)
                 rs (0, s1)"
      have res: "?res = (if length poses \<noteq> length rs * unat L then Fatal s1
                         else map_flow snd loop)"
        using integrate_sensor_checked [OF ty nc one, of rs flags t f mid G mn mx s] small
        by (simp add: L_def tot_def tss_def poses_def s1_def loop_def)
      have tot: "unat tot = length rs * unat L"
        using small by (simp add: tot_def total_number_of_poses_exact del: of_nat_mult)
      have inside: "\<not> (word_sless (tss ! (0 + j * unat L)) mn
                       \<or> word_sless mx (tss ! (0 + j * unat L)))" if k: "0 < unat L"
      proof -
        have "tss ! (j * unat L + 0)
                = std_max mn (std_min mx (fst (rs ! j) + timeshift_resource_to_imu_ns flags
                    + of_nat 0 * line_delay_ns_of flags (getCamera nc 0)))"
          unfolding tss_def L_def
          by (rule sensor_timestamps_nth) (use small j k in \<open>simp_all add: L_def\<close>)
        then have "tss ! (0 + j * unat L) = fst (rs ! j) + timeshift_resource_to_imu_ns flags"
          using clamp_id [OF lo hi] by simp
        then show ?thesis
          using not_skipped_if_inside [OF lo hi] by simp
      qed
      have first_fatal: "loop = Fatal (0, s1)" if "unat L = 0"
      proof -
        obtain r rs' where rs: "rs = r # rs'"
          using j by (cases rs) auto
        have "integrate_resource vi_map flags t f mid sid (getCamera nc 0) G
                 (getSensor_T_B_S vi_map sid * inverse (get_T_C_B nc 0)) mn mx L tot tss poses
                 r (0, s1) = Fatal (0, s1)"
          using tot that by (simp add: integrate_resource_def)
        then show ?thesis
          using rs by (simp add: loop_def)
      qed
      have not_next: "loop \<noteq> Next st" for st
      proof
        assume nx: "loop = Next st"
        show False
        proof (cases "unat L = 0")
          case True
          then show False using first_fatal nx by simp
        next
          case False
          then have k: "0 < unat L" by simp
          from resources_loop_Next [OF nx [unfolded loop_def] j inside [OF k]] missing
          show False by simp
        qed
      qed
      have ret: "enable_sigint_breaker flags \<and> (\<exists>i\<le>j. isBreakRequested flags (polls s + i))"
        if rt: "loop = Return st" for st
      proof (cases "unat L = 0")
        case True
        then show ?thesis using first_fatal rt by simp
      next
        case False
        then have k: "0 < unat L" by simp
        from resources_loop_Return_before [OF rt [unfolded loop_def] j inside [OF k] missing]
        show ?thesis by (simp add: s1_def)
      qed
      show ?thesis
      proof (cases "length poses \<noteq> length rs * unat L")
        case True
        then show ?thesis using res by simp
      next
        case False
        then have "?res = map_flow snd loop" using res by simp
        then show ?thesis
          using not_next ret by (cases loop) auto
      qed
    qed
  qed
  then show "?res \<noteq> Next s'"
    and "?res = Return s'
           \<Longrightarrow> enable_sigint_breaker flags \<and> (\<exists>i\<le>j. isBreakRequested flags (polls s + i))"
    by simp_all
qed

lemma is_Fatal_iff:
  "is_Fatal r \<longleftrightarrow> (\<forall>s'. r \<noteq> Next s') \<and> (\<forall>s'. r \<noteq> Return s')"
  by (cases r) auto

lemma for_each_is_Fatal:
  assumes x: "x \<in> set xs" and fatal: "\<And>s. is_Fatal (body x s)"
    and nr: "\<And>y s s'. body y s \<noteq> Return s'"
  shows "is_Fatal (for_each body xs s)"
  using x
proof (induction xs arbitrary: s)
  case Nil
  then show ?case by simp
next
  case (Cons y ys)
  show ?case
  proof (cases "body y s")
    case (Next s1)
    have "y \<noteq> x"
      using fatal [of s] Next by auto
    then have "x \<in> set ys" using Cons.prems by simp
    then show ?thesis using Cons.IH Next by simp
  next
    case (Return s1)
    then show ?thesis using nr by simp
  next
    case (Fatal s1)
    then show ?thesis by simp
  qed
qed

lemma for_each_not_Fatal:
  assumes "\<And>x s. x \<in> set xs \<Longrightarrow> \<not> is_Fatal (body x s)"
  shows "\<not> is_Fatal (for_each body xs s)"
  using assms
proof (induction xs arbitrary: s)
  case Nil
  then show ?case by simp
next
  case (Cons y ys)
  have "\<not> is_Fatal (body y s)" using Cons.prems by simp
  moreover have "\<not> is_Fatal (for_each body ys s1)" for s1
    using Cons.IH Cons.prems by simp
  ultimately show ?case by (cases "body y s") simp_all
qed

lemma sensor_impl_missing_Fatal:
  fixes vi_map :: "('t::{monoid_mult,inverse}, 'm) VIMap"
  assumes mid: "mid \<in> set mission_ids"
    and range: "getVertexToTimeStampMap vi_map mid = (False, mn, mx)"
    and sensors: "getAllSensorResourceIdsOfType vi_map mid t = Some sensors"
    and x: "(sid, rs) \<in> set sensors"
    and j: "j < length rs"
    and lo: "word_sle mn (fst (rs ! j) + timeshift_resource_to_imu_ns flags)"
    and hi: "word_sle (fst (rs ! j) + timeshift_resource_to_imu_ns flags) mx"
    and missing: "getSensorResource vi_map mid t sid (fst (rs ! j)) = None"
    and quiet: "\<not> enable_sigint_breaker flags \<or> (\<forall>i. \<not> isBreakRequested flags i)"
  shows "is_Fatal (integrateAllOptionalSensorDepthMapResourcesOfTypeImpl mission_ids t vi_map
           flags fo s)"
proof (cases fo)
  case None
  then show ?thesis
    by (simp add: integrateAllOptionalSensorDepthMapResourcesOfTypeImpl_def)
next
  case (Some f)
  show ?thesis
  proof (cases "t \<in> kSupportedDepthMapInputTypes")
    case False
    then show ?thesis
      using Some by (simp add: integrateAllOptionalSensorDepthMapResourcesOfTypeImpl_def)
  next
    case True
    have sensor_fatal: "is_Fatal (integrate_sensor vi_map flags t f mid (get_T_G_M vi_map mid)
                          mn mx (sid, rs) s0)" for s0
      using integrate_sensor_missing [OF j lo hi missing, of f "get_T_G_M vi_map mid" s0]
        quiet
      by (auto simp: is_Fatal_iff)
    have sensor_nr: "integrate_sensor vi_map flags t f m G0 mn0 mx0 y s0 \<noteq> Return s1"
      for m G0 mn0 mx0 y s0 s1
      using integrate_sensor_Return [of vi_map flags t f m G0 mn0 mx0 y s0 s1] quiet by auto
    have mission_fatal: "is_Fatal (integrate_sensor_mission vi_map flags t f mid s0)" for s0
    proof -
      have "is_Fatal (for_each (integrate_sensor vi_map flags t f mid (get_T_G_M vi_map mid)
                         mn mx) sensors s0)"
        by (rule for_each_is_Fatal [OF x]) (rule sensor_fatal, rule sensor_nr)
      then show ?thesis
        using range sensors by (simp add: integrate_sensor_mission_def)
    qed
    have mission_nr: "integrate_sensor_mission vi_map flags t f m s0 \<noteq> Return s1" for m s0 s1
      using integrate_sensor_mission_Return [of vi_map flags t f m s0 s1] quiet by auto
    have "is_Fatal (for_each (integrate_sensor_mission vi_map flags t f) mission_ids s)"
      by (rule for_each_is_Fatal [OF mid]) (rule mission_fatal, rule mission_nr)
    then show ?thesis
      using Some True by (simp add: integrateAllOptionalSensorDepthMapResourcesOfTypeImpl_def)
  qed
qed

lemma integrate_frame_not_Fatal:
  assumes "t \<in> kSupportedDepthMapInputTypes"
    and "\<And>vec depth_map img cam st. f vec depth_map img cam st \<noteq> None"
  shows "\<not> is_Fatal (integrate_frame vi_map t f nc T_B_Cn T_G_B v k s)"
proof (cases "getFrameResource vi_map v k t")
  case None
  then show ?thesis by (simp add: integrate_frame_supported [OF assms(1)])
next
  case (Some depth_map)
  obtain st where "f [T_G_B * (T_B_Cn * inverse (get_T_C_B nc k))] depth_map
      (frame_companion_image vi_map v k) (getCamera nc k) (fusion s) = Some st"
    using assms(2) [of "[T_G_B * (T_B_Cn * inverse (get_T_C_B nc k))]" depth_map
        "frame_companion_image vi_map v k" "getCamera nc k" "fusion s"]
    by (cases "f [T_G_B * (T_B_Cn * inverse (get_T_C_B nc k))] depth_map
      (frame_companion_image vi_map v k) (getCamera nc k) (fusion s)") auto
  then show ?thesis
    using Some
    by (simp add: integrate_frame_supported [OF assms(1)] call_integration_function_def Let_def)
qed

lemma frame_impl_not_Fatal:
  fixes vi_map :: "('t::{monoid_mult,inverse}, 'm) VIMap"
    and s :: "('t, 'm, 'st) run_state"
  assumes sup: "t \<in> kSupportedDepthMapInputTypes"
    and total: "\<And>vec depth_map img cam st. f vec depth_map img cam st \<noteq> None"
  shows "\<not> is_Fatal (integrateAllFrameDepthMapResourcesOfTypeImpl mission_ids t vi_map flags
            (Some f) s)"
proof -
  have vertex: "\<not> is_Fatal (integrate_vertex vi_map flags t f nc T_B_Cn G v s0)"
    for nc T_B_Cn G v and s0 :: "('t, 'm, 'st) run_state"
  proof (cases "check_sigint flags s0")
    case (Inl s1)
    then show ?thesis by (simp add: integrate_vertex_def)
  next
    case (Inr s1)
    have "\<not> is_Fatal (for_each (integrate_frame vi_map t f nc T_B_Cn (G * get_T_M_I vi_map v) v)
             [0..<numFrames vi_map v] s1)"
      by (rule for_each_not_Fatal) (rule integrate_frame_not_Fatal [OF sup total])
    then show ?thesis using Inr by (simp add: integrate_vertex_def Let_def)
  qed
  have mission: "\<not> is_Fatal (integrate_frame_mission vi_map flags t f mid s0)"
    for mid and s0 :: "('t, 'm, 'st) run_state"
  proof (cases "hasNCamera vi_map mid")
    case False
    then show ?thesis by (simp add: integrate_frame_mission_def)
  next
    case True
    have "\<not> is_Fatal (for_each (integrate_vertex vi_map flags t f
              (getSensor vi_map (getNCameraId vi_map mid))
              (getSensor_T_B_S vi_map (getNCameraId vi_map mid)) (get_T_G_M vi_map mid))
            (getAllVertexIdsInMissionAlongGraph vi_map mid) s0)"
      by (rule for_each_not_Fatal) (rule vertex)
    then show ?thesis using True by (simp add: integrate_frame_mission_def Let_def)
  qed
  have "\<not> is_Fatal (for_each (integrate_frame_mission vi_map flags t f) mission_ids s)"
    by (rule for_each_not_Fatal) (rule mission)
  then show ?thesis
    using sup by (simp add: integrateAllFrameDepthMapResourcesOfTypeImpl_def)
qed

text \<open>
  Claim C5. Frame-attached path: if the depth map of a frame is missing, the loop over the frames
  of the vertex goes on with the remaining frames from the unchanged state, so that nothing is
  dispatched for the frame and nothing fails; a whole run with a supported type and an
  integration function that does not abort never ends in an abort, whichever depth maps are
  missing; every dispatch of a whole run carries the depth map that the lookup of a frame
  returned; and a frame without a depth map leaves no event in the trace of a run that ends
  normally, which holds, for each vertex in turn, the poll and the dispatches of the frames
  that have a depth map. Free-running path: if the depth map of a resource of the buffer is
  missing and its shifted timestamp lies in the range of the trajectory, the processing of the
  sensor never ends normally, and it returns early only if the breaker is enabled and the break flag was seen at
  the poll of that resource or of one before it; in every other case, in particular with the
  breaker disabled and with the flag not set at these polls, it aborts. No dispatch of the
  sensor is for that resource. A whole run over a mission that has such a resource aborts, if
  the breaker is disabled or the break flag is never set.
\<close>

theorem missing_depth_map:
  fixes vi_map :: "('t::{monoid_mult,inverse}, 'm) VIMap"
    and s :: "('t, 'm, 'st) run_state"
  shows "(t \<in> kSupportedDepthMapInputTypes \<and> getFrameResource vi_map v k t = None
            \<longrightarrow> for_each (integrate_frame vi_map t f nc T_B_Cn T_G_B v) (k # ks) s
                  = for_each (integrate_frame vi_map t f nc T_B_Cn T_G_B v) ks s)
       \<and> (t \<in> kSupportedDepthMapInputTypes
            \<and> (\<forall>vec depth_map img cam st. f vec depth_map img cam st \<noteq> None)
            \<longrightarrow> \<not> is_Fatal (integrateAllFrameDepthMapResourcesOfTypeImpl mission_ids t vi_map
                              flags (Some f) s))
       \<and> (\<forall>vec depth_map img cam.
              Dispatch vec depth_map img cam \<in> set (trace (state_of
                 (integrateAllFrameDepthMapResourcesOfTypeImpl mission_ids t vi_map flags fo s)))
              \<and> Dispatch vec depth_map img cam \<notin> set (trace s)
              \<longrightarrow> (\<exists>mid\<in>set mission_ids.
                     \<exists>v\<in>set (getAllVertexIdsInMissionAlongGraph vi_map mid).
                     \<exists>k<numFrames vi_map v. getFrameResource vi_map v k t = Some depth_map))
       \<and> (getFrameResource vi_map v k t = None
            \<longrightarrow> frame_events vi_map t nc T_B_Cn T_G_B v k = [])
       \<and> (integrateAllFrameDepthMapResourcesOfTypeImpl mission_ids t vi_map flags (Some f) s
            = Next s'
            \<longrightarrow> trace s' = trace s @ concat (map (vertex_events vi_map flags t)
                                              (frame_vertices vi_map mission_ids)))
       \<and> (j < length rs
            \<and> word_sle mn (fst (rs ! j) + timeshift_resource_to_imu_ns flags)
            \<and> word_sle (fst (rs ! j) + timeshift_resource_to_imu_ns flags) mx
            \<and> getSensorResource vi_map mid t sid (fst (rs ! j)) = None
            \<longrightarrow> (\<forall>s'. integrate_sensor vi_map flags t f mid G mn mx (sid, rs) s \<noteq> Next s')
                \<and> (\<forall>s'. integrate_sensor vi_map flags t f mid G mn mx (sid, rs) s = Return s'
                      \<longrightarrow> enable_sigint_breaker flags
                          \<and> (\<exists>i\<le>j. isBreakRequested flags (polls s + i)))
                \<and> (\<not> enable_sigint_breaker flags
                      \<or> (\<forall>i\<le>j. \<not> isBreakRequested flags (polls s + i))
                      \<longrightarrow> is_Fatal (integrate_sensor vi_map flags t f mid G mn mx (sid, rs) s))
                \<and> (\<forall>vec depth_map img cam.
                      Dispatch vec depth_map img cam \<in> set (trace (state_of
                         (integrate_sensor vi_map flags t f mid G mn mx (sid, rs) s)))
                      \<and> Dispatch vec depth_map img cam \<notin> set (trace s)
                      \<longrightarrow> (\<exists>j'<length rs. j' \<noteq> j
                              \<and> getSensorResource vi_map mid t sid (fst (rs ! j'))
                                   = Some depth_map)))
       \<and> (mid \<in> set mission_ids
            \<and> getVertexToTimeStampMap vi_map mid = (False, mn, mx)
            \<and> getAllSensorResourceIdsOfType vi_map mid t = Some sensors
            \<and> (sid, rs) \<in> set sensors
            \<and> j < length rs
            \<and> word_sle mn (fst (rs ! j) + timeshift_resource_to_imu_ns flags)
            \<and> word_sle (fst (rs ! j) + timeshift_resource_to_imu_ns flags) mx
            \<and> getSensorResource vi_map mid t sid (fst (rs ! j)) = None
            \<and> (\<not> enable_sigint_breaker flags \<or> (\<forall>i. \<not> isBreakRequested flags i))
            \<longrightarrow> is_Fatal (integrateAllOptionalSensorDepthMapResourcesOfTypeImpl mission_ids t
                            vi_map flags fo s))"
proof (intro conjI impI allI)
  assume "t \<in> kSupportedDepthMapInputTypes \<and> getFrameResource vi_map v k t = None"
  then have "integrate_frame vi_map t f nc T_B_Cn T_G_B v k s = Next s"
    using integrate_frame_supported [of t vi_map f nc T_B_Cn T_G_B v k s] by simp
  then show "for_each (integrate_frame vi_map t f nc T_B_Cn T_G_B v) (k # ks) s
                  = for_each (integrate_frame vi_map t f nc T_B_Cn T_G_B v) ks s"
    by simp
next
  assume a: "t \<in> kSupportedDepthMapInputTypes
            \<and> (\<forall>vec depth_map img cam st. f vec depth_map img cam st \<noteq> None)"
  show "\<not> is_Fatal (integrateAllFrameDepthMapResourcesOfTypeImpl mission_ids t vi_map
                              flags (Some f) s)"
    by (rule frame_impl_not_Fatal) (use a in simp_all)
next
  fix vec depth_map img cam
  assume e: "Dispatch vec depth_map img cam \<in> set (trace (state_of
                 (integrateAllFrameDepthMapResourcesOfTypeImpl mission_ids t vi_map flags fo s)))
              \<and> Dispatch vec depth_map img cam \<notin> set (trace s)"
  from frame_impl_dispatch [OF e [THEN conjunct1] e [THEN conjunct2]]
  show "\<exists>mid\<in>set mission_ids.
                     \<exists>v\<in>set (getAllVertexIdsInMissionAlongGraph vi_map mid).
                     \<exists>k<numFrames vi_map v. getFrameResource vi_map v k t = Some depth_map"
    by blast
next
  assume "getFrameResource vi_map v k t = None"
  then show "frame_events vi_map t nc T_B_Cn T_G_B v k = []"
    by (simp add: frame_events_def)
next
  assume "integrateAllFrameDepthMapResourcesOfTypeImpl mission_ids t vi_map flags (Some f) s
            = Next s'"
  then show "trace s' = trace s @ concat (map (vertex_events vi_map flags t)
                                              (frame_vertices vi_map mission_ids))"
    by (rule frame_impl_Next)
next
  fix s'
  assume a: "j < length rs
            \<and> word_sle mn (fst (rs ! j) + timeshift_resource_to_imu_ns flags)
            \<and> word_sle (fst (rs ! j) + timeshift_resource_to_imu_ns flags) mx
            \<and> getSensorResource vi_map mid t sid (fst (rs ! j)) = None"
  show "integrate_sensor vi_map flags t f mid G mn mx (sid, rs) s \<noteq> Next s'"
    by (rule integrate_sensor_missing(1)
        [OF a [THEN conjunct1] a [THEN conjunct2, THEN conjunct1]
          a [THEN conjunct2, THEN conjunct2, THEN conjunct1]
          a [THEN conjunct2, THEN conjunct2, THEN conjunct2]])
next
  fix s'
  assume a: "j < length rs
            \<and> word_sle mn (fst (rs ! j) + timeshift_resource_to_imu_ns flags)
            \<and> word_sle (fst (rs ! j) + timeshift_resource_to_imu_ns flags) mx
            \<and> getSensorResource vi_map mid t sid (fst (rs ! j)) = None"
    and r: "integrate_sensor vi_map flags t f mid G mn mx (sid, rs) s = Return s'"
  note m = integrate_sensor_missing(2)
        [OF a [THEN conjunct1] a [THEN conjunct2, THEN conjunct1]
          a [THEN conjunct2, THEN conjunct2, THEN conjunct1]
          a [THEN conjunct2, THEN conjunct2, THEN conjunct2] r]
  from m show "enable_sigint_breaker flags" by (rule conjunct1)
  from m show "\<exists>i\<le>j. isBreakRequested flags (polls s + i)" by (rule conjunct2)
next
  assume a: "j < length rs
            \<and> word_sle mn (fst (rs ! j) + timeshift_resource_to_imu_ns flags)
            \<and> word_sle (fst (rs ! j) + timeshift_resource_to_imu_ns flags) mx
            \<and> getSensorResource vi_map mid t sid (fst (rs ! j)) = None"
    and quiet: "\<not> enable_sigint_breaker flags
                  \<or> (\<forall>i\<le>j. \<not> isBreakRequested flags (polls s + i))"
  have "integrate_sensor vi_map flags t f mid G mn mx (sid, rs) s \<noteq> Next s'" for s'
    by (rule integrate_sensor_missing(1)
        [OF a [THEN conjunct1] a [THEN conjunct2, THEN conjunct1]
          a [THEN conjunct2, THEN conjunct2, THEN conjunct1]
          a [THEN conjunct2, THEN conjunct2, THEN conjunct2]])
  moreover have "integrate_sensor vi_map flags t f mid G mn mx (sid, rs) s \<noteq> Return s'" for s'
    using quiet integrate_sensor_missing(2)
        [OF a [THEN conjunct1] a [THEN conjunct2, THEN conjunct1]
          a [THEN conjunct2, THEN conjunct2, THEN conjunct1]
          a [THEN conjunct2, THEN conjunct2, THEN conjunct2], of f G s s']
    by auto
  ultimately show "is_Fatal (integrate_sensor vi_map flags t f mid G mn mx (sid, rs) s)"
    by (simp add: is_Fatal_iff)
next
  fix vec depth_map img cam
  assume a: "j < length rs
            \<and> word_sle mn (fst (rs ! j) + timeshift_resource_to_imu_ns flags)
            \<and> word_sle (fst (rs ! j) + timeshift_resource_to_imu_ns flags) mx
            \<and> getSensorResource vi_map mid t sid (fst (rs ! j)) = None"
    and e: "Dispatch vec depth_map img cam \<in> set (trace (state_of
                         (integrate_sensor vi_map flags t f mid G mn mx (sid, rs) s)))
                      \<and> Dispatch vec depth_map img cam \<notin> set (trace s)"
  from integrate_sensor_dispatch [OF e [THEN conjunct1] e [THEN conjunct2]]
  obtain j' where j': "j' < length rs"
    and d: "getSensorResource vi_map mid t sid (fst (rs ! j')) = Some depth_map"
    by blast
  have "j' \<noteq> j"
    using a d by auto
  with j' d show "\<exists>j'<length rs. j' \<noteq> j
                    \<and> getSensorResource vi_map mid t sid (fst (rs ! j')) = Some depth_map"
    by blast
next
  assume a: "mid \<in> set mission_ids
            \<and> getVertexToTimeStampMap vi_map mid = (False, mn, mx)
            \<and> getAllSensorResourceIdsOfType vi_map mid t = Some sensors
            \<and> (sid, rs) \<in> set sensors
            \<and> j < length rs
            \<and> word_sle mn (fst (rs ! j) + timeshift_resource_to_imu_ns flags)
            \<and> word_sle (fst (rs ! j) + timeshift_resource_to_imu_ns flags) mx
            \<and> getSensorResource vi_map mid t sid (fst (rs ! j)) = None
            \<and> (\<not> enable_sigint_breaker flags \<or> (\<forall>i. \<not> isBreakRequested flags i))"
  show "is_Fatal (integrateAllOptionalSensorDepthMapResourcesOfTypeImpl mission_ids t
                            vi_map flags fo s)"
    by (rule sensor_impl_missing_Fatal [where mid = mid and mn = mn and mx = mx
          and sensors = sensors and sid = sid and rs = rs and j = j])
      (use a in simp_all)
qed

lemma ex_frame_dispatched:
  "Dispatch [105 / 2] 100 None ex_camera \<in> set (trace (state_of
      (integrateAllFrameDepthMapResourcesOfTypeImpl [0] kRawDepthMap ex_map ex_flags
         (Some ex_integrate) ex_state)))
   \<and> Dispatch [105 / 2] 100 None ex_camera \<notin> set (trace ex_state)"
  by (rule conjI) (simp add: ex_frame_run, simp add: ex_state_def)

theorem missing_depth_map_witness:
  "kRawDepthMap \<in> kSupportedDepthMapInputTypes
   \<and> getFrameResource ex_map 5 0 kRawDepthMap = None
   \<and> for_each (integrate_frame ex_map kRawDepthMap ex_integrate ex_stereo 3 55 5) [0, 1] ex_state
       = for_each (integrate_frame ex_map kRawDepthMap ex_integrate ex_stereo 3 55 5) [1] ex_state
   \<and> \<not> is_Fatal (integrateAllFrameDepthMapResourcesOfTypeImpl [0] kRawDepthMap ex_map ex_flags
          (Some ex_integrate) ex_state)
   \<and> (\<exists>mid\<in>set [0]. \<exists>v\<in>set (getAllVertexIdsInMissionAlongGraph ex_map mid).
         \<exists>k<numFrames ex_map v. getFrameResource ex_map v k kRawDepthMap = Some 100)
   \<and> frame_events ex_map kRawDepthMap ex_stereo 3 55 5 0 = []
   \<and> concat (map (vertex_events ex_map ex_flags kRawDepthMap) (frame_vertices ex_map [0]))
     = [Poll, Dispatch [105 / 2] 100 None ex_camera,
        Dispatch [105 / 4] 101 (Some 300) ex_camera, Poll]
   \<and> (0 :: nat) < length [(700 :: int64, 9 :: nat)]
   \<and> word_sle (0 :: int64) (fst ([(700 :: int64, 9 :: nat)] ! 0)
        + timeshift_resource_to_imu_ns ex_flags_disabled)
   \<and> word_sle (fst ([(700 :: int64, 9 :: nat)] ! 0)
        + timeshift_resource_to_imu_ns ex_flags_disabled) (1000 :: int64)
   \<and> getSensorResource ex_map 0 kRawDepthMap 0 (fst ([(700 :: int64, 9 :: nat)] ! 0)) = None
   \<and> \<not> enable_sigint_breaker ex_flags_disabled
   \<and> is_Fatal (integrate_sensor ex_map ex_flags_disabled kRawDepthMap ex_integrate 0 5 0 1000
        (0, [(700, 9)]) ex_state)
   \<and> enable_sigint_breaker ex_flags
   \<and> \<not> isBreakRequested ex_flags (polls ex_state + 0)
   \<and> is_Fatal (integrate_sensor ex_map ex_flags kRawDepthMap ex_integrate 0 5 0 1000
        (0, [(700, 9)]) ex_state)
   \<and> (0 :: nat) \<in> set [0]
   \<and> getVertexToTimeStampMap ex_map_missing 0 = (False, 0, 1000)
   \<and> getAllSensorResourceIdsOfType ex_map_missing 0 kRawDepthMap = Some [(0, [(700, 9)])]
   \<and> getSensorResource ex_map_missing 0 kRawDepthMap 0 (fst ([(700 :: int64, 9 :: nat)] ! 0)) = None
   \<and> is_Fatal (integrateAllOptionalSensorDepthMapResourcesOfTypeImpl [0] kRawDepthMap
        ex_map_missing ex_flags (Some ex_integrate) ex_state)"
proof -
  have sup: "kRawDepthMap \<in> kSupportedDepthMapInputTypes"
    by (simp add: kSupportedDepthMapInputTypes_def)
  have d1: "getFrameResource ex_map 5 0 kRawDepthMap = None"
    by (simp add: ex_map_def)
  have total: "\<forall>vec depth_map img cam st. ex_integrate vec depth_map img cam st \<noteq> None"
    by (simp add: ex_integrate_def)
  have j: "(0 :: nat) < length [(700 :: int64, 9 :: nat)]"
    by simp
  have lo: "word_sle (0 :: int64) (fst ([(700 :: int64, 9 :: nat)] ! 0)
        + timeshift_resource_to_imu_ns ex_flags_disabled)"
    by (simp add: ex_flags_disabled_def word_sle_eq)
  have hi: "word_sle (fst ([(700 :: int64, 9 :: nat)] ! 0)
        + timeshift_resource_to_imu_ns ex_flags_disabled) (1000 :: int64)"
    by (simp add: ex_flags_disabled_def word_sle_eq)
  have lo': "word_sle (0 :: int64) (fst ([(700 :: int64, 9 :: nat)] ! 0)
        + timeshift_resource_to_imu_ns ex_flags)"
    by (simp add: ex_flags_def word_sle_eq)
  have hi': "word_sle (fst ([(700 :: int64, 9 :: nat)] ! 0)
        + timeshift_resource_to_imu_ns ex_flags) (1000 :: int64)"
    by (simp add: ex_flags_def word_sle_eq)
  have d2: "getSensorResource ex_map 0 kRawDepthMap 0 (fst ([(700 :: int64, 9 :: nat)] ! 0)) = None"
    by (simp add: ex_map_def)
  have off: "\<not> enable_sigint_breaker ex_flags_disabled"
    by (simp add: ex_flags_disabled_def)
  have en: "enable_sigint_breaker ex_flags"
    by (simp add: ex_flags_def)
  have quiet0: "\<not> isBreakRequested ex_flags (polls ex_state + 0)"
    by (simp add: ex_flags_def)
  have quiet: "\<not> enable_sigint_breaker ex_flags
                 \<or> (\<forall>i\<le>0. \<not> isBreakRequested ex_flags (polls ex_state + i))"
    by (simp add: ex_flags_def)
  have never: "\<not> enable_sigint_breaker ex_flags \<or> (\<forall>i. \<not> isBreakRequested ex_flags i)"
    by (simp add: ex_flags_def)
  have m: "(0 :: nat) \<in> set [0]"
    by simp
  have range: "getVertexToTimeStampMap ex_map_missing 0 = (False, 0, 1000)"
    by (simp add: ex_map_missing_def ex_map_def)
  have sensors: "getAllSensorResourceIdsOfType ex_map_missing 0 kRawDepthMap
                   = Some [(0, [(700, 9)])]"
    by (simp add: ex_map_missing_def)
  have x: "(0 :: nat, [(700 :: int64, 9 :: nat)]) \<in> set [(0, [(700, 9)])]"
    by simp
  have d3: "getSensorResource ex_map_missing 0 kRawDepthMap 0
              (fst ([(700 :: int64, 9 :: nat)] ! 0)) = None"
    by (simp add: ex_map_missing_def ex_map_def)
  note w1 = missing_depth_map [where vi_map = ex_map and t = kRawDepthMap and v = 5 and k = 0
      and f = ex_integrate and nc = ex_stereo and T_B_Cn = 3 and T_G_B = 55 and ks = "[1]"
      and s = ex_state, THEN conjunct1, THEN mp, OF conjI [OF sup d1]]
  note w2 = missing_depth_map [where vi_map = ex_map and t = kRawDepthMap and f = ex_integrate
      and mission_ids = "[0]" and flags = ex_flags and s = ex_state,
      THEN conjunct2, THEN conjunct1, THEN mp, OF conjI [OF sup total]]
  note w3 = missing_depth_map [where vi_map = ex_map and t = kRawDepthMap
      and mission_ids = "[0]" and flags = ex_flags and fo = "Some ex_integrate" and s = ex_state,
      THEN conjunct2, THEN conjunct2, THEN conjunct1, THEN spec, THEN spec, THEN spec, THEN spec,
      THEN mp, OF ex_frame_dispatched]
  note w3b = missing_depth_map [where vi_map = ex_map and t = kRawDepthMap and v = 5 and k = 0
      and nc = ex_stereo and T_B_Cn = 3 and T_G_B = 55,
      THEN conjunct2, THEN conjunct2, THEN conjunct2, THEN conjunct1, THEN mp, OF d1]
  note w3c = missing_depth_map [where vi_map = ex_map and t = kRawDepthMap and f = ex_integrate
      and mission_ids = "[0]" and flags = ex_flags and s = ex_state,
      THEN conjunct2, THEN conjunct2, THEN conjunct2, THEN conjunct2, THEN conjunct1, THEN mp,
      OF ex_frame_run]
  have c3c: "concat (map (vertex_events ex_map ex_flags kRawDepthMap) (frame_vertices ex_map [0]))
     = [Poll, Dispatch [105 / 2] 100 None ex_camera,
        Dispatch [105 / 4] 101 (Some 300) ex_camera, Poll]"
    using w3c [symmetric] by (simp add: ex_state_def)
  note w4 = missing_depth_map [where vi_map = ex_map and t = kRawDepthMap and j = 0
      and rs = "[(700, 9)]" and mn = 0 and mx = 1000 and flags = ex_flags_disabled and mid = 0
      and sid = 0 and f = ex_integrate and G = 5 and s = ex_state,
      THEN conjunct2, THEN conjunct2, THEN conjunct2, THEN conjunct2, THEN conjunct2,
      THEN conjunct1, THEN mp,
      OF conjI [OF j conjI [OF lo conjI [OF hi d2]]],
      THEN conjunct2, THEN conjunct2, THEN conjunct1, THEN mp, OF disjI1 [OF off]]
  note w5 = missing_depth_map [where vi_map = ex_map and t = kRawDepthMap and j = 0
      and rs = "[(700, 9)]" and mn = 0 and mx = 1000 and flags = ex_flags and mid = 0
      and sid = 0 and f = ex_integrate and G = 5 and s = ex_state,
      THEN conjunct2, THEN conjunct2, THEN conjunct2, THEN conjunct2, THEN conjunct2,
      THEN conjunct1, THEN mp,
      OF conjI [OF j conjI [OF lo' conjI [OF hi' d2]]],
      THEN conjunct2, THEN conjunct2, THEN conjunct1, THEN mp, OF quiet]
  note w6 = missing_depth_map [where vi_map = ex_map_missing and t = kRawDepthMap and j = 0
      and rs = "[(700, 9)]" and mn = 0 and mx = 1000 and flags = ex_flags and mid = 0
      and sid = 0 and sensors = "[(0, [(700, 9)])]" and mission_ids = "[0]"
      and fo = "Some ex_integrate" and s = ex_state,
      THEN conjunct2, THEN conjunct2, THEN conjunct2, THEN conjunct2, THEN conjunct2,
      THEN conjunct2, THEN mp,
      OF conjI [OF m conjI [OF range conjI [OF sensors conjI [OF x conjI [OF j
           conjI [OF lo' conjI [OF hi' conjI [OF d3 never]]]]]]]]]
  show ?thesis
    by (intro conjI sup d1 w1 w2 w3 w3b c3c j lo hi d2 off w4 en quiet0 w5 m range sensors d3 w6)
qed

section \<open>Cancellation\<close>

lemma frame_impl_cancelled:
  fixes vi_map :: "('t::{monoid_mult,inverse}, 'm) VIMap"
    and s :: "('t, 'm, 'st) run_state"
  assumes en: "enable_sigint_breaker flags"
    and sup: "t \<in> kSupportedDepthMapInputTypes"
    and n: "n < length (frame_vertices vi_map mission_ids)"
    and quiet: "\<forall>i<n. \<not> isBreakRequested flags (polls s + i)"
    and seen: "isBreakRequested flags (polls s + n)"
    and pre: "for_each (frame_vertex_body vi_map flags t f)
                (take n (frame_vertices vi_map mission_ids)) s = Next s'"
  shows "integrateAllFrameDepthMapResourcesOfTypeImpl mission_ids t vi_map flags (Some f) s
           = Return (s'\<lparr>trace := trace s' @ [Poll, WarningAborted], polls := polls s' + 1\<rparr>)"
    and "trace s' = trace s @ concat (map (vertex_events vi_map flags t)
                                        (take n (frame_vertices vi_map mission_ids)))"
    and "polls s' = polls s + n"
proof -
  have "polls s' = polls s + n
      \<and> for_each (frame_vertex_body vi_map flags t f) (frame_vertices vi_map mission_ids) s
          = Return (s'\<lparr>trace := trace s' @ [Poll, WarningAborted], polls := polls s' + 1\<rparr>)"
  proof (rule for_each_cancelled [where ok = "\<lambda>_. True" and brk = "isBreakRequested flags"
        and pc = polls
        and cancel = "\<lambda>s. s\<lparr>trace := trace s @ [Poll, WarningAborted], polls := polls s + 1\<rparr>"])
    show "frame_vertex_body vi_map flags t f x s0
            = Return (s0\<lparr>trace := trace s0 @ [Poll, WarningAborted], polls := polls s0 + 1\<rparr>)"
      if "isBreakRequested flags (polls s0)" for x s0
      unfolding frame_vertex_body_def
      using en that by (intro integrate_vertex_cancel) simp_all
    show "polls s1 = polls s0 + 1"
      if "frame_vertex_body vi_map flags t f x s0 = Next s1" for x s0 s1
      using en that unfolding frame_vertex_body_def by (rule integrate_vertex_polls)
  qed (use n quiet seen pre in simp_all)
  then show "integrateAllFrameDepthMapResourcesOfTypeImpl mission_ids t vi_map flags (Some f) s
           = Return (s'\<lparr>trace := trace s' @ [Poll, WarningAborted], polls := polls s' + 1\<rparr>)"
    and "polls s' = polls s + n"
    by (simp_all add: frame_impl_flat [OF sup])
  show "trace s' = trace s @ concat (map (vertex_events vi_map flags t)
                                        (take n (frame_vertices vi_map mission_ids)))"
    using pre by (rule for_each_blocks [where tr = trace, rotated]) (rule frame_vertex_body_Next)
qed

lemma sensor_impl_cancelled:
  fixes vi_map :: "('t::{monoid_mult,inverse}, 'm) VIMap"
    and s :: "('t, 'm, 'st) run_state"
  assumes en: "enable_sigint_breaker flags"
    and sup: "t \<in> kSupportedDepthMapInputTypes"
    and k: "k < length (mission_sensors vi_map t mission_ids)"
    and item: "mission_sensors vi_map t mission_ids ! k = (mid, sid, rs)"
    and range: "getVertexToTimeStampMap vi_map mid = (e, mn, mx)"
    and sensors: "for_each (mission_sensor_body vi_map flags t f)
                    (take k (mission_sensors vi_map t mission_ids)) s = Next s1"
    and ty: "getSensorType vi_map sid = kNCamera"
    and nc: "getSensorPtr vi_map sid = Some nc"
    and one: "getNumCameras nc = 1"
    and lines: "0 < unat (num_lines_per_depth_map_of flags (getCamera nc 0))"
    and small: "length rs * unat (num_lines_per_depth_map_of flags (getCamera nc 0)) < 2 ^ 32"
    and len: "length (sensor_poses vi_map flags mid mn mx nc rs)
                = length rs * unat (num_lines_per_depth_map_of flags (getCamera nc 0))"
    and n: "n < length rs"
    and quiet: "\<forall>i<n. \<not> isBreakRequested flags (polls s1 + i)"
    and seen: "isBreakRequested flags (polls s1 + n)"
    and pre: "for_each
                (sensor_resource_body vi_map flags t f mid (get_T_G_M vi_map mid) mn mx sid nc rs)
                (take n rs)
                (0, s1\<lparr>trace := trace s1 @
                         [Interpolate mid (sensor_timestamps flags mn mx nc rs)]\<rparr>)
              = Next (idx', s')"
  shows "integrateAllOptionalSensorDepthMapResourcesOfTypeImpl mission_ids t vi_map flags
           (Some f) s
           = Return (s'\<lparr>trace := trace s' @ [Poll, WarningAborted], polls := polls s' + 1\<rparr>)"
    and "trace s' = trace s
           @ concat (map (sensor_events vi_map flags t)
                       (take k (mission_sensors vi_map t mission_ids)))
           @ sensor_resources_events vi_map flags t mid (get_T_G_M vi_map mid) mn mx sid nc rs
               (take n rs)"
    and "polls s' = polls s1 + n"
proof -
  define L where "L = num_lines_per_depth_map_of flags (getCamera nc 0)"
  define tot where "tot = (of_nat (length rs * unat L) :: uint32)"
  define G where "G = get_T_G_M vi_map mid"
  define s2 where
    "s2 = s1\<lparr>trace := trace s1 @ [Interpolate mid (sensor_timestamps flags mn mx nc rs)]\<rparr>"
  let ?body = "sensor_resource_body vi_map flags t f mid G mn mx sid nc rs"
  have tot: "unat tot = length rs * unat L"
    using small by (simp add: tot_def L_def total_number_of_poses_exact del: of_nat_mult)
  have pre': "for_each ?body (take n rs) (0, s2) = Next (idx', s')"
    using pre by (simp add: G_def s2_def)
  from resources_loop_Next_trace [OF pre' [unfolded sensor_resource_body_def]]
  have idx': "idx' = n * unat L"
    and tr: "trace s' = trace s2
               @ resources_events vi_map flags t mid sid (getCamera nc 0) G
                   (getSensor_T_B_S vi_map sid * inverse (get_T_C_B nc 0)) mn mx L
                   (sensor_timestamps flags mn mx nc rs)
                   (sensor_poses vi_map flags mid mn mx nc rs) 0 (take n rs)"
    using n by (simp_all add: L_def min_def)
  have "n * unat L < length rs * unat L"
    using n lines by (simp add: L_def)
  then have lt: "idx' < unat tot"
    using idx' tot by simp
  have loop: "(polls \<circ> snd) (idx', s') = (polls \<circ> snd) (0 :: nat, s2) + n
      \<and> for_each ?body rs (0, s2)
          = Return ((\<lambda>st. (fst st, (snd st)\<lparr>trace := trace (snd st) @ [Poll, WarningAborted],
                                              polls := polls (snd st) + 1\<rparr>)) (idx', s'))"
  proof (rule for_each_cancelled [where ok = "\<lambda>st. fst st < unat tot"
        and brk = "isBreakRequested flags" and pc = "polls \<circ> snd"
        and cancel = "\<lambda>st. (fst st, (snd st)\<lparr>trace := trace (snd st) @ [Poll, WarningAborted],
                                              polls := polls (snd st) + 1\<rparr>)"])
    show "?body x st
            = Return (fst st, (snd st)\<lparr>trace := trace (snd st) @ [Poll, WarningAborted],
                                       polls := polls (snd st) + 1\<rparr>)"
      if "fst st < unat tot" "isBreakRequested flags ((polls \<circ> snd) st)" for x st
      using en that
        integrate_resource_cancel [of flags "snd st" "fst st" tot vi_map t f mid sid
          "getCamera nc 0" G "getSensor_T_B_S vi_map sid * inverse (get_T_C_B nc 0)" mn mx L
          "sensor_timestamps flags mn mx nc rs" "sensor_poses vi_map flags mid mn mx nc rs" x]
      by (simp add: sensor_resource_body_def L_def tot_def)
    show "(polls \<circ> snd) st1 = (polls \<circ> snd) st + 1" if "?body x st = Next st1" for x st st1
      using en that
        integrate_resource_polls [of flags vi_map t f mid sid
          "getCamera nc 0" G "getSensor_T_B_S vi_map sid * inverse (get_T_C_B nc 0)" mn mx L tot
          "sensor_timestamps flags mn mx nc rs" "sensor_poses vi_map flags mid mn mx nc rs" x
          "fst st" "snd st" "fst st1" "snd st1"]
      by (simp add: sensor_resource_body_def L_def tot_def)
    show "n < length rs" by (rule n)
    show "\<forall>i<n. \<not> isBreakRequested flags ((polls \<circ> snd) (0 :: nat, s2) + i)"
      using quiet by (simp add: s2_def)
    show "isBreakRequested flags ((polls \<circ> snd) (0 :: nat, s2) + n)"
      using seen by (simp add: s2_def)
    show "for_each ?body (take n rs) (0, s2) = Next (idx', s')" by (rule pre')
    show "fst (idx', s') < unat tot" using lt by simp
  qed
  have body: "mission_sensor_body vi_map flags t f (mission_sensors vi_map t mission_ids ! k) s1
          = Return (s'\<lparr>trace := trace s' @ [Poll, WarningAborted], polls := polls s' + 1\<rparr>)"
  proof -
    have "integrate_sensor vi_map flags t f mid G mn mx (sid, rs) s1
            = map_flow snd (for_each ?body rs (0, s2))"
      unfolding sensor_resource_body_def s2_def
      using integrate_sensor_checked [OF ty nc one small, of t f mid G mn mx s1] len
      by (simp del: of_nat_mult)
    then have "integrate_sensor vi_map flags t f mid G mn mx (sid, rs) s1
            = Return (s'\<lparr>trace := trace s' @ [Poll, WarningAborted], polls := polls s' + 1\<rparr>)"
      using loop by simp
    then show ?thesis
      by (simp add: item range mission_sensor_body_def G_def)
  qed
  have "for_each (mission_sensor_body vi_map flags t f) (mission_sensors vi_map t mission_ids) s
          = Return (s'\<lparr>trace := trace s' @ [Poll, WarningAborted], polls := polls s' + 1\<rparr>)"
    using k sensors body by (rule for_each_take_Suc)
  then show "integrateAllOptionalSensorDepthMapResourcesOfTypeImpl mission_ids t vi_map flags
           (Some f) s
           = Return (s'\<lparr>trace := trace s' @ [Poll, WarningAborted], polls := polls s' + 1\<rparr>)"
    by (simp add: sensor_impl_flat [OF sup])
  have "trace s1 = trace s @ concat (map (sensor_events vi_map flags t)
                       (take k (mission_sensors vi_map t mission_ids)))"
    using sensors
    by (rule for_each_blocks [where tr = trace, rotated]) (rule mission_sensor_body_Next)
  then show "trace s' = trace s
           @ concat (map (sensor_events vi_map flags t)
                       (take k (mission_sensors vi_map t mission_ids)))
           @ sensor_resources_events vi_map flags t mid (get_T_G_M vi_map mid) mn mx sid nc rs
               (take n rs)"
    using tr by (simp add: s2_def sensor_resources_events_def G_def L_def)
  show "polls s' = polls s1 + n"
    using loop by (simp add: s2_def)
qed

subsection \<open>The breaker disabled\<close>

lemma check_sigint_ignores_flag:
  assumes "\<not> enable_sigint_breaker flags"
  shows "check_sigint (flags\<lparr>isBreakRequested := b\<rparr>) s = check_sigint flags s"
  using assms by (simp add: check_sigint_def)

lemma integrate_vertex_ignores_flag:
  assumes "\<not> enable_sigint_breaker flags"
  shows "integrate_vertex vi_map (flags\<lparr>isBreakRequested := b\<rparr>) t f nc T_B_Cn G v s
           = integrate_vertex vi_map flags t f nc T_B_Cn G v s"
  using assms by (simp add: integrate_vertex_def check_sigint_def)

lemma frame_impl_ignores_flag:
  fixes vi_map :: "('t::{monoid_mult,inverse}, 'm) VIMap"
    and s :: "('t, 'm, 'st) run_state"
  assumes off: "\<not> enable_sigint_breaker flags"
  shows "integrateAllFrameDepthMapResourcesOfTypeImpl mission_ids t vi_map
           (flags\<lparr>isBreakRequested := b\<rparr>) fo s
         = integrateAllFrameDepthMapResourcesOfTypeImpl mission_ids t vi_map flags fo s"
proof -
  have "integrate_vertex vi_map (flags\<lparr>isBreakRequested := b\<rparr>) t f nc T_B_Cn G
          = integrate_vertex vi_map flags t f nc T_B_Cn G"
    for f :: "('t, 'm, 'st) DepthMapUndistortionAndIntegrationFunction" and nc T_B_Cn G
    by (intro ext) (rule integrate_vertex_ignores_flag [OF off])
  then have "integrate_frame_mission vi_map (flags\<lparr>isBreakRequested := b\<rparr>) t f
          = integrate_frame_mission vi_map flags t f"
    for f :: "('t, 'm, 'st) DepthMapUndistortionAndIntegrationFunction"
    by (intro ext) (simp add: integrate_frame_mission_def Let_def)
  then show ?thesis
    by (simp add: integrateAllFrameDepthMapResourcesOfTypeImpl_def split: option.splits)
qed

lemma integrate_resource_ignores_flag:
  assumes "\<not> enable_sigint_breaker flags"
  shows "integrate_resource vi_map (flags\<lparr>isBreakRequested := b\<rparr>) t f mid sid cam G C mn mx L
           tot arr poses r st
         = integrate_resource vi_map flags t f mid sid cam G C mn mx L tot arr poses r st"
proof (cases st)
  case (Pair idx s)
  have "check_sigint (flags\<lparr>isBreakRequested := b\<rparr>) s = check_sigint flags s"
    using assms by (rule check_sigint_ignores_flag)
  then show ?thesis
    using Pair by (simp add: integrate_resource_def)
qed

lemma sensor_impl_ignores_flag:
  fixes vi_map :: "('t::{monoid_mult,inverse}, 'm) VIMap"
    and s :: "('t, 'm, 'st) run_state"
  assumes off: "\<not> enable_sigint_breaker flags"
  shows "integrateAllOptionalSensorDepthMapResourcesOfTypeImpl mission_ids t vi_map
           (flags\<lparr>isBreakRequested := b\<rparr>) fo s
         = integrateAllOptionalSensorDepthMapResourcesOfTypeImpl mission_ids t vi_map flags fo s"
proof -
  have "integrate_resource vi_map (flags\<lparr>isBreakRequested := b\<rparr>) t f mid sid cam G C mn mx L
           tot arr poses
          = integrate_resource vi_map flags t f mid sid cam G C mn mx L tot arr poses"
    for f :: "('t, 'm, 'st) DepthMapUndistortionAndIntegrationFunction"
      and mid sid cam G C mn mx L tot arr poses
    by (intro ext) (rule integrate_resource_ignores_flag [OF off])
  then have "integrate_sensor vi_map (flags\<lparr>isBreakRequested := b\<rparr>) t f mid G mn mx
          = integrate_sensor vi_map flags t f mid G mn mx"
    for f :: "('t, 'm, 'st) DepthMapUndistortionAndIntegrationFunction" and mid G mn mx
    by (intro ext)
      (simp add: integrate_sensor_def num_lines_per_depth_map_of_def line_delay_ns_of_def
        Let_def split: option.splits prod.splits)
  then have "integrate_sensor_mission vi_map (flags\<lparr>isBreakRequested := b\<rparr>) t f
          = integrate_sensor_mission vi_map flags t f"
    for f :: "('t, 'm, 'st) DepthMapUndistortionAndIntegrationFunction"
    by (intro ext)
      (simp add: integrate_sensor_mission_def Let_def split: option.splits prod.splits)
  then show ?thesis
    by (simp add: integrateAllOptionalSensorDepthMapResourcesOfTypeImpl_def
        split: option.splits)
qed

lemma frame_impl_polls_off:
  fixes vi_map :: "('t::{monoid_mult,inverse}, 'm) VIMap"
    and s :: "('t, 'm, 'st) run_state"
  assumes off: "\<not> enable_sigint_breaker flags"
  shows "polls (state_of (integrateAllFrameDepthMapResourcesOfTypeImpl mission_ids t vi_map
            flags fo s)) = polls s"
proof -
  let ?P = "\<lambda>s' :: ('t, 'm, 'st) run_state. polls s' = polls s"
  have vertex: "?P (state_of (integrate_vertex vi_map flags t f nc T_B_Cn G v s0))"
    if "?P s0" for f nc T_B_Cn G v and s0 :: "('t, 'm, 'st) run_state"
  proof -
    have "integrate_vertex vi_map flags t f nc T_B_Cn G v s0
            = for_each (integrate_frame vi_map t f nc T_B_Cn (G * get_T_M_I vi_map v) v)
                [0..<numFrames vi_map v] s0"
      using off by (simp add: integrate_vertex_def check_sigint_def)
    moreover have "?P (state_of
        (for_each (integrate_frame vi_map t f nc T_B_Cn (G * get_T_M_I vi_map v) v)
           [0..<numFrames vi_map v] s0))"
      by (rule for_each_invariant [where P = ?P]) (simp_all add: integrate_frame_polls that)
    ultimately show ?thesis by simp
  qed
  have mission: "?P (state_of (integrate_frame_mission vi_map flags t f mid s0))"
    if p: "?P s0" for f mid and s0 :: "('t, 'm, 'st) run_state"
  proof (cases "hasNCamera vi_map mid")
    case False
    then show ?thesis using p by (simp add: integrate_frame_mission_def)
  next
    case True
    have "?P (state_of (for_each (integrate_vertex vi_map flags t f
               (getSensor vi_map (getNCameraId vi_map mid))
               (getSensor_T_B_S vi_map (getNCameraId vi_map mid)) (get_T_G_M vi_map mid))
             (getAllVertexIdsInMissionAlongGraph vi_map mid) s0))"
      by (rule for_each_invariant [where P = ?P]) (rule vertex, assumption, rule p)
    then show ?thesis using True by (simp add: integrate_frame_mission_def Let_def)
  qed
  show ?thesis
  proof (cases fo)
    case None
    then show ?thesis by (simp add: integrateAllFrameDepthMapResourcesOfTypeImpl_def)
  next
    case (Some f)
    have "?P (state_of (for_each (integrate_frame_mission vi_map flags t f) mission_ids s))"
      by (rule for_each_invariant [where P = ?P]) (rule mission, assumption, simp)
    then show ?thesis
      using Some by (simp add: integrateAllFrameDepthMapResourcesOfTypeImpl_def)
  qed
qed

lemma integrate_resource_polls_off:
  assumes off: "\<not> enable_sigint_breaker flags"
  shows "polls (snd (state_of
           (integrate_resource vi_map flags t f mid sid cam G C mn mx L tot arr poses r (idx, s))))
         = polls s"
proof -
  define res where
    "res = integrate_resource vi_map flags t f mid sid cam G C mn mx L tot arr poses r (idx, s)"
  have "polls (snd (state_of res)) = polls s"
    using res_def
  proof (cases rule: integrate_resource_shape)
    case index
    then show ?thesis by simp
  next
    case (cancel s')
    then show ?thesis using check_sigint_Inl [of flags s s'] off by simp
  next
    case (failed s1)
    then show ?thesis using check_sigint_Inr [of flags s s1] off by auto
  next
    case (skip s1 vec)
    then show ?thesis using check_sigint_Inr [of flags s s1] off by auto
  next
    case (stop s1 vec)
    then show ?thesis using check_sigint_Inr [of flags s s1] off by auto
  next
    case (dispatch s1 vec depth_map)
    then have "polls (snd (state_of res)) = polls s1"
      by (simp add: state_of_map_flow call_integration_function_polls)
    then show ?thesis using check_sigint_Inr [of flags s s1] dispatch(2) off by auto
  qed
  then show ?thesis by (simp add: res_def)
qed

lemma integrate_sensor_forms:
  fixes vi_map :: "('t::{monoid_mult,inverse}, 'm) VIMap"
  obtains (invalid) "integrate_sensor vi_map flags t f mid G mn mx (sid, rs) s = Fatal s"
  | (short) nc :: "'t NCamera" where
      "integrate_sensor vi_map flags t f mid G mn mx (sid, rs) s
         = Fatal (s\<lparr>trace := trace s @ [Interpolate mid (sensor_timestamps flags mn mx nc rs)]\<rparr>)"
  | (loop) nc where
      "integrate_sensor vi_map flags t f mid G mn mx (sid, rs) s
         = map_flow snd
             (for_each (sensor_resource_body vi_map flags t f mid G mn mx sid nc rs) rs
                (0, s\<lparr>trace := trace s @
                         [Interpolate mid (sensor_timestamps flags mn mx nc rs)]\<rparr>))"
proof (cases "getSensorType vi_map sid = kNCamera
             \<and> (\<exists>nc. getSensorPtr vi_map sid = Some nc \<and> getNumCameras nc = 1)")
  case False
  show ?thesis by (rule invalid) (rule integrate_sensor_invalid [OF False])
next
  case True
  then obtain nc where ty: "getSensorType vi_map sid = kNCamera"
    and nc: "getSensorPtr vi_map sid = Some nc" and one: "getNumCameras nc = 1"
    by blast
  show ?thesis
  proof (cases "length rs * unat (num_lines_per_depth_map_of flags (getCamera nc 0)) < 2 ^ 32")
    case False
    show ?thesis by (rule invalid) (rule integrate_sensor_overflow [OF False nc])
  next
    case small: True
    note res = integrate_sensor_checked [OF ty nc one small, of t f mid G mn mx s]
    show ?thesis
    proof (cases "length (sensor_poses vi_map flags mid mn mx nc rs)
                 \<noteq> length rs * unat (num_lines_per_depth_map_of flags (getCamera nc 0))")
      case True
      show ?thesis by (rule short [of nc]) (use res True in simp)
    next
      case False
      show ?thesis by (rule loop [of nc]) (use res False in \<open>simp add: sensor_resource_body_def\<close>)
    qed
  qed
qed

lemma sensor_impl_polls_off:
  fixes vi_map :: "('t::{monoid_mult,inverse}, 'm) VIMap"
    and s :: "('t, 'm, 'st) run_state"
  assumes off: "\<not> enable_sigint_breaker flags"
  shows "polls (state_of (integrateAllOptionalSensorDepthMapResourcesOfTypeImpl mission_ids t
            vi_map flags fo s)) = polls s"
proof -
  let ?P = "\<lambda>s' :: ('t, 'm, 'st) run_state. polls s' = polls s"
  have sensor: "?P (state_of (integrate_sensor vi_map flags t f mid G mn mx x s0))"
    if p: "?P s0" for f mid G mn mx x and s0 :: "('t, 'm, 'st) run_state"
  proof -
    obtain sid rs where x: "x = (sid, rs)" by (cases x)
    have "?P (state_of (integrate_sensor vi_map flags t f mid G mn mx (sid, rs) s0))"
    proof (cases rule: integrate_sensor_forms [of vi_map flags t f mid G mn mx sid rs s0])
      case invalid
      then show ?thesis using p by simp
    next
      case (short nc)
      then show ?thesis using p by simp
    next
      case (loop nc)
      let ?s1 = "s0\<lparr>trace := trace s0 @ [Interpolate mid (sensor_timestamps flags mn mx nc rs)]\<rparr>"
      let ?Q = "\<lambda>st :: nat \<times> ('t, 'm, 'st) run_state. polls (snd st) = polls s"
      have "?Q (state_of (for_each (sensor_resource_body vi_map flags t f mid G mn mx sid nc rs)
                            rs (0, ?s1)))"
      proof (rule for_each_invariant [where P = ?Q])
        show "?Q (0, ?s1)" using p by simp
      next
        fix r st
        assume "?Q st"
        then show "?Q (state_of (sensor_resource_body vi_map flags t f mid G mn mx sid nc rs r st))"
          using integrate_resource_polls_off [OF off, of vi_map t f mid sid "getCamera nc 0" G
              "getSensor_T_B_S vi_map sid * inverse (get_T_C_B nc 0)" mn mx
              "num_lines_per_depth_map_of flags (getCamera nc 0)"
              "of_nat (length rs * unat (num_lines_per_depth_map_of flags (getCamera nc 0)))"
              "sensor_timestamps flags mn mx nc rs" "sensor_poses vi_map flags mid mn mx nc rs"
              r "fst st" "snd st"]
          by (simp add: sensor_resource_body_def del: of_nat_mult)
      qed
      then show ?thesis using loop by (simp add: state_of_map_flow)
    qed
    then show ?thesis using x by simp
  qed
  have mission: "?P (state_of (integrate_sensor_mission vi_map flags t f mid s0))"
    if p: "?P s0" for f mid and s0 :: "('t, 'm, 'st) run_state"
  proof -
    obtain e mn mx where range: "getVertexToTimeStampMap vi_map mid = (e, mn, mx)"
      by (cases "getVertexToTimeStampMap vi_map mid") auto
    have "?P (state_of (for_each (integrate_sensor vi_map flags t f mid (get_T_G_M vi_map mid)
                          mn mx) sensors s0))" for sensors
      by (rule for_each_invariant [where P = ?P]) (rule sensor, assumption, rule p)
    then show ?thesis
      using range p by (simp add: integrate_sensor_mission_def split: option.splits)
  qed
  show ?thesis
  proof (cases fo)
    case None
    then show ?thesis by (simp add: integrateAllOptionalSensorDepthMapResourcesOfTypeImpl_def)
  next
    case (Some f)
    have "?P (state_of (for_each (integrate_sensor_mission vi_map flags t f) mission_ids s))"
      by (rule for_each_invariant [where P = ?P]) (rule mission, assumption, simp)
    then show ?thesis
      using Some by (simp add: integrateAllOptionalSensorDepthMapResourcesOfTypeImpl_def)
  qed
qed

text \<open>
  Claim C6, amended. A run of the frame-attached path that ends normally leaves, for each vertex
  in turn, the poll (if the breaker is enabled) and then the dispatches of the frames of the
  vertex that have a depth map; a run of the free-running path that ends normally leaves, for
  each sensor in turn, the call of the interpolation and then, for each resource in turn, the
  poll (if the breaker is enabled) and then its warning or its dispatch. With the breaker
  enabled: if the break flag is not set at the polls of the first \<open>n\<close> vertices of the run,
  these are processed without an abort, and the flag is set at the next poll, then the whole run
  returns at that poll: its final state is the state after the \<open>n\<close> vertices with the poll
  and the warning added, its trace holds the events of exactly these \<open>n\<close> vertices, and
  \<open>n\<close> polls were made for them. The same holds for the free-running path, with the flag
  seen at the poll after the first \<open>n\<close> resources of a sensor, after the sensors before it
  were processed to their end. A run returns early only in this way: the breaker is enabled, the
  flag was set at the last poll, and the poll and the warning are the last two events. With the
  breaker disabled a run does not depend on the break flag and makes no poll.
\<close>

theorem cancellation_at_item_granularity:
  fixes vi_map :: "('t::{monoid_mult,inverse}, 'm) VIMap"
    and s :: "('t, 'm, 'st) run_state"
  shows "(integrateAllFrameDepthMapResourcesOfTypeImpl mission_ids t vi_map flags (Some f) s
            = Next s'
          \<longrightarrow> trace s' = trace s @ concat (map (vertex_events vi_map flags t)
                                            (frame_vertices vi_map mission_ids)))
       \<and> (enable_sigint_breaker flags \<and> t \<in> kSupportedDepthMapInputTypes
            \<and> n < length (frame_vertices vi_map mission_ids)
            \<and> (\<forall>i<n. \<not> isBreakRequested flags (polls s + i))
            \<and> isBreakRequested flags (polls s + n)
            \<and> for_each (frame_vertex_body vi_map flags t f)
                 (take n (frame_vertices vi_map mission_ids)) s = Next s'
          \<longrightarrow> integrateAllFrameDepthMapResourcesOfTypeImpl mission_ids t vi_map flags (Some f) s
                = Return (s'\<lparr>trace := trace s' @ [Poll, WarningAborted], polls := polls s' + 1\<rparr>)
              \<and> trace s' = trace s @ concat (map (vertex_events vi_map flags t)
                                                (take n (frame_vertices vi_map mission_ids)))
              \<and> polls s' = polls s + n)
       \<and> (integrateAllOptionalSensorDepthMapResourcesOfTypeImpl mission_ids t vi_map flags
            (Some f) s = Next s'
          \<longrightarrow> trace s' = trace s @ concat (map (sensor_events vi_map flags t)
                                            (mission_sensors vi_map t mission_ids)))
       \<and> (enable_sigint_breaker flags \<and> t \<in> kSupportedDepthMapInputTypes
            \<and> k < length (mission_sensors vi_map t mission_ids)
            \<and> mission_sensors vi_map t mission_ids ! k = (mid, sid, rs)
            \<and> getVertexToTimeStampMap vi_map mid = (e, mn, mx)
            \<and> for_each (mission_sensor_body vi_map flags t f)
                 (take k (mission_sensors vi_map t mission_ids)) s = Next s1
            \<and> getSensorType vi_map sid = kNCamera
            \<and> getSensorPtr vi_map sid = Some nc
            \<and> getNumCameras nc = 1
            \<and> 0 < unat (num_lines_per_depth_map_of flags (getCamera nc 0))
            \<and> length rs * unat (num_lines_per_depth_map_of flags (getCamera nc 0)) < 2 ^ 32
            \<and> length (sensor_poses vi_map flags mid mn mx nc rs)
                 = length rs * unat (num_lines_per_depth_map_of flags (getCamera nc 0))
            \<and> n < length rs
            \<and> (\<forall>i<n. \<not> isBreakRequested flags (polls s1 + i))
            \<and> isBreakRequested flags (polls s1 + n)
            \<and> for_each
                 (sensor_resource_body vi_map flags t f mid (get_T_G_M vi_map mid) mn mx sid nc rs)
                 (take n rs)
                 (0, s1\<lparr>trace := trace s1 @
                          [Interpolate mid (sensor_timestamps flags mn mx nc rs)]\<rparr>)
               = Next (idx', s')
          \<longrightarrow> integrateAllOptionalSensorDepthMapResourcesOfTypeImpl mission_ids t vi_map flags
                (Some f) s
                = Return (s'\<lparr>trace := trace s' @ [Poll, WarningAborted], polls := polls s' + 1\<rparr>)
              \<and> trace s' = trace s
                   @ concat (map (sensor_events vi_map flags t)
                               (take k (mission_sensors vi_map t mission_ids)))
                   @ sensor_resources_events vi_map flags t mid (get_T_G_M vi_map mid) mn mx sid
                       nc rs (take n rs)
              \<and> polls s' = polls s1 + n)
       \<and> (integrateAllFrameDepthMapResourcesOfTypeImpl mission_ids t vi_map flags fo s
            = Return s'
            \<or> integrateAllOptionalSensorDepthMapResourcesOfTypeImpl mission_ids t vi_map flags
                 fo s = Return s'
          \<longrightarrow> enable_sigint_breaker flags
              \<and> (\<exists>s0. isBreakRequested flags (polls s0)
                      \<and> s' = s0\<lparr>trace := trace s0 @ [Poll, WarningAborted],
                                 polls := polls s0 + 1\<rparr>))
       \<and> (\<not> enable_sigint_breaker flags
          \<longrightarrow> integrateAllFrameDepthMapResourcesOfTypeImpl mission_ids t vi_map
                 (flags\<lparr>isBreakRequested := b\<rparr>) fo s
                = integrateAllFrameDepthMapResourcesOfTypeImpl mission_ids t vi_map flags fo s
              \<and> integrateAllOptionalSensorDepthMapResourcesOfTypeImpl mission_ids t vi_map
                 (flags\<lparr>isBreakRequested := b\<rparr>) fo s
                = integrateAllOptionalSensorDepthMapResourcesOfTypeImpl mission_ids t vi_map
                    flags fo s
              \<and> polls (state_of (integrateAllFrameDepthMapResourcesOfTypeImpl mission_ids t
                         vi_map flags fo s)) = polls s
              \<and> polls (state_of (integrateAllOptionalSensorDepthMapResourcesOfTypeImpl
                         mission_ids t vi_map flags fo s)) = polls s)"
proof (intro conjI impI)
  assume "integrateAllFrameDepthMapResourcesOfTypeImpl mission_ids t vi_map flags (Some f) s
            = Next s'"
  then show "trace s' = trace s @ concat (map (vertex_events vi_map flags t)
                                            (frame_vertices vi_map mission_ids))"
    by (rule frame_impl_Next)
next
  assume a: "enable_sigint_breaker flags \<and> t \<in> kSupportedDepthMapInputTypes
            \<and> n < length (frame_vertices vi_map mission_ids)
            \<and> (\<forall>i<n. \<not> isBreakRequested flags (polls s + i))
            \<and> isBreakRequested flags (polls s + n)
            \<and> for_each (frame_vertex_body vi_map flags t f)
                 (take n (frame_vertices vi_map mission_ids)) s = Next s'"
  note c = frame_impl_cancelled [where flags = flags and t = t and n = n and vi_map = vi_map
      and mission_ids = mission_ids and s = s and f = f and s' = s',
      OF a [THEN conjunct1] a [THEN conjunct2, THEN conjunct1]
        a [THEN conjunct2, THEN conjunct2, THEN conjunct1]
        a [THEN conjunct2, THEN conjunct2, THEN conjunct2, THEN conjunct1]
        a [THEN conjunct2, THEN conjunct2, THEN conjunct2, THEN conjunct2, THEN conjunct1]
        a [THEN conjunct2, THEN conjunct2, THEN conjunct2, THEN conjunct2, THEN conjunct2]]
  show "integrateAllFrameDepthMapResourcesOfTypeImpl mission_ids t vi_map flags (Some f) s
                = Return (s'\<lparr>trace := trace s' @ [Poll, WarningAborted], polls := polls s' + 1\<rparr>)"
    by (rule c(1))
  show "trace s' = trace s @ concat (map (vertex_events vi_map flags t)
                                                (take n (frame_vertices vi_map mission_ids)))"
    by (rule c(2))
  show "polls s' = polls s + n"
    by (rule c(3))
next
  assume "integrateAllOptionalSensorDepthMapResourcesOfTypeImpl mission_ids t vi_map flags
            (Some f) s = Next s'"
  then show "trace s' = trace s @ concat (map (sensor_events vi_map flags t)
                                            (mission_sensors vi_map t mission_ids))"
    by (rule sensor_impl_Next)
next
  assume a: "enable_sigint_breaker flags \<and> t \<in> kSupportedDepthMapInputTypes
            \<and> k < length (mission_sensors vi_map t mission_ids)
            \<and> mission_sensors vi_map t mission_ids ! k = (mid, sid, rs)
            \<and> getVertexToTimeStampMap vi_map mid = (e, mn, mx)
            \<and> for_each (mission_sensor_body vi_map flags t f)
                 (take k (mission_sensors vi_map t mission_ids)) s = Next s1
            \<and> getSensorType vi_map sid = kNCamera
            \<and> getSensorPtr vi_map sid = Some nc
            \<and> getNumCameras nc = 1
            \<and> 0 < unat (num_lines_per_depth_map_of flags (getCamera nc 0))
            \<and> length rs * unat (num_lines_per_depth_map_of flags (getCamera nc 0)) < 2 ^ 32
            \<and> length (sensor_poses vi_map flags mid mn mx nc rs)
                 = length rs * unat (num_lines_per_depth_map_of flags (getCamera nc 0))
            \<and> n < length rs
            \<and> (\<forall>i<n. \<not> isBreakRequested flags (polls s1 + i))
            \<and> isBreakRequested flags (polls s1 + n)
            \<and> for_each
                 (sensor_resource_body vi_map flags t f mid (get_T_G_M vi_map mid) mn mx sid nc rs)
                 (take n rs)
                 (0, s1\<lparr>trace := trace s1 @
                          [Interpolate mid (sensor_timestamps flags mn mx nc rs)]\<rparr>)
               = Next (idx', s')"
  have a1: "enable_sigint_breaker flags" using a by (rule conjunct1)
  note r = a [THEN conjunct2]
  have a2: "t \<in> kSupportedDepthMapInputTypes" using r by (rule conjunct1)
  note r = r [THEN conjunct2]
  have a3: "k < length (mission_sensors vi_map t mission_ids)" using r by (rule conjunct1)
  note r = r [THEN conjunct2]
  have a4: "mission_sensors vi_map t mission_ids ! k = (mid, sid, rs)" using r by (rule conjunct1)
  note r = r [THEN conjunct2]
  have a5: "getVertexToTimeStampMap vi_map mid = (e, mn, mx)" using r by (rule conjunct1)
  note r = r [THEN conjunct2]
  have a6: "for_each (mission_sensor_body vi_map flags t f)
                 (take k (mission_sensors vi_map t mission_ids)) s = Next s1"
    using r by (rule conjunct1)
  note r = r [THEN conjunct2]
  have a7: "getSensorType vi_map sid = kNCamera" using r by (rule conjunct1)
  note r = r [THEN conjunct2]
  have a8: "getSensorPtr vi_map sid = Some nc" using r by (rule conjunct1)
  note r = r [THEN conjunct2]
  have a9: "getNumCameras nc = 1" using r by (rule conjunct1)
  note r = r [THEN conjunct2]
  have a10: "0 < unat (num_lines_per_depth_map_of flags (getCamera nc 0))"
    using r by (rule conjunct1)
  note r = r [THEN conjunct2]
  have a11: "length rs * unat (num_lines_per_depth_map_of flags (getCamera nc 0)) < 2 ^ 32"
    using r by (rule conjunct1)
  note r = r [THEN conjunct2]
  have a12: "length (sensor_poses vi_map flags mid mn mx nc rs)
                 = length rs * unat (num_lines_per_depth_map_of flags (getCamera nc 0))"
    using r by (rule conjunct1)
  note r = r [THEN conjunct2]
  have a13: "n < length rs" using r by (rule conjunct1)
  note r = r [THEN conjunct2]
  have a14: "\<forall>i<n. \<not> isBreakRequested flags (polls s1 + i)" using r by (rule conjunct1)
  note r = r [THEN conjunct2]
  have a15: "isBreakRequested flags (polls s1 + n)" using r by (rule conjunct1)
  have a16: "for_each
                 (sensor_resource_body vi_map flags t f mid (get_T_G_M vi_map mid) mn mx sid nc rs)
                 (take n rs)
                 (0, s1\<lparr>trace := trace s1 @
                          [Interpolate mid (sensor_timestamps flags mn mx nc rs)]\<rparr>)
               = Next (idx', s')"
    using r by (rule conjunct2)
  note c = sensor_impl_cancelled [OF a1 a2 a3 a4 a5 a6 a7 a8 a9 a10 a11 a12 a13 a14 a15 a16]
  show "integrateAllOptionalSensorDepthMapResourcesOfTypeImpl mission_ids t vi_map flags
                (Some f) s
                = Return (s'\<lparr>trace := trace s' @ [Poll, WarningAborted], polls := polls s' + 1\<rparr>)"
    by (rule c(1))
  show "trace s' = trace s
                   @ concat (map (sensor_events vi_map flags t)
                               (take k (mission_sensors vi_map t mission_ids)))
                   @ sensor_resources_events vi_map flags t mid (get_T_G_M vi_map mid) mn mx sid
                       nc rs (take n rs)"
    by (rule c(2))
  show "polls s' = polls s1 + n"
    by (rule c(3))
next
  assume r: "integrateAllFrameDepthMapResourcesOfTypeImpl mission_ids t vi_map flags fo s
            = Return s'
            \<or> integrateAllOptionalSensorDepthMapResourcesOfTypeImpl mission_ids t vi_map flags
                 fo s = Return s'"
  have c: "enable_sigint_breaker flags
              \<and> (\<exists>s0. isBreakRequested flags (polls s0)
                      \<and> s' = s0\<lparr>trace := trace s0 @ [Poll, WarningAborted],
                                 polls := polls s0 + 1\<rparr>)"
    using r
  proof
    assume "integrateAllFrameDepthMapResourcesOfTypeImpl mission_ids t vi_map flags fo s
              = Return s'"
    then show ?thesis by (rule frame_impl_Return)
  next
    assume "integrateAllOptionalSensorDepthMapResourcesOfTypeImpl mission_ids t vi_map flags
              fo s = Return s'"
    then show ?thesis by (rule sensor_impl_Return)
  qed
  from c show "enable_sigint_breaker flags" by (rule conjunct1)
  from c show "\<exists>s0. isBreakRequested flags (polls s0)
                      \<and> s' = s0\<lparr>trace := trace s0 @ [Poll, WarningAborted],
                                 polls := polls s0 + 1\<rparr>"
    by (rule conjunct2)
next
  assume off: "\<not> enable_sigint_breaker flags"
  show "integrateAllFrameDepthMapResourcesOfTypeImpl mission_ids t vi_map
                 (flags\<lparr>isBreakRequested := b\<rparr>) fo s
                = integrateAllFrameDepthMapResourcesOfTypeImpl mission_ids t vi_map flags fo s"
    using off by (rule frame_impl_ignores_flag)
  show "integrateAllOptionalSensorDepthMapResourcesOfTypeImpl mission_ids t vi_map
                 (flags\<lparr>isBreakRequested := b\<rparr>) fo s
                = integrateAllOptionalSensorDepthMapResourcesOfTypeImpl mission_ids t vi_map
                    flags fo s"
    using off by (rule sensor_impl_ignores_flag)
  show "polls (state_of (integrateAllFrameDepthMapResourcesOfTypeImpl mission_ids t
                         vi_map flags fo s)) = polls s"
    using off by (rule frame_impl_polls_off)
  show "polls (state_of (integrateAllOptionalSensorDepthMapResourcesOfTypeImpl
                         mission_ids t vi_map flags fo s)) = polls s"
    using off by (rule sensor_impl_polls_off)
qed

text \<open>
  Claim C6, as stated, fails twice. The number of dispatches is not the number of items
  processed: on the example the first vertex has two frames with a depth map each, so a flag
  set while the first of the two vertices is processed leaves two dispatches. And the poll is
  gated by a command-line flag: with the breaker disabled and the break flag set from the start,
  the run makes no poll and processes everything.
\<close>

theorem cancellation_counterexample:
  "\<not> isBreakRequested ex_flags_break 0 \<and> isBreakRequested ex_flags_break 1
   \<and> integrateAllFrameDepthMapResourcesOfTypeImpl [0] kRawDepthMap ex_map ex_flags_break
        (Some ex_integrate) ex_state
      = Return \<lparr>trace = [Poll, Dispatch [105 / 2] 100 None ex_camera,
                         Dispatch [105 / 4] 101 (Some 300) ex_camera, Poll, WarningAborted],
                polls = 2, fusion = 2\<rparr>
   \<and> isBreakRequested ex_flags_disabled 0
   \<and> integrateAllFrameDepthMapResourcesOfTypeImpl [0] kRawDepthMap ex_map ex_flags_disabled
        (Some ex_integrate) ex_state
      = Next \<lparr>trace = [Dispatch [105 / 2] 100 None ex_camera,
                       Dispatch [105 / 4] 101 (Some 300) ex_camera],
              polls = 0, fusion = 2\<rparr>"
proof (intro conjI)
  show "integrateAllFrameDepthMapResourcesOfTypeImpl [0] kRawDepthMap ex_map ex_flags_break
        (Some ex_integrate) ex_state
      = Return \<lparr>trace = [Poll, Dispatch [105 / 2] 100 None ex_camera,
                         Dispatch [105 / 4] 101 (Some 300) ex_camera, Poll, WarningAborted],
                polls = 2, fusion = 2\<rparr>"
    by code_simp
  show "integrateAllFrameDepthMapResourcesOfTypeImpl [0] kRawDepthMap ex_map ex_flags_disabled
        (Some ex_integrate) ex_state
      = Next \<lparr>trace = [Dispatch [105 / 2] 100 None ex_camera,
                       Dispatch [105 / 4] 101 (Some 300) ex_camera],
              polls = 0, fusion = 2\<rparr>"
    by code_simp
qed (simp_all add: ex_flags_break_def ex_flags_disabled_def)

lemma ex_frame_vertices:
  "frame_vertices ex_map [0] = [(0, 3), (0, 5)]"
  by (simp add: frame_vertices_def ex_map_simps)

lemma ex_frame_prefix:
  "for_each (frame_vertex_body ex_map ex_flags_break kRawDepthMap ex_integrate)
     (take 1 (frame_vertices ex_map [0])) ex_state
   = Next \<lparr>trace = [Poll, Dispatch [105 / 2] 100 None ex_camera,
                    Dispatch [105 / 4] 101 (Some 300) ex_camera],
           polls = 1, fusion = 2\<rparr>"
  by code_simp

lemma ex_mission_sensors:
  "mission_sensors ex_map kRawDepthMap [0] = [(0, 0, [(500, 7), (2000, 8)])]"
  by (simp add: mission_sensors_def ex_map_simps)

lemma ex_resources_prefix:
  "for_each (integrate_resource ex_map ex_flags_break kRawDepthMap ex_integrate 0 0 ex_camera 5
       (3 / 2) 0 1000 3 6 [500, 600, 700, 1000, 1000, 1000] [500, 600, 700, 1000, 1000, 1000])
     (take 1 [(500, 7), (2000, 8)])
     (0, \<lparr>trace = [Interpolate 0 [500, 600, 700, 1000, 1000, 1000]], polls = 0, fusion = 0\<rparr>)
   = Next (3, \<lparr>trace = [Interpolate 0 [500, 600, 700, 1000, 1000, 1000], Poll,
                        Dispatch [3750, 4500, 5250] 500 None ex_camera],
               polls = 1, fusion = 1\<rparr>)"
  by code_simp

lemma ex_sensor_prefix:
  "for_each
     (sensor_resource_body ex_map ex_flags_break kRawDepthMap ex_integrate 0 (get_T_G_M ex_map 0)
        0 1000 0 ex_ncamera [(500, 7), (2000, 8)])
     (take 1 [(500, 7), (2000, 8)])
     (0, ex_state\<lparr>trace := trace ex_state @
            [Interpolate 0 (sensor_timestamps ex_flags_break 0 1000 ex_ncamera
                              [(500, 7), (2000, 8)])]\<rparr>)
   = Next (3, \<lparr>trace = [Interpolate 0 [500, 600, 700, 1000, 1000, 1000], Poll,
                        Dispatch [3750, 4500, 5250] 500 None ex_camera],
               polls = 1, fusion = 1\<rparr>)"
proof -
  have "sensor_resource_body ex_map ex_flags_break kRawDepthMap ex_integrate 0
          (get_T_G_M ex_map 0) 0 1000 0 ex_ncamera [(500, 7), (2000, 8)]
        = integrate_resource ex_map ex_flags_break kRawDepthMap ex_integrate 0 0 ex_camera 5
            (3 / 2) 0 1000 3 6 [500, 600, 700, 1000, 1000, 1000]
            [500, 600, 700, 1000, 1000, 1000]"
    by (simp add: sensor_resource_body_def ex_map_simps ex_ncamera_simps ex_sensor_timestamps
        ex_sensor_poses)
  moreover have "ex_state\<lparr>trace := trace ex_state @
            [Interpolate 0 (sensor_timestamps ex_flags_break 0 1000 ex_ncamera
                              [(500, 7), (2000, 8)])]\<rparr>
        = \<lparr>trace = [Interpolate 0 [500, 600, 700, 1000, 1000, 1000]], polls = 0, fusion = 0\<rparr>"
    by (simp add: ex_state_def ex_sensor_timestamps)
  ultimately show ?thesis
    by (simp only: ex_resources_prefix)
qed

theorem cancellation_at_item_granularity_witness:
  "concat (map (vertex_events ex_map ex_flags kRawDepthMap) (frame_vertices ex_map [0]))
     = [Poll, Dispatch [105 / 2] 100 None ex_camera,
        Dispatch [105 / 4] 101 (Some 300) ex_camera, Poll]
   \<and> enable_sigint_breaker ex_flags_break
   \<and> kRawDepthMap \<in> kSupportedDepthMapInputTypes
   \<and> (1 :: nat) < length (frame_vertices ex_map [0])
   \<and> \<not> isBreakRequested ex_flags_break (polls ex_state + 0)
   \<and> isBreakRequested ex_flags_break (polls ex_state + 1)
   \<and> integrateAllFrameDepthMapResourcesOfTypeImpl [0] kRawDepthMap ex_map ex_flags_break
        (Some ex_integrate) ex_state
      = Return \<lparr>trace = [Poll, Dispatch [105 / 2] 100 None ex_camera,
                         Dispatch [105 / 4] 101 (Some 300) ex_camera, Poll, WarningAborted],
                polls = 2, fusion = 2\<rparr>
   \<and> concat (map (vertex_events ex_map ex_flags_break kRawDepthMap)
               (take 1 (frame_vertices ex_map [0])))
     = [Poll, Dispatch [105 / 2] 100 None ex_camera, Dispatch [105 / 4] 101 (Some 300) ex_camera]
   \<and> concat (map (sensor_events ex_map ex_flags kRawDepthMap)
               (mission_sensors ex_map kRawDepthMap [0]))
     = [Interpolate 0 [500, 600, 700, 1000, 1000, 1000], Poll,
        Dispatch [3750, 4500, 5250] 500 None ex_camera, Poll,
        Dispatch [7500, 7500, 7500] 2000 None ex_camera]
   \<and> (0 :: nat) < length (mission_sensors ex_map kRawDepthMap [0])
   \<and> mission_sensors ex_map kRawDepthMap [0] ! 0 = (0, 0, [(500, 7), (2000, 8)])
   \<and> getVertexToTimeStampMap ex_map 0 = (False, 0, 1000)
   \<and> getSensorType ex_map 0 = kNCamera
   \<and> getSensorPtr ex_map 0 = Some ex_ncamera
   \<and> getNumCameras ex_ncamera = 1
   \<and> (1 :: nat) < length [(500 :: int64, 7 :: nat), (2000, 8)]
   \<and> integrateAllOptionalSensorDepthMapResourcesOfTypeImpl [0] kRawDepthMap ex_map
        ex_flags_break (Some ex_integrate) ex_state
      = Return \<lparr>trace = [Interpolate 0 [500, 600, 700, 1000, 1000, 1000], Poll,
                         Dispatch [3750, 4500, 5250] 500 None ex_camera, Poll, WarningAborted],
                polls = 2, fusion = 1\<rparr>
   \<and> sensor_resources_events ex_map ex_flags_break kRawDepthMap 0 (get_T_G_M ex_map 0) 0 1000 0
        ex_ncamera [(500, 7), (2000, 8)] (take 1 [(500, 7), (2000, 8)])
     = [Interpolate 0 [500, 600, 700, 1000, 1000, 1000], Poll,
        Dispatch [3750, 4500, 5250] 500 None ex_camera]
   \<and> (\<exists>s0. isBreakRequested ex_flags_break (polls s0)
          \<and> \<lparr>trace = [Poll, Dispatch [105 / 2 :: real] (100 :: nat) None ex_camera,
                       Dispatch [105 / 4] 101 (Some 300) ex_camera, Poll, WarningAborted],
              polls = 2, fusion = 2 :: nat\<rparr>
            = s0\<lparr>trace := trace s0 @ [Poll, WarningAborted], polls := polls s0 + 1\<rparr>)
   \<and> \<not> enable_sigint_breaker ex_flags_disabled
   \<and> integrateAllFrameDepthMapResourcesOfTypeImpl [0] kRawDepthMap ex_map
        (ex_flags_disabled\<lparr>isBreakRequested := (\<lambda>_. False)\<rparr>) (Some ex_integrate) ex_state
      = integrateAllFrameDepthMapResourcesOfTypeImpl [0] kRawDepthMap ex_map ex_flags_disabled
          (Some ex_integrate) ex_state
   \<and> integrateAllOptionalSensorDepthMapResourcesOfTypeImpl [0] kRawDepthMap ex_map
        (ex_flags_disabled\<lparr>isBreakRequested := (\<lambda>_. False)\<rparr>) (Some ex_integrate) ex_state
      = integrateAllOptionalSensorDepthMapResourcesOfTypeImpl [0] kRawDepthMap ex_map
          ex_flags_disabled (Some ex_integrate) ex_state
   \<and> polls (state_of (integrateAllFrameDepthMapResourcesOfTypeImpl [0] kRawDepthMap ex_map
        ex_flags_disabled (Some ex_integrate) ex_state)) = polls ex_state
   \<and> polls (state_of (integrateAllOptionalSensorDepthMapResourcesOfTypeImpl [0] kRawDepthMap
        ex_map ex_flags_disabled (Some ex_integrate) ex_state)) = polls ex_state"
proof -
  have en: "enable_sigint_breaker ex_flags_break"
    by (simp add: ex_flags_break_def)
  have sup: "kRawDepthMap \<in> kSupportedDepthMapInputTypes"
    by (simp add: kSupportedDepthMapInputTypes_def)
  have n1: "(1 :: nat) < length (frame_vertices ex_map [0])"
    by (simp add: ex_frame_vertices)
  have quiet: "\<forall>i<1. \<not> isBreakRequested ex_flags_break (polls ex_state + i)"
    by (simp add: ex_flags_break_def ex_state_def)
  have quiet0: "\<not> isBreakRequested ex_flags_break (polls ex_state + 0)"
    by (simp add: ex_flags_break_def ex_state_def)
  have seen: "isBreakRequested ex_flags_break (polls ex_state + 1)"
    by (simp add: ex_flags_break_def ex_state_def)
  have k0: "(0 :: nat) < length (mission_sensors ex_map kRawDepthMap [0])"
    by (simp add: ex_mission_sensors)
  have item: "mission_sensors ex_map kRawDepthMap [0] ! 0 = (0, 0, [(500, 7), (2000, 8)])"
    by (simp add: ex_mission_sensors)
  have range: "getVertexToTimeStampMap ex_map 0 = (False, 0, 1000)"
    by (simp add: ex_map_simps)
  have none: "for_each (mission_sensor_body ex_map ex_flags_break kRawDepthMap ex_integrate)
                (take 0 (mission_sensors ex_map kRawDepthMap [0])) ex_state = Next ex_state"
    by simp
  have ty: "getSensorType ex_map 0 = kNCamera"
    by (simp add: ex_map_simps)
  have nc: "getSensorPtr ex_map 0 = Some ex_ncamera"
    by (simp add: ex_map_simps)
  have one: "getNumCameras ex_ncamera = 1"
    by (simp add: ex_ncamera_simps)
  have lines: "0 < unat (num_lines_per_depth_map_of ex_flags_break (getCamera ex_ncamera 0))"
    by (simp add: ex_ncamera_simps)
  have small: "length [(500 :: int64, 7 :: nat), (2000, 8)]
                 * unat (num_lines_per_depth_map_of ex_flags_break (getCamera ex_ncamera 0))
               < 2 ^ 32"
    by (simp add: ex_ncamera_simps)
  have len: "length (sensor_poses ex_map ex_flags_break 0 0 1000 ex_ncamera
                       [(500, 7), (2000, 8)])
               = length [(500 :: int64, 7 :: nat), (2000, 8)]
                   * unat (num_lines_per_depth_map_of ex_flags_break (getCamera ex_ncamera 0))"
    by (simp add: ex_ncamera_simps ex_sensor_poses)
  have n2: "(1 :: nat) < length [(500 :: int64, 7 :: nat), (2000, 8)]"
    by simp
  have off: "\<not> enable_sigint_breaker ex_flags_disabled"
    by (simp add: ex_flags_disabled_def)
  note wA = cancellation_at_item_granularity [where vi_map = ex_map and flags = ex_flags
      and t = kRawDepthMap and mission_ids = "[0]" and f = ex_integrate and s = ex_state,
      THEN conjunct1, THEN mp, OF ex_frame_run]
  note wB = cancellation_at_item_granularity [where vi_map = ex_map and flags = ex_flags_break
      and t = kRawDepthMap and mission_ids = "[0]" and f = ex_integrate and s = ex_state
      and n = 1,
      THEN conjunct2, THEN conjunct1, THEN mp,
      OF conjI [OF en conjI [OF sup conjI [OF n1 conjI [OF quiet conjI [OF seen
           ex_frame_prefix]]]]]]
  note wC = cancellation_at_item_granularity [where vi_map = ex_map and flags = ex_flags
      and t = kRawDepthMap and mission_ids = "[0]" and f = ex_integrate and s = ex_state,
      THEN conjunct2, THEN conjunct2, THEN conjunct1, THEN mp, OF ex_sensor_run]
  note wD = cancellation_at_item_granularity [where vi_map = ex_map and flags = ex_flags_break
      and t = kRawDepthMap and mission_ids = "[0]" and f = ex_integrate and s = ex_state
      and k = 0 and mid = 0 and sid = 0 and rs = "[(500, 7), (2000, 8)]" and e = False
      and mn = 0 and mx = 1000 and ?s1.0 = ex_state and nc = ex_ncamera and n = 1,
      THEN conjunct2, THEN conjunct2, THEN conjunct2, THEN conjunct1, THEN mp,
      OF conjI [OF en conjI [OF sup conjI [OF k0 conjI [OF item conjI [OF range
           conjI [OF none conjI [OF ty conjI [OF nc conjI [OF one conjI [OF lines
           conjI [OF small conjI [OF len conjI [OF n2 conjI [OF quiet conjI [OF seen
           ex_sensor_prefix]]]]]]]]]]]]]]]]
  have rB: "integrateAllFrameDepthMapResourcesOfTypeImpl [0] kRawDepthMap ex_map ex_flags_break
        (Some ex_integrate) ex_state
      = Return \<lparr>trace = [Poll, Dispatch [105 / 2] 100 None ex_camera,
                         Dispatch [105 / 4] 101 (Some 300) ex_camera, Poll, WarningAborted],
                polls = 2, fusion = 2\<rparr>"
    using wB [THEN conjunct1] by simp
  note wE = cancellation_at_item_granularity [where vi_map = ex_map and flags = ex_flags_break
      and t = kRawDepthMap and mission_ids = "[0]" and fo = "Some ex_integrate" and s = ex_state,
      THEN conjunct2, THEN conjunct2, THEN conjunct2, THEN conjunct2, THEN conjunct1, THEN mp,
      OF disjI1 [OF rB], THEN conjunct2]
  note wF = cancellation_at_item_granularity [where vi_map = ex_map and flags = ex_flags_disabled
      and t = kRawDepthMap and mission_ids = "[0]" and fo = "Some ex_integrate" and s = ex_state
      and b = "\<lambda>_. False",
      THEN conjunct2, THEN conjunct2, THEN conjunct2, THEN conjunct2, THEN conjunct2, THEN mp,
      OF off]
  have cA: "concat (map (vertex_events ex_map ex_flags kRawDepthMap) (frame_vertices ex_map [0]))
     = [Poll, Dispatch [105 / 2] 100 None ex_camera,
        Dispatch [105 / 4] 101 (Some 300) ex_camera, Poll]"
    using wA [symmetric] by (simp add: ex_state_def)
  have cB: "concat (map (vertex_events ex_map ex_flags_break kRawDepthMap)
               (take 1 (frame_vertices ex_map [0])))
     = [Poll, Dispatch [105 / 2] 100 None ex_camera, Dispatch [105 / 4] 101 (Some 300) ex_camera]"
    using wB [THEN conjunct2, THEN conjunct1, symmetric] by (simp add: ex_state_def)
  have cC: "concat (map (sensor_events ex_map ex_flags kRawDepthMap)
               (mission_sensors ex_map kRawDepthMap [0]))
     = [Interpolate 0 [500, 600, 700, 1000, 1000, 1000], Poll,
        Dispatch [3750, 4500, 5250] 500 None ex_camera, Poll,
        Dispatch [7500, 7500, 7500] 2000 None ex_camera]"
    using wC [symmetric] by (simp add: ex_state_def)
  have rD: "integrateAllOptionalSensorDepthMapResourcesOfTypeImpl [0] kRawDepthMap ex_map
        ex_flags_break (Some ex_integrate) ex_state
      = Return \<lparr>trace = [Interpolate 0 [500, 600, 700, 1000, 1000, 1000], Poll,
                         Dispatch [3750, 4500, 5250] 500 None ex_camera, Poll, WarningAborted],
                polls = 2, fusion = 1\<rparr>"
    using wD [THEN conjunct1] by simp
  have cD: "sensor_resources_events ex_map ex_flags_break kRawDepthMap 0 (get_T_G_M ex_map 0)
              0 1000 0 ex_ncamera [(500, 7), (2000, 8)] (take 1 [(500, 7), (2000, 8)])
     = [Interpolate 0 [500, 600, 700, 1000, 1000, 1000], Poll,
        Dispatch [3750, 4500, 5250] 500 None ex_camera]"
    using wD [THEN conjunct2, THEN conjunct1, symmetric] by (simp add: ex_state_def)
  show ?thesis
    by (intro conjI cA en sup n1 quiet0 seen rB cB cC k0 item range ty nc one n2 rD cD wE off
        wF [THEN conjunct1] wF [THEN conjunct2, THEN conjunct1]
        wF [THEN conjunct2, THEN conjunct2, THEN conjunct1]
        wF [THEN conjunct2, THEN conjunct2, THEN conjunct2])
qed

end
